(* ===== verification/Prelude.thy ===== *)
theory Prelude
  imports Main
begin

text \<open>
  Shared vocabulary of the tontine development: the JavaScript idioms the route
  handlers of the repository use (truthiness of request fields, \<open>Array.find\<close>
  followed by in-place mutation of the found object, ASCII \<open>toUpperCase\<close>), the
  states of the two JSON data files as the handlers observe them, the exceptions a
  handler's \<open>try\<close> block catches and the API errors with their HTTP status codes.
  The collections \<open>js_simps\<close> and \<open>route_defs\<close> gather the equations the
  component theories unfold.
\<close>

named_theorems js_simps "equations of the JavaScript helper functions"
named_theorems route_defs "definitions of the route handlers, unfolded when they are evaluated"

type_synonym time = int \<comment> \<open>\<open>Date.now()\<close>: milliseconds since the epoch\<close>
type_synonym field = "string option" \<comment> \<open>a field of a JSON request body; None when absent\<close>

subsection \<open>Truthiness of request fields\<close>

text \<open>\<open>!x\<close> on a field read from \<open>req.json()\<close>: \<open>undefined\<close> and \<open>''\<close> are falsy.\<close>

definition truthy :: "field \<Rightarrow> bool" where
  "truthy v = (case v of None \<Rightarrow> False | Some s \<Rightarrow> s \<noteq> [])"

lemma truthy_simps [simp, js_simps]:
  "truthy None = False" "truthy (Some s) = (s \<noteq> [])"
  by (simp_all add: truthy_def)

subsection \<open>Data files\<close>

text \<open>
  The content of \<open>data/tontines.json\<close> or \<open>data/users.json\<close> as the handlers see it:
  no file, a file of white space only, a JSON array, or text that \<open>JSON.parse\<close>
  rejects. Writing \<open>JSON.stringify(xs)\<close> gives \<open>Json xs\<close>.
\<close>

datatype 'a jfile = Missing | Blank | Json 'a | Garbage

text \<open>Exceptions thrown inside a handler's \<open>try\<close> block.\<close>

datatype exc =
    FileNotFound       \<comment> \<open>\<open>readFileSync\<close> of a missing file\<close>
  | ParseError         \<comment> \<open>\<open>JSON.parse\<close> of blank or malformed text\<close>
  | TypeError          \<comment> \<open>property read on \<open>undefined\<close>, e.g. \<open>tontine.wallet.address\<close>\<close>
  | NetworkError       \<comment> \<open>the XRPL client cannot connect or the request fails\<close>
  | AccountNotFound    \<comment> \<open>\<open>account_lines\<close> or \<open>autofill\<close> on an unfunded account\<close>
  | InvalidSeed        \<comment> \<open>\<open>Wallet.fromSeed\<close> of a malformed secret\<close>
  | NoBalance          \<comment> \<open>\<open>transferFunds\<close>: no RLUSD to send\<close>
  | TxFailed string    \<comment> \<open>a submitted transaction's result is not tesSUCCESS\<close>
  | InvalidTx          \<comment> \<open>\<open>autofill\<close> rejects a malformed transaction\<close>
  | CurrencyLength     \<comment> \<open>\<open>toHexCurrency\<close>: code not 3 to 6 characters long\<close>
  | TrustlineNotVerified \<comment> \<open>\<open>createTemporaryWallet\<close>: the line is not found after TrustSet\<close>

text \<open>Reading a data file the way \<open>triggerTransfer\<close> and \<open>createWallet\<close> do:
  \<open>existsSync\<close>, then \<open>trim()\<close>, then \<open>data ? JSON.parse(data) : []\<close>.\<close>

fun read_trimmed :: "'a list jfile \<Rightarrow> exc + 'a list" where
  "read_trimmed Missing = Inr []"
| "read_trimmed Blank = Inr []"
| "read_trimmed (Json xs) = Inr xs"
| "read_trimmed Garbage = Inl ParseError"

text \<open>Reading with \<open>readFileSync\<close> and \<open>JSON.parse\<close>, without a check or a trim.\<close>

fun read_strict :: "'a jfile \<Rightarrow> exc + 'a" where
  "read_strict Missing = Inl FileNotFound"
| "read_strict Blank = Inl ParseError"
| "read_strict (Json xs) = Inr xs"
| "read_strict Garbage = Inl ParseError"

lemma read_strict_Inr [simp]: "read_strict f = Inr xs \<longleftrightarrow> f = Json xs"
  by (cases f) auto

lemma read_trimmed_Json [simp]: "read_trimmed f = Inr xs \<Longrightarrow> f \<noteq> Garbage"
  by (cases f) auto

subsection \<open>API errors\<close>

datatype api_error =
    MissingFields | DuplicateName | DataFileMissing | TontineNotFound
  | AlreadyMember | TrustlineFailed | InvalidAddress | MethodNotAllowed | Internal exc

fun http_status :: "api_error \<Rightarrow> nat" where
  "http_status MissingFields = 400"
| "http_status DuplicateName = 400"
| "http_status DataFileMissing = 500"
| "http_status TontineNotFound = 404"
| "http_status AlreadyMember = 400"
| "http_status TrustlineFailed = 500"
| "http_status InvalidAddress = 400"
| "http_status MethodNotAllowed = 405"
| "http_status (Internal e) = 500"

subsection \<open>Find, then mutate the found object\<close>

text \<open>
  \<open>const t = xs.find(p); t.f = ...; write(xs)\<close> changes the first element that
  satisfies \<open>p\<close> in place; the array written back is this list.
\<close>

fun upd_first :: "('a \<Rightarrow> bool) \<Rightarrow> ('a \<Rightarrow> 'a) \<Rightarrow> 'a list \<Rightarrow> 'a list" where
  "upd_first P f [] = []"
| "upd_first P f (x # xs) = (if P x then f x # xs else x # upd_first P f xs)"

lemma length_upd_first [simp]: "length (upd_first P f xs) = length xs"
  by (induction xs) auto

lemma upd_first_id [simp]: "List.find P xs = None \<Longrightarrow> upd_first P f xs = xs"
  by (induction xs) (auto split: if_splits)

lemma find_upd_first:
  "(\<And>x. P x \<Longrightarrow> P (f x)) \<Longrightarrow> List.find P (upd_first P f xs) = map_option f (List.find P xs)"
  by (induction xs) auto

lemma map_upd_first:
  "(\<And>x. P x \<Longrightarrow> g (f x) = g x) \<Longrightarrow> map g (upd_first P f xs) = map g xs"
  by (induction xs) auto

lemma set_upd_first:
  "List.find P xs = Some y \<Longrightarrow> set (upd_first P f xs) \<subseteq> insert (f y) (set xs)"
  by (induction xs) (auto split: if_splits)

lemma list_all_upd_first [intro]:
  "list_all Q xs \<Longrightarrow> (\<And>x. x \<in> set xs \<Longrightarrow> P x \<Longrightarrow> Q x \<Longrightarrow> Q (f x)) \<Longrightarrow>
   list_all Q (upd_first P f xs)"
  by (induction xs) auto

lemma upd_first_nth:
  "List.find P xs = Some y \<Longrightarrow>
   \<exists>i < length xs. xs ! i = y \<and> upd_first P f xs = xs[i := f y]"
proof (induction xs)
  case Nil
  then show ?case by simp
next
  case (Cons x xs)
  show ?case
  proof (cases "P x")
    case True
    with Cons.prems show ?thesis by auto
  next
    case False
    with Cons obtain i where "i < length xs" "xs ! i = y" "upd_first P f xs = xs[i := f y]"
      by auto
    with False show ?thesis by (intro exI [of _ "Suc i"]) auto
  qed
qed

subsection \<open>ASCII case conversion\<close>

text \<open>\<open>String.prototype.toUpperCase\<close> on the ASCII letters that XRPL addresses use.\<close>

definition upper_char :: "char \<Rightarrow> char" where
  "upper_char c = (let n = of_char c in if 97 \<le> n \<and> n \<le> (122::nat) then char_of (n - 32) else c)"

definition js_upper :: "string \<Rightarrow> string" where
  "js_upper s = map upper_char s"

lemma js_upper_simps [simp, js_simps]:
  "js_upper [] = []" "js_upper (c # s) = upper_char c # js_upper s"
  by (simp_all add: js_upper_def)

subsection \<open>Numbers and strings\<close>

text \<open>\<open>String(n)\<close> (and \<open>n.toString()\<close>) for an integer: its decimal digits.\<close>

fun nat_str :: "nat \<Rightarrow> string" where
  "nat_str n = (if n < 10 then [char_of (48 + n)] else nat_str (n div 10) @ [char_of (48 + n mod 10)])"

definition int_str :: "int \<Rightarrow> string" where
  "int_str i = (if i < 0 then CHR ''-'' # nat_str (nat (- i)) else nat_str (nat i))"

text \<open>\<open>parseInt(s, 10)\<close>: leading white space skipped, an optional sign, then the longest
  run of decimal digits; NaN (None) when there is no digit.\<close>

definition is_js_space :: "char \<Rightarrow> bool" where
  "is_js_space c = (c \<in> set [CHR '' '', CHR 0x09, CHR 0x0A, CHR 0x0B, CHR 0x0C, CHR 0x0D])"

definition is_dec_digit :: "char \<Rightarrow> bool" where
  "is_dec_digit c = ((48::nat) \<le> of_char c \<and> of_char c \<le> (57::nat))"

definition digits_val :: "string \<Rightarrow> nat" where
  "digits_val ds = foldl (\<lambda>a c. 10 * a + (of_char c - 48)) 0 ds"

definition js_parse_int :: "string \<Rightarrow> int option" where
  "js_parse_int s =
     (let s1 = dropWhile is_js_space s;
          (sg, s2) = (case s1 of
                        c # r \<Rightarrow> if c = CHR ''-'' then (- 1, r) else if c = CHR ''+'' then (1, r) else (1, s1)
                      | [] \<Rightarrow> (1, []));
          ds = takeWhile is_dec_digit s2
      in if ds = [] then None else Some (sg * int (digits_val ds)))"

declare nat_str.simps [simp del]

lemma nat_str_nonempty [simp]: "nat_str n \<noteq> []"
  by (subst nat_str.simps) simp

lemma int_str_nonempty [simp]: "int_str i \<noteq> []"
  by (simp add: int_str_def)

end
