(* ===== verification/Currency.thy ===== *)
theory Currency
  imports Prelude
begin

text \<open>
  The XRPL currency-code encoder \<open>toHexCurrency\<close> of
  \<open>src/BCI/src/utils/xrplService.js\<close> (the same function is copied into the
  \<open>trustline/add\<close>, \<open>wallet\<close> and \<open>wallet/balance\<close> routes): a 40-digit
  upper-case hexadecimal code is returned as it is, a code of 3 to 6 characters is
  written byte by byte in hexadecimal (\<open>Buffer.from(c, "ascii").toString("hex")\<close>,
  lower-case digits), upper-cased and padded with \<open>0\<close> to 40 digits, any other code
  throws. Characters are bytes here, as Node's \<open>ascii\<close> encoding keeps the low byte
  of each character.
\<close>

definition hex_digit :: "nat \<Rightarrow> char" where
  \<comment> \<open>\<open>Buffer.toString("hex")\<close> writes the digits 0-9 and a-f\<close>
  "hex_digit n = (if n < 10 then char_of (48 + n) else char_of (87 + n))"

definition byte_hex :: "char \<Rightarrow> string" where
  "byte_hex c = [hex_digit (of_char c div 16), hex_digit (of_char c mod 16)]"

definition ascii_hex :: "string \<Rightarrow> string" where
  "ascii_hex s = concat (map byte_hex s)"

definition is_hex_upper :: "char \<Rightarrow> bool" where
  "is_hex_upper c = (c \<in> set ''0123456789ABCDEF'')"

definition is_hex40 :: "string \<Rightarrow> bool" where
  \<comment> \<open>the regular expression \<open>/^[A-F0-9]{40}$/\<close>\<close>
  "is_hex40 s = (length s = 40 \<and> list_all is_hex_upper s)"

definition pad_end :: "string \<Rightarrow> nat \<Rightarrow> char \<Rightarrow> string" where
  \<comment> \<open>\<open>s.padEnd(n, c)\<close>: unchanged when \<open>s\<close> is already \<open>n\<close> long or longer\<close>
  "pad_end s n c = s @ replicate (n - length s) c"

definition to_hex_currency :: "string \<Rightarrow> exc + string" where
  "to_hex_currency c =
     (if is_hex40 c then Inr c
      else if length c < 3 \<or> length c > 6 then Inl CurrencyLength
      else Inr (pad_end (js_upper (ascii_hex c)) 40 (CHR ''0'')))"

text \<open>Decoding, the inverse of the encoder on the digits it writes.\<close>

definition hex_val :: "char \<Rightarrow> nat" where
  "hex_val c = (let n = of_char c in if n < 58 then n - 48 else n - 55)"

fun hex_decode :: "string \<Rightarrow> string" where
  "hex_decode (a # b # r) = char_of (16 * hex_val a + hex_val b) # hex_decode r"
| "hex_decode _ = []"

text \<open>The code the services compare trust lines against, \<open>RLUSD_HEX\<close>.\<close>

definition rlusd_hex :: string where
  "rlusd_hex = ''524C555344'' @ replicate 30 (CHR ''0'')"

subsection \<open>Digits\<close>

definition hex_digit_upper :: "nat \<Rightarrow> char" where
  "hex_digit_upper n = (if n < 10 then char_of (48 + n) else char_of (55 + n))"

lemma upper_hex_digit [simp]: "n < 16 \<Longrightarrow> upper_char (hex_digit n) = hex_digit_upper n"
  by (auto simp: upper_char_def hex_digit_def hex_digit_upper_def Let_def)

lemma hex_val_digit [simp]: "n < 16 \<Longrightarrow> hex_val (hex_digit_upper n) = n"
  by (auto simp: hex_val_def hex_digit_upper_def Let_def)

lemma hex_digits_upper: "list_all (\<lambda>n. is_hex_upper (hex_digit_upper n)) [0..<16]"
  by code_simp

lemma hex_upper_digit [simp]: "n < 16 \<Longrightarrow> is_hex_upper (hex_digit_upper n)"
  using hex_digits_upper by (simp add: list_all_iff)

lemma of_char_bound [simp]: "of_char (c::char) div 16 < (16::nat)"
proof -
  have "of_char c < (256::nat)" by (rule nat_of_char_less_256)
  then show ?thesis using less_mult_imp_div_less [of "of_char c" 16 16] by simp
qed

lemma upper_ascii_hex:
  "js_upper (ascii_hex s) =
     concat (map (\<lambda>c. [hex_digit_upper (of_char c div 16), hex_digit_upper (of_char c mod 16)]) s)"
  by (induction s) (simp_all add: ascii_hex_def byte_hex_def)

lemma length_ascii_hex [simp]: "length (js_upper (ascii_hex s)) = 2 * length s"
  by (induction s) (simp_all add: ascii_hex_def byte_hex_def)

lemma hex_decode_upper: "hex_decode (js_upper (ascii_hex s)) = s"
proof (induction s)
  case Nil
  then show ?case by (simp add: ascii_hex_def)
next
  case (Cons c s)
  have "16 * (of_char c div 16) + of_char c mod 16 = (of_char c :: nat)" by simp
  then have "char_of (16 * (of_char c div 16) + of_char c mod (16::nat)) = c"
    by (metis char_of_char)
  with Cons show ?case by (simp add: upper_ascii_hex)
qed

lemma hex40_encoded:
  assumes "3 \<le> length c" "length c \<le> 6"
  shows "is_hex40 (pad_end (js_upper (ascii_hex c)) 40 (CHR ''0''))"
proof -
  have "list_all is_hex_upper (js_upper (ascii_hex c))"
    by (simp add: upper_ascii_hex list_all_iff mod_less_divisor)
  moreover have "is_hex_upper (CHR ''0'')" by (simp add: is_hex_upper_def)
  ultimately show ?thesis using assms by (simp add: is_hex40_def pad_end_def list_all_iff)
qed

lemma to_hex_currency_rlusd: "to_hex_currency ''RLUSD'' = Inr rlusd_hex"
  by code_simp

lemma take_pad_end [simp]: "n \<le> length s \<Longrightarrow> take n (pad_end s m c) = take n s"
  by (simp add: pad_end_def)

subsection \<open>Properties of the encoder\<close>

text \<open>C36: Every code the encoder returns is 40 upper-case hexadecimal digits: it matches
  the encoder's own regular expression.\<close>

theorem to_hex_currency_hex40: "to_hex_currency c = Inr h \<Longrightarrow> is_hex40 h"
  by (auto simp: to_hex_currency_def hex40_encoded split: if_splits)

text \<open>The encoder is idempotent: encoding an encoded code returns it unchanged.\<close>

theorem to_hex_currency_idem: "to_hex_currency c = Inr h \<Longrightarrow> to_hex_currency h = Inr h"
proof -
  assume "to_hex_currency c = Inr h"
  then have "is_hex40 h" by (auto simp: to_hex_currency_def hex40_encoded split: if_splits)
  then show ?thesis by (simp add: to_hex_currency_def)
qed

text \<open>C37: A code of 3 to 6 characters that is not already a hexadecimal code is encoded,
  and its first \<open>2 * length c\<close> digits decode back to it.\<close>

theorem to_hex_currency_roundtrip:
  assumes "\<not> is_hex40 c" "3 \<le> length c" "length c \<le> 6"
  shows "\<exists>h. to_hex_currency c = Inr h \<and> hex_decode (take (2 * length c) h) = c"
  using assms by (simp add: to_hex_currency_def hex_decode_upper)

text \<open>The encoder throws exactly on codes that are neither 40 hexadecimal digits nor
  3 to 6 characters long.\<close>

theorem to_hex_currency_error:
  "to_hex_currency c = Inl e \<longleftrightarrow> e = CurrencyLength \<and> \<not> is_hex40 c \<and> (length c < 3 \<or> 6 < length c)"
  by (auto simp: to_hex_currency_def)


text \<open>The padding makes codes that differ only by trailing NUL characters collide:
  \<open>ABC\<close> and \<open>ABC\<close> followed by a NUL byte have the same encoding.\<close>

theorem to_hex_currency_nul_collision:
  "to_hex_currency ''ABC'' = to_hex_currency (''ABC'' @ [CHR 0x00]) \<and> ''ABC'' \<noteq> ''ABC'' @ [CHR 0x00]"
  by code_simp

theorem to_hex_currency_hex40_witness: "to_hex_currency ''RLUSD'' = Inr rlusd_hex \<and> is_hex40 rlusd_hex"
  using to_hex_currency_hex40 [OF to_hex_currency_rlusd] to_hex_currency_rlusd by simp

theorem to_hex_currency_idem_witness: "to_hex_currency ''RLUSD'' = Inr rlusd_hex \<and> to_hex_currency rlusd_hex = Inr rlusd_hex"
  using to_hex_currency_idem [OF to_hex_currency_rlusd] to_hex_currency_rlusd by simp

theorem to_hex_currency_roundtrip_witness:
  "\<not> is_hex40 ''RLUSD'' \<and> hex_decode (take 10 rlusd_hex) = ''RLUSD''"
proof -
  have h: "\<not> is_hex40 ''RLUSD''" by (simp add: is_hex40_def)
  from to_hex_currency_roundtrip [OF h] have "hex_decode (take 10 rlusd_hex) = ''RLUSD''"
    using to_hex_currency_rlusd by simp
  with h show ?thesis by simp
qed

theorem to_hex_currency_error_witness: "to_hex_currency ''RL'' = Inl CurrencyLength"
  using to_hex_currency_error [of "''RL''" CurrencyLength] by (simp add: is_hex40_def)

end
