(* ===== verification/Ledger.thy ===== *)
theory Ledger
  imports Currency
begin

text \<open>
  The Ledger Gateway: what the services of \<open>src/BCI/src/utils/xrplService.js\<close> and
  the \<open>trustline/add\<close> route ask of the XRP Ledger testnet, and what a validated
  transaction does to it. The ledger is a record of the answers the network gives:
  the trust lines of each account (\<open>account_lines\<close>; None for an account that does
  not exist), the accounts whose requests fail at the network (\<open>down\<close>), the
  address a secret seed signs for (\<open>Wallet.fromSeed(seed).classicAddress\<close>), and
  the engine result of a Payment or a TrustSet. These answers come from the XRPL
  library and the network, not from the repository; the effect of a validated
  Payment (debit and credit of the RLUSD lines) and of a validated TrustSet (a new
  line of limit 1000000) are modelled from the protocol. Amounts are integers: the
  balance strings of the ledger read as numbers by \<open>parseFloat\<close>.
\<close>

record rline =
  currency :: string
  account :: string   \<comment> \<open>the counterparty of the line: the issuer for an RLUSD line\<close>
  balance :: int
  limit :: int

record ledger =
  account_lines :: "string \<Rightarrow> rline list option"
  down :: "string \<Rightarrow> bool"
  seed_address :: "string \<Rightarrow> string option"
  pay_result :: "string \<Rightarrow> string \<Rightarrow> string"
  trust_result :: "string \<Rightarrow> string"
  xrp_balance :: "string \<Rightarrow> string"   \<comment> \<open>\<open>client.getXrpBalance(address)\<close>, as the string it returns\<close>

record wallet =
  address :: string
  secret :: string

record receipt =
  tx_account :: string
  tx_destination :: string
  tx_amount :: int
  tx_result :: string

definition issuer_address :: string where
  "issuer_address = ''rQhWct2fv4Vc4KRjRgMrxa8xPN9Zx9iLKV''"

definition tes_success :: string where
  "tes_success = ''tesSUCCESS''"

subsection \<open>Ledger effects of validated transactions\<close>

definition is_rlusd_line :: "rline \<Rightarrow> bool" where
  \<comment> \<open>the line \<open>getRLUSDBalance\<close> reads: currency RLUSD or its hex code, issuer compared upper-cased\<close>
  "is_rlusd_line l =
     ((currency l = ''RLUSD'' \<or> currency l = rlusd_hex) \<and> js_upper (account l) = js_upper issuer_address)"

definition credit :: "int \<Rightarrow> rline list \<Rightarrow> rline list" where
  "credit d = upd_first is_rlusd_line (\<lambda>l. l\<lparr>balance := balance l + d\<rparr>)"

definition adjust :: "string \<Rightarrow> int \<Rightarrow> ledger \<Rightarrow> ledger" where
  "adjust a d L = L\<lparr>account_lines := (account_lines L)(a := map_option (credit d) (account_lines L a))\<rparr>"

definition apply_payment :: "ledger \<Rightarrow> string \<Rightarrow> string \<Rightarrow> int \<Rightarrow> ledger" where
  "apply_payment L src dst amt = adjust dst amt (adjust src (- amt) L)"

definition rlusd_trust_line :: rline where
  "rlusd_trust_line = \<lparr>currency = rlusd_hex, account = issuer_address, balance = 0, limit = 1000000\<rparr>"

definition add_trust_line :: "string \<Rightarrow> ledger \<Rightarrow> ledger" where
  "add_trust_line a L = L\<lparr>account_lines := (account_lines L)(a :=
     map_option (\<lambda>ls. if List.find is_rlusd_line ls = None then ls @ [rlusd_trust_line] else ls)
       (account_lines L a))\<rparr>"

subsection \<open>getRLUSDBalance\<close>

text \<open>\<open>account_lines\<close> of the address; the balance of the first RLUSD line, \<open>"0"\<close> when
  there is none. The request throws when the network fails or the account does not exist.\<close>

definition get_rlusd_balance :: "ledger \<Rightarrow> string \<Rightarrow> exc + int" where
  "get_rlusd_balance L a =
     (if down L a then Inl NetworkError
      else case account_lines L a of
        None \<Rightarrow> Inl AccountNotFound
      | Some ls \<Rightarrow> Inr (case List.find is_rlusd_line ls of None \<Rightarrow> 0 | Some l \<Rightarrow> balance l))"

subsection \<open>transferFunds\<close>

text \<open>
  \<open>transferFunds(walletData, destination)\<close> queries the balance of
  \<open>walletData.address\<close> again, throws when it is not positive, signs a Payment of
  that whole amount with the wallet of \<open>walletData.secret\<close> (whose address is the
  Payment's \<open>Account\<close>), and throws unless the engine result is tesSUCCESS. An
  undefined destination makes \<open>autofill\<close> throw. Every throw leaves the ledger as
  it was.
\<close>

definition transfer_funds :: "ledger \<Rightarrow> wallet \<Rightarrow> string option \<Rightarrow> (exc + receipt) \<times> ledger" where
  "transfer_funds L w dest =
     (case get_rlusd_balance L (address w) of
       Inl e \<Rightarrow> (Inl e, L)
     | Inr amt \<Rightarrow>
         if amt \<le> 0 then (Inl NoBalance, L)
         else (case seed_address L (secret w) of
           None \<Rightarrow> (Inl InvalidSeed, L)
         | Some src \<Rightarrow>
             (case dest of
               None \<Rightarrow> (Inl InvalidTx, L)
             | Some d \<Rightarrow>
                 if down L src then (Inl NetworkError, L)
                 else if account_lines L src = None then (Inl AccountNotFound, L)
                 else if pay_result L src d \<noteq> tes_success then (Inl (TxFailed (pay_result L src d)), L)
                 else (Inr \<lparr>tx_account = src, tx_destination = d, tx_amount = amt,
                            tx_result = pay_result L src d\<rparr>,
                       apply_payment L src d amt))))"

subsection \<open>The trustline/add route\<close>

text \<open>The trust line \<open>trustline/add\<close> looks for: the hexadecimal currency code only,
  issuer compared upper-cased.\<close>

definition is_trust_line :: "rline \<Rightarrow> bool" where
  "is_trust_line l = (currency l = rlusd_hex \<and> js_upper (account l) = js_upper issuer_address)"

datatype trust_outcome = AlreadyExists | Added

text \<open>
  \<open>POST /api/trustline/add\<close> with \<open>{tontineWalletAddress, tontineSecret}\<close>: 400 when
  a field is missing; 200 when the address already has the trust line; otherwise a
  TrustSet signed with the secret's wallet, 200 on tesSUCCESS and 500 on any other
  result; a thrown error (network, unknown account, malformed seed) is a 500.
\<close>

definition trustline_add :: "ledger \<Rightarrow> field \<Rightarrow> field \<Rightarrow> (api_error + trust_outcome) \<times> ledger" where
  "trustline_add L ta ts =
     (if \<not> truthy ta \<or> \<not> truthy ts then (Inl MissingFields, L)
      else let a = the ta; s = the ts in
        if down L a then (Inl (Internal NetworkError), L)
        else (case account_lines L a of
          None \<Rightarrow> (Inl (Internal AccountNotFound), L)
        | Some ls \<Rightarrow>
            if List.find is_trust_line ls \<noteq> None then (Inr AlreadyExists, L)
            else (case seed_address L s of
              None \<Rightarrow> (Inl (Internal InvalidSeed), L)
            | Some src \<Rightarrow>
                if down L src then (Inl (Internal NetworkError), L)
                else if account_lines L src = None then (Inl (Internal AccountNotFound), L)
                else if trust_result L src \<noteq> tes_success
                then (Inl (Internal (TxFailed (trust_result L src))), L)
                else (Inr Added, add_trust_line src L))))"

subsection \<open>createTemporaryWallet\<close>

text \<open>The testnet faucet (\<open>client.fundWallet\<close>) creates the account when it does not
  exist yet.\<close>

definition fund_account :: "string \<Rightarrow> ledger \<Rightarrow> ledger" where
  "fund_account a L =
     (if account_lines L a = None then L\<lparr>account_lines := (account_lines L)(a := Some [])\<rparr> else L)"

text \<open>The trust line \<open>createTemporaryWallet\<close> looks for: currency and issuer compared
  exactly, without upper-casing.\<close>

definition is_exact_trust_line :: "rline \<Rightarrow> bool" where
  "is_exact_trust_line l = (currency l = rlusd_hex \<and> account l = issuer_address)"

text \<open>
  \<open>createTemporaryWallet()\<close>: \<open>Wallet.generate()\<close> (the wallet \<open>gen\<close>, a fresh key
  pair), fund it at the faucet, and unless the account already has the RLUSD trust line,
  sign a TrustSet with it, throw unless the result is tesSUCCESS, and throw unless the line
  is then found. The faucet's funding stays on the ledger when a later step throws.
\<close>

definition create_temporary_wallet :: "ledger \<Rightarrow> wallet \<Rightarrow> (exc + wallet) \<times> ledger" where
  "create_temporary_wallet L gen =
     (let a = address gen in
      if down L a then (Inl NetworkError, L)
      else let L1 = fund_account a L; ls = the (account_lines L1 a) in
        if list_ex is_exact_trust_line ls then (Inr gen, L1)
        else if trust_result L1 a \<noteq> tes_success then (Inl (TxFailed (trust_result L1 a)), L1)
        else let L2 = add_trust_line a L1 in
          if list_ex is_exact_trust_line (the (account_lines L2 a)) then (Inr gen, L2)
          else (Inl TrustlineNotVerified, L2))"

end
