(* ===== verification/Store.thy ===== *)
theory Store
  imports Ledger
begin

text \<open>
  The Durable Store: the records of \<open>data/tontines.json\<close> and \<open>data/users.json\<close>.
  The handlers keep no schema: a tontine written by \<open>create-tontine\<close> has
  \<open>name\<close>, \<open>cycleSize\<close> and \<open>password\<close>, one written by \<open>createWallet\<close> has
  \<open>tontineName\<close>, \<open>destination\<close>, \<open>scheduledTime\<close>, \<open>tontineMaster\<close>,
  \<open>wallet\<close> and \<open>status\<close>, and \<open>triggerTransfer\<close> adds \<open>transferredAt\<close> and
  \<open>txResult\<close>. The record below has every field any handler reads or writes; a
  field a handler leaves out is None (\<open>undefined\<close> in the JavaScript object).
  Timestamps are milliseconds (\<open>Date.now()\<close>); \<open>scheduledTime\<close> stays the
  string the client sent, read by \<open>new Date(...)\<close> only in the settlement pass.
\<close>

datatype tstatus = Active | Completed

record tontine =
  tid :: string
  name :: "string option"
  tontineName :: "string option"
  cycleSize :: "int option"
  password :: "string option"
  destination :: "string option"
  scheduledTime :: "string option"
  tontineMaster :: "string option"
  wallet :: "wallet option"
  createdAt :: time
  status :: "tstatus option"
  members :: "string list"
  transferredAt :: "time option"
  txResult :: "receipt option"

record user =
  userId :: string
  walletAddress :: string
  sessionToken :: string

record store =
  tontines_file :: "tontine list jfile"
  users_file :: "user list jfile"

text \<open>\<open>tontines.find((t) => t.id === id)\<close>: the first record with the id.\<close>

definition find_tontine :: "tontine list \<Rightarrow> string \<Rightarrow> tontine option" where
  "find_tontine ts i = List.find (\<lambda>t. tid t = i) ts"

text \<open>The tontines a read of the file sees, when the read succeeds.\<close>

definition stored :: "store \<Rightarrow> tontine list" where
  "stored st = (case read_trimmed (tontines_file st) of Inr ts \<Rightarrow> ts | Inl _ \<Rightarrow> [])"

lemma stored_Json [simp]: "stored (st\<lparr>tontines_file := Json ts\<rparr>) = ts"
  by (simp add: stored_def)

lemma find_tontine_Some: "find_tontine ts i = Some t \<Longrightarrow> t \<in> set ts \<and> tid t = i"
  by (auto simp: find_tontine_def find_Some_iff)

end
