(* ===== verification/Settlement.thy ===== *)
theory Settlement
  imports Store
begin

text \<open>
  The Settlement Engine: \<open>GET /api/triggerTransfer\<close>
  (\<open>src/BCI/src/app/api/triggerTransfer/route.js\<close>). The handler reads the
  tontines, walks them in order with \<open>for ... of\<close> and \<open>await\<close>, and for each
  active tontine whose \<open>scheduledTime\<close> is not after \<open>now\<close> queries the RLUSD
  balance of its wallet, skips it when the balance is not positive, and otherwise
  transfers the balance to the destination and marks the record completed. The array
  is written back once, at the end, when a record changed. Any exception (a gateway
  failure, a failed transfer, a record without a wallet) leaves the loop: the handler
  answers 500 and writes nothing, although the transfers made before it are on the
  ledger.

  \<open>date_of\<close> is the runtime's \<open>new Date(string)\<close> (None for an Invalid Date,
  whose comparison with \<open>now\<close> is false); it depends on the time zone and is a
  parameter. The pass's \<open>now\<close> also stamps \<open>transferredAt\<close>.
\<close>

type_synonym date_parser = "string \<Rightarrow> time option"
type_synonym outcome = "string \<times> receipt" \<comment> \<open>\<open>{id, status: "completed", txResult}\<close>\<close>
type_synonym pass = "tontine list \<times> outcome list \<times> bool" \<comment> \<open>the array, \<open>results\<close>, \<open>updated\<close>\<close>

definition due :: "date_parser \<Rightarrow> time \<Rightarrow> tontine \<Rightarrow> bool" where
  "due date_of now t =
     (status t = Some Active \<and>
      (case scheduledTime t of
         None \<Rightarrow> False
       | Some s \<Rightarrow> (case date_of s of None \<Rightarrow> False | Some d \<Rightarrow> d \<le> now)))"

definition complete :: "time \<Rightarrow> receipt \<Rightarrow> tontine \<Rightarrow> tontine" where
  "complete now r t = t\<lparr>status := Some Completed, transferredAt := Some now, txResult := Some r\<rparr>"

definition keep :: "tontine \<Rightarrow> (exc + pass) \<times> ledger \<Rightarrow> (exc + pass) \<times> ledger" where
  "keep t res = (map_sum id (\<lambda>(ts, rs, u). (t # ts, rs, u)) (fst res), snd res)"

definition completed :: "tontine \<Rightarrow> outcome \<Rightarrow> (exc + pass) \<times> ledger \<Rightarrow> (exc + pass) \<times> ledger" where
  "completed t oc res = (map_sum id (\<lambda>(ts, rs, u). (t # ts, oc # rs, True)) (fst res), snd res)"

fun settle_loop :: "date_parser \<Rightarrow> time \<Rightarrow> ledger \<Rightarrow> tontine list \<Rightarrow> (exc + pass) \<times> ledger" where
  "settle_loop date_of now L [] = (Inr ([], [], False), L)"
| "settle_loop date_of now L (t # ts) =
     (if \<not> due date_of now t then keep t (settle_loop date_of now L ts)
      else (case wallet t of
        None \<Rightarrow> (Inl TypeError, L)
      | Some w \<Rightarrow>
          (case get_rlusd_balance L (address w) of
            Inl e \<Rightarrow> (Inl e, L)
          | Inr b \<Rightarrow>
              if b \<le> 0 then keep t (settle_loop date_of now L ts)
              else (case transfer_funds L w (destination t) of
                (Inl e, L') \<Rightarrow> (Inl e, L')
              | (Inr r, L') \<Rightarrow>
                  completed (complete now r t) (tid t, r) (settle_loop date_of now L' ts)))))"

definition trigger_transfer ::
  "date_parser \<Rightarrow> time \<Rightarrow> store \<Rightarrow> ledger \<Rightarrow> (api_error + outcome list) \<times> store \<times> ledger" where
  "trigger_transfer date_of now st L =
     (case read_trimmed (tontines_file st) of
       Inl e \<Rightarrow> (Inl (Internal e), st, L)
     | Inr ts \<Rightarrow>
         (case settle_loop date_of now L ts of
           (Inl e, L') \<Rightarrow> (Inl (Internal e), st, L')
         | (Inr (ts', rs, u), L') \<Rightarrow>
             (Inr rs, if u then st\<lparr>tontines_file := Json ts'\<rparr> else st, L')))"

subsection \<open>The contract of the settlement pass\<close>

text \<open>
  The pass as the specification describes it (section 4.2): the same per-tontine
  sequence, but a gateway failure, a failed transfer or a missing wallet only skips
  that tontine, and the pass goes on with the next one.
\<close>

fun spec_loop :: "date_parser \<Rightarrow> time \<Rightarrow> ledger \<Rightarrow> tontine list \<Rightarrow> pass \<times> ledger" where
  "spec_loop dp now L [] = (([], [], False), L)"
| "spec_loop dp now L (t # ts) =
     (let skip = (case spec_loop dp now L ts of ((ts', rs, u), L') \<Rightarrow> ((t # ts', rs, u), L')) in
      if \<not> due dp now t then skip
      else (case wallet t of
        None \<Rightarrow> skip
      | Some w \<Rightarrow>
          (case get_rlusd_balance L (address w) of
            Inl _ \<Rightarrow> skip
          | Inr b \<Rightarrow>
              if b \<le> 0 then skip
              else (case transfer_funds L w (destination t) of
                (Inl _, _) \<Rightarrow> skip
              | (Inr r, L') \<Rightarrow>
                  (case spec_loop dp now L' ts of
                    ((ts', rs, u), L'') \<Rightarrow> ((complete now r t # ts', (tid t, r) # rs, True), L''))))))"

definition spec_settle ::
  "date_parser \<Rightarrow> time \<Rightarrow> store \<Rightarrow> ledger \<Rightarrow> (api_error + outcome list) \<times> store \<times> ledger" where
  "spec_settle dp now st L =
     (case read_trimmed (tontines_file st) of
       Inl e \<Rightarrow> (Inl (Internal e), st, L)
     | Inr ts \<Rightarrow>
         (case spec_loop dp now L ts of
           ((ts', rs, u), L') \<Rightarrow> (Inr rs, if u then st\<lparr>tontines_file := Json ts'\<rparr> else st, L')))"

subsection \<open>Scenario\<close>

text \<open>Two tontines due at time 10, paid from the wallets \<open>rA\<close> (50 RLUSD) and
  \<open>rB\<close> (no RLUSD) to \<open>rDest\<close>; in \<open>abort_ledger\<close> the requests about
  \<open>rB\<close> fail at the network.\<close>

definition issued_line :: "int \<Rightarrow> rline" where
  "issued_line b = \<lparr>currency = rlusd_hex, account = issuer_address, balance = b, limit = 1000000\<rparr>"

definition demo_ledger :: ledger where
  "demo_ledger = \<lparr>account_lines = (\<lambda>a. if a = ''rA'' then Some [issued_line 50]
       else if a = ''rB'' \<or> a = ''rDest'' then Some [issued_line 0] else None),
     down = (\<lambda>_. False),
     seed_address = (\<lambda>s. if s = ''sA'' then Some ''rA'' else if s = ''sB'' then Some ''rB'' else None),
     pay_result = (\<lambda>_ _. tes_success), trust_result = (\<lambda>_. tes_success), xrp_balance = (\<lambda>_. ''100'')\<rparr>"

definition abort_ledger :: ledger where
  "abort_ledger = demo_ledger\<lparr>down := (\<lambda>a. a = ''rB'')\<rparr>"

definition group_of :: "string \<Rightarrow> string \<Rightarrow> string \<Rightarrow> tontine" where
  "group_of i a s = \<lparr>tid = i, name = None, tontineName = Some i, cycleSize = None, password = None,
     destination = Some ''rDest'', scheduledTime = Some ''2025-01-01'', tontineMaster = Some ''u1'',
     wallet = Some \<lparr>address = a, secret = s\<rparr>, createdAt = 0, status = Some Active, members = [''u1''],
     transferredAt = None, txResult = None\<rparr>"

definition demo_receipt :: receipt where
  "demo_receipt = \<lparr>tx_account = ''rA'', tx_destination = ''rDest'', tx_amount = 50, tx_result = tes_success\<rparr>"

definition demo_store :: store where
  "demo_store = \<lparr>tontines_file = Json [group_of ''1'' ''rA'' ''sA'', group_of ''2'' ''rB'' ''sB''],
     users_file = Missing\<rparr>"

subsection \<open>The pass, record by record\<close>

lemma keep_eq [simp]:
  "keep t (Inr (ts, rs, u), L) = (Inr (t # ts, rs, u), L)"
  "keep t (Inl e, L) = (Inl e, L)"
  by (simp_all add: keep_def)

lemma completed_eq [simp]:
  "completed t oc (Inr (ts, rs, u), L) = (Inr (t # ts, oc # rs, True), L)"
  "completed t oc (Inl e, L) = (Inl e, L)"
  by (simp_all add: completed_def)

lemma keep_Inr:
  "keep t res = (Inr p, L') \<longleftrightarrow> (\<exists>ts rs u. res = (Inr (ts, rs, u), L') \<and> p = (t # ts, rs, u))"
  by (cases res) (auto simp: keep_def map_sum_def split: sum.splits)

lemma completed_Inr:
  "completed t oc res = (Inr p, L') \<longleftrightarrow>
   (\<exists>ts rs u. res = (Inr (ts, rs, u), L') \<and> p = (t # ts, oc # rs, True))"
  by (cases res) (auto simp: completed_def map_sum_def split: sum.splits)

lemmas pass_Inr = keep_Inr completed_Inr

lemma keep_Inl: "keep t res = (Inl e, L') \<longleftrightarrow> res = (Inl e, L')"
  by (cases res) (auto simp: keep_def map_sum_def split: sum.splits)

lemma completed_Inl: "completed t oc res = (Inl e, L') \<longleftrightarrow> res = (Inl e, L')"
  by (cases res) (auto simp: completed_def map_sum_def split: sum.splits)

lemmas pass_Inl = keep_Inl completed_Inl

lemma transfer_funds_Inl: "transfer_funds L w d = (Inl e, L') \<Longrightarrow> L' = L"
  by (auto simp: transfer_funds_def split: sum.splits option.splits if_splits)

text \<open>A pass that returns leaves each record as it was or, when it was due, completes it.\<close>

lemma settle_loop_pointwise:
  "settle_loop dp now L ts = (Inr (ts', rs, u), L') \<Longrightarrow>
   list_all2 (\<lambda>t t'. t' = t \<or> (due dp now t \<and> (\<exists>r. t' = complete now r t))) ts ts'"
proof (induction dp now L ts arbitrary: ts' rs u L' rule: settle_loop.induct)
  case (1 dp now L)
  then show ?case by simp
next
  case (2 dp now L t ts)
  show ?case
    using "2.prems" "2.IH"
    by (auto simp: pass_Inr split: if_splits option.splits sum.splits prod.splits)
qed

text \<open>A pass that completes nothing returns the array, no result and the same ledger.\<close>

lemma settle_loop_unchanged:
  "settle_loop dp now L ts = (Inr (ts', rs, False), L') \<Longrightarrow> ts' = ts \<and> rs = [] \<and> L' = L"
proof (induction dp now L ts arbitrary: ts' rs L' rule: settle_loop.induct)
  case (1 dp now L)
  then show ?case by simp
next
  case (2 dp now L t ts)
  show ?case
    using "2.prems" "2.IH"
    by (auto simp: pass_Inr split: if_splits option.splits sum.splits prod.splits)
qed

lemma settle_loop_refines:
  "settle_loop dp now L ts = (Inr p, L') \<Longrightarrow> spec_loop dp now L ts = (p, L')"
proof (induction dp now L ts arbitrary: p L' rule: settle_loop.induct)
  case (1 dp now L)
  then show ?case by simp
next
  case (2 dp now L t ts)
  show ?case
    using "2.prems" "2.IH"
    by (auto simp: pass_Inr Let_def split: if_splits option.splits sum.splits prod.splits)
qed

lemma due_mono: "due dp now t \<Longrightarrow> now \<le> now' \<Longrightarrow> due dp now' t"
  by (auto simp: due_def split: option.splits)

subsection \<open>The handler\<close>

text \<open>What a later read of the file sees after the handler: the array it read, or the
  array the loop returned.\<close>

lemma trigger_transfer_stored:
  assumes "trigger_transfer dp now st L = (res, st', L')" "read_trimmed (tontines_file st) = Inr ts"
  shows "stored st' = ts \<or> (\<exists>rs u. settle_loop dp now L ts = (Inr (stored st', rs, u), L'))"
  using assms
  by (auto simp: trigger_transfer_def stored_def split: sum.splits prod.splits if_splits
           dest: settle_loop_unchanged)

lemma trigger_transfer_pointwise:
  assumes "trigger_transfer dp now st L = (res, st', L')" "read_trimmed (tontines_file st) = Inr ts"
  shows "list_all2 (\<lambda>t t'. t' = t \<or> (due dp now t \<and> (\<exists>r. t' = complete now r t))) ts (stored st')"
proof -
  from trigger_transfer_stored [OF assms] show ?thesis
  proof
    assume "stored st' = ts"
    then show ?thesis by (simp add: list_all2_refl)
  next
    assume "\<exists>rs u. settle_loop dp now L ts = (Inr (stored st', rs, u), L')"
    then show ?thesis by (auto dest: settle_loop_pointwise)
  qed
qed

lemma settle_demo:
  "trigger_transfer (\<lambda>_. Some 0) 10 demo_store demo_ledger =
     (Inr [(''1'', demo_receipt)],
      demo_store\<lparr>tontines_file := Json [complete 10 demo_receipt (group_of ''1'' ''rA'' ''sA''),
                                        group_of ''2'' ''rB'' ''sB'']\<rparr>,
      apply_payment demo_ledger ''rA'' ''rDest'' 50)"
  by (simp add: trigger_transfer_def demo_store_def demo_ledger_def group_of_def demo_receipt_def
      due_def get_rlusd_balance_def transfer_funds_def apply_payment_def adjust_def credit_def
      issued_line_def is_rlusd_line_def)

subsection \<open>Unfunded wallets and aborted passes\<close>

lemma adjust_other: "a \<noteq> x \<Longrightarrow> get_rlusd_balance (adjust x k L) a = get_rlusd_balance L a"
  by (simp add: adjust_def get_rlusd_balance_def)

lemma adjust_same:
  assumes "get_rlusd_balance L a = Inr b" "k \<le> 0"
  shows "\<exists>b'. get_rlusd_balance (adjust a k L) a = Inr b' \<and> b' \<le> b"
proof -
  have p: "is_rlusd_line l \<Longrightarrow> is_rlusd_line (l\<lparr>balance := balance l + k\<rparr>)" for l
    by (simp add: is_rlusd_line_def)
  from assms show ?thesis
    by (auto simp: adjust_def get_rlusd_balance_def credit_def find_upd_first [of is_rlusd_line "\<lambda>l. l\<lparr>balance := balance l + k\<rparr>", OF p]
        split: if_splits option.splits)
qed

lemma transfer_funds_balance:
  assumes "transfer_funds L w dest = (Inr r, L1)" "dest \<noteq> Some a" "get_rlusd_balance L a = Inr b"
  shows "\<exists>b'. get_rlusd_balance L1 a = Inr b' \<and> b' \<le> b"
proof -
  from assms(1) obtain amt src d where "0 < amt" "dest = Some d" "L1 = apply_payment L src d amt"
    by (force simp: transfer_funds_def split: sum.splits if_splits option.splits)
  moreover have "\<exists>b'. get_rlusd_balance (adjust src (- amt) L) a = Inr b' \<and> b' \<le> b"
    using assms(3) \<open>0 < amt\<close> adjust_same [of L src b "- amt"]
    by (cases "a = src") (auto simp: adjust_other)
  ultimately show ?thesis using assms(2) by (auto simp: apply_payment_def adjust_other)
qed

lemma settle_loop_zero_kept:
  "settle_loop dp now L ts = (Inr (ts', rs, u), L') \<Longrightarrow> i < length ts \<Longrightarrow> wallet (ts ! i) = Some w \<Longrightarrow>
   get_rlusd_balance L (address w) = Inr b \<Longrightarrow> b \<le> 0 \<Longrightarrow> \<forall>t \<in> set ts. destination t \<noteq> Some (address w) \<Longrightarrow>
   ts' ! i = ts ! i"
proof (induction dp now L ts arbitrary: i b ts' rs u L' rule: settle_loop.induct)
  case (1 dp now L)
  then show ?case by simp
next
  case (2 dp now L t ts)
  show ?case
  proof (cases i)
    case 0
    with "2.prems" show ?thesis
      by (auto simp: pass_Inr split: if_splits option.splits sum.splits prod.splits)
  next
    case (Suc j)
    with "2.prems" have j: "j < length ts" "wallet (ts ! j) = Some w" by auto
    show ?thesis
    proof (cases "\<exists>w' r L1. due dp now t \<and> wallet t = Some w' \<and>
                   (\<exists>c. get_rlusd_balance L (address w') = Inr c \<and> 0 < c) \<and>
                   transfer_funds L w' (destination t) = (Inr r, L1)")
      case True
      then obtain w' r L1 c where d: "due dp now t" "wallet t = Some w'" "get_rlusd_balance L (address w') = Inr c"
        "0 < c" "transfer_funds L w' (destination t) = (Inr r, L1)" by blast
      from "2.prems"(6) have "destination t \<noteq> Some (address w)" by simp
      from transfer_funds_balance [OF d(5) this "2.prems"(4)] obtain b' where
        "get_rlusd_balance L1 (address w) = Inr b'" "b' \<le> b" by blast
      with "2.prems" "2.IH"(3) d Suc j show ?thesis
        by (fastforce simp: pass_Inr)
    next
      case False
      with "2.prems" "2.IH"(1,2,3) Suc j show ?thesis
        by (auto simp: pass_Inr split: if_splits option.splits sum.splits prod.splits)
    qed
  qed
qed

lemma get_rlusd_balance_error: "get_rlusd_balance L a = Inl e \<Longrightarrow> e = NetworkError \<or> e = AccountNotFound"
  by (auto simp: get_rlusd_balance_def split: if_splits option.splits)

lemma transfer_funds_funded:
  "get_rlusd_balance L (address w) = Inr b \<Longrightarrow> 0 < b \<Longrightarrow> transfer_funds L w d = (Inl e, L') \<Longrightarrow> e \<noteq> NoBalance"
  by (auto simp: transfer_funds_def split: option.splits if_splits)

lemma settle_loop_no_nobalance:
  "settle_loop dp now L ts = (Inl e, L') \<Longrightarrow> e \<noteq> NoBalance"
proof (induction dp now L ts arbitrary: L' rule: settle_loop.induct)
  case (1 dp now L)
  then show ?case by simp
next
  case (2 dp now L t ts)
  show ?case
    using "2.prems" "2.IH"
    by (auto simp: pass_Inl dest: transfer_funds_funded get_rlusd_balance_error
        split: if_splits option.splits sum.splits prod.splits)
qed

lemma complete_changes: "status t = Some Active \<Longrightarrow> complete now r t \<noteq> t"
  by (auto simp: complete_def dest: arg_cong [of _ _ status])

lemma settle_loop_abort:
  "settle_loop dp now L ts = (Inl e, L') \<Longrightarrow> L' \<noteq> L \<Longrightarrow>
   (case spec_loop dp now L ts of ((ts', rs, u), L'') \<Rightarrow> u \<and> rs \<noteq> [] \<and> ts' \<noteq> ts)"
proof (induction dp now L ts arbitrary: L' rule: settle_loop.induct)
  case (1 dp now L)
  then show ?case by simp
next
  case (2 dp now L t ts)
  show ?case
  proof (cases "due dp now t")
    case False
    with "2.prems" "2.IH"(1) [OF False, of L'] show ?thesis
      by (simp add: pass_Inl split: prod.splits)
  next
    case d: True
    then obtain w where w: "wallet t = Some w"
      using "2.prems" by (cases "wallet t") auto
    with d "2.prems" obtain b where b: "get_rlusd_balance L (address w) = Inr b"
      by (cases "get_rlusd_balance L (address w)") auto
    show ?thesis
    proof (cases "b \<le> 0")
      case True
      with d w b "2.prems" "2.IH"(2) [OF _ w b True, of L'] d show ?thesis
        by (simp add: pass_Inl split: prod.splits)
    next
      case False
      with d w b "2.prems" obtain r L1 where "transfer_funds L w (destination t) = (Inr r, L1)"
        by (cases "transfer_funds L w (destination t)") (auto split: sum.splits dest: transfer_funds_Inl)
      with d w b False show ?thesis
        by (auto simp: Let_def due_def complete_changes split: prod.splits)
    qed
  qed
qed

text \<open>C1: Refinement of the specified settlement pass: whenever the handler's pass returns
  normally, its results, the file it writes and the ledger it leaves are those of the pass the
  specification describes.\<close>

theorem settle_refines_spec:
  "trigger_transfer dp now st L = (Inr rs, st', L') \<Longrightarrow> spec_settle dp now st L = (Inr rs, st', L')"
  by (auto simp: trigger_transfer_def spec_settle_def split: sum.splits prod.splits
           dest!: settle_loop_refines)

theorem settle_refines_spec_witness:
  "spec_settle (\<lambda>_. Some 0) 10 demo_store demo_ledger =
     (Inr [(''1'', demo_receipt)],
      demo_store\<lparr>tontines_file := Json [complete 10 demo_receipt (group_of ''1'' ''rA'' ''sA''),
                                        group_of ''2'' ''rB'' ''sB'']\<rparr>,
      apply_payment demo_ledger ''rA'' ''rDest'' 50)"
  by (rule settle_refines_spec [OF settle_demo])

text \<open>C3: Settlement monotonicity: after a settlement pass, whether it succeeds or fails, every
  stored tontine is either the record it was or an active record that became completed; a
  completed tontine is never changed and never becomes active again.\<close>

theorem settle_monotone:
  assumes "trigger_transfer dp now st L = (res, st', L')" "read_trimmed (tontines_file st) = Inr ts"
  shows "list_all2 (\<lambda>t t'. t' = t \<or> (status t = Some Active \<and> status t' = Some Completed)) ts (stored st')"
proof -
  have "list_all2 (\<lambda>t t'. t' = t \<or> (due dp now t \<and> (\<exists>r. t' = complete now r t))) ts (stored st')"
    using assms by (rule trigger_transfer_pointwise)
  then show ?thesis
    by (rule list_all2_mono) (auto simp: due_def complete_def)
qed

theorem settle_monotone_witness:
  "list_all2 (\<lambda>t t'. t' = t \<or> (status t = Some Active \<and> status t' = Some Completed))
     [group_of ''1'' ''rA'' ''sA'', group_of ''2'' ''rB'' ''sB'']
     [complete 10 demo_receipt (group_of ''1'' ''rA'' ''sA''), group_of ''2'' ''rB'' ''sB'']"
proof -
  have "read_trimmed (tontines_file demo_store) = Inr [group_of ''1'' ''rA'' ''sA'', group_of ''2'' ''rB'' ''sB'']"
    by (simp add: demo_store_def)
  from settle_monotone [OF settle_demo this] show ?thesis by simp
qed

text \<open>C4: Settlement gating: a settlement pass never changes a stored tontine whose scheduled
  time is after the pass's \<open>now\<close>.\<close>

theorem settle_gating:
  assumes "trigger_transfer dp now st L = (res, st', L')" "read_trimmed (tontines_file st) = Inr ts"
  shows "list_all2 (\<lambda>t t'. (\<exists>s d. scheduledTime t = Some s \<and> dp s = Some d \<and> now < d) \<longrightarrow> t' = t)
           ts (stored st')"
proof -
  have "list_all2 (\<lambda>t t'. t' = t \<or> (due dp now t \<and> (\<exists>r. t' = complete now r t))) ts (stored st')"
    using assms by (rule trigger_transfer_pointwise)
  then show ?thesis
    by (rule list_all2_mono) (auto simp: due_def)
qed

theorem settle_gating_witness:
  "(\<exists>s d. scheduledTime (group_of ''1'' ''rA'' ''sA'') = Some s \<and> Some (20::int) = Some d \<and> 10 < d) \<and>
   list_all2 (\<lambda>t t'. (\<exists>s d. scheduledTime t = Some s \<and> Some (20::int) = Some d \<and> 10 < d) \<longrightarrow> t' = t)
     [group_of ''1'' ''rA'' ''sA'', group_of ''2'' ''rB'' ''sB'']
     [group_of ''1'' ''rA'' ''sA'', group_of ''2'' ''rB'' ''sB'']"
proof -
  have run: "trigger_transfer (\<lambda>_. Some 20) 10 demo_store demo_ledger = (Inr [], demo_store, demo_ledger)"
    by (simp add: trigger_transfer_def demo_store_def group_of_def due_def)
  have "read_trimmed (tontines_file demo_store) = Inr [group_of ''1'' ''rA'' ''sA'', group_of ''2'' ''rB'' ''sB'']"
    by (simp add: demo_store_def)
  from settle_gating [OF run this] show ?thesis
    by (simp add: demo_store_def stored_def group_of_def)
qed

text \<open>C5: Zero-balance skip and retry (spec P5), in any file: a due tontine whose wallet holds
  no RLUSD when the pass starts, and is the payout destination of no tontine of the file, is
  left as it was by the pass, whether the pass returns or aborts, and the pass never fails
  because of an unfunded wallet; the record stays due at every later time, so every later
  pass evaluates it again.\<close>

theorem settle_zero_balance_retry:
  assumes "trigger_transfer dp now st L = (res, st', L')" "read_trimmed (tontines_file st) = Inr ts"
    and "i < length ts" "wallet (ts ! i) = Some w" "get_rlusd_balance L (address w) = Inr b" "b \<le> 0"
    and "\<forall>t \<in> set ts. destination t \<noteq> Some (address w)"
  shows "res \<noteq> Inl (Internal NoBalance) \<and> stored st' ! i = ts ! i \<and>
         (\<forall>now'. due dp now (ts ! i) \<longrightarrow> now \<le> now' \<longrightarrow> due dp now' (stored st' ! i))"
proof -
  have r: "res \<noteq> Inl (Internal NoBalance)"
    using assms(1,2) by (auto simp: trigger_transfer_def split: sum.splits prod.splits dest: settle_loop_no_nobalance)
  have "stored st' ! i = ts ! i"
    using trigger_transfer_stored [OF assms(1,2)] settle_loop_zero_kept [OF _ assms(3-7)] by auto
  with r show ?thesis by (auto intro: due_mono)
qed

theorem settle_zero_balance_retry_witness:
  "Inr [(''1'', demo_receipt)] \<noteq> Inl (Internal NoBalance) \<and>
   stored (demo_store\<lparr>tontines_file := Json [complete 10 demo_receipt (group_of ''1'' ''rA'' ''sA''),
                                              group_of ''2'' ''rB'' ''sB'']\<rparr>) ! 1 = group_of ''2'' ''rB'' ''sB'' \<and>
   due (\<lambda>_. Some 0) 20 (stored (demo_store\<lparr>tontines_file := Json [complete 10 demo_receipt (group_of ''1'' ''rA'' ''sA''),
                                              group_of ''2'' ''rB'' ''sB'']\<rparr>) ! 1)"
proof -
  have r: "read_trimmed (tontines_file demo_store) = Inr [group_of ''1'' ''rA'' ''sA'', group_of ''2'' ''rB'' ''sB'']"
    by (simp add: demo_store_def)
  have w: "wallet ([group_of ''1'' ''rA'' ''sA'', group_of ''2'' ''rB'' ''sB''] ! 1) = Some \<lparr>address = ''rB'', secret = ''sB''\<rparr>"
    by (simp add: group_of_def)
  have b: "get_rlusd_balance demo_ledger (address \<lparr>address = ''rB'', secret = ''sB''\<rparr>) = Inr 0"
    by (simp add: get_rlusd_balance_def demo_ledger_def issued_line_def is_rlusd_line_def)
  have d: "\<forall>t \<in> set [group_of ''1'' ''rA'' ''sA'', group_of ''2'' ''rB'' ''sB''].
             destination t \<noteq> Some (address \<lparr>address = ''rB'', secret = ''sB''\<rparr>)"
    by (simp add: group_of_def)
  have due: "due (\<lambda>_. Some 0) 10 ([group_of ''1'' ''rA'' ''sA'', group_of ''2'' ''rB'' ''sB''] ! 1)"
    by (simp add: due_def group_of_def)
  from settle_zero_balance_retry [OF settle_demo r _ w b _ d] due show ?thesis by simp
qed

lemma abort_demo:
  "trigger_transfer (\<lambda>_. Some 0) 10 demo_store abort_ledger =
     (Inl (Internal NetworkError), demo_store, apply_payment abort_ledger ''rA'' ''rDest'' 50) \<and>
   get_rlusd_balance (apply_payment abort_ledger ''rA'' ''rDest'' 50) ''rA'' = Inr 0 \<and>
   get_rlusd_balance abort_ledger ''rA'' = Inr 50"
  by (simp add: trigger_transfer_def demo_store_def abort_ledger_def demo_ledger_def
      group_of_def due_def get_rlusd_balance_def transfer_funds_def apply_payment_def
      adjust_def credit_def issued_line_def is_rlusd_line_def)

text \<open>C6: A failure aborts the whole pass and loses the completions already paid for: on any
  file, when the handler's pass fails it writes nothing, even when it has already moved funds
  on the ledger; the pass the specification describes, run on the same file and ledger,
  returns normally and, whenever funds moved, completes at least one tontine and writes it.\<close>

theorem settle_abort_loses_completion:
  assumes "trigger_transfer dp now st L = (Inl e, st', L')" "read_trimmed (tontines_file st) = Inr ts"
  shows "st' = st \<and>
         (\<exists>rs st'' L''. spec_settle dp now st L = (Inr rs, st'', L'') \<and>
            (L' \<noteq> L \<longrightarrow> rs \<noteq> [] \<and> stored st'' \<noteq> ts))"
proof -
  from assms obtain e' where l: "settle_loop dp now L ts = (Inl e', L')" and s: "st' = st"
    by (auto simp: trigger_transfer_def split: sum.splits prod.splits)
  obtain ts' rs u L'' where sp: "spec_loop dp now L ts = ((ts', rs, u), L'')" by (metis prod.exhaust)
  have "L' \<noteq> L \<longrightarrow> rs \<noteq> [] \<and> u \<and> ts' \<noteq> ts" using settle_loop_abort [OF l] sp by auto
  with sp s assms(2) show ?thesis
    by (auto simp: spec_settle_def stored_def)
qed


theorem settle_abort_loses_completion_witness:
  "\<exists>rs st'' L''. spec_settle (\<lambda>_. Some 0) 10 demo_store abort_ledger = (Inr rs, st'', L'') \<and>
     rs \<noteq> [] \<and> stored st'' \<noteq> stored demo_store"
proof -
  have r: "read_trimmed (tontines_file demo_store) = Inr [group_of ''1'' ''rA'' ''sA'', group_of ''2'' ''rB'' ''sB'']"
    by (simp add: demo_store_def)
  have ne: "apply_payment abort_ledger ''rA'' ''rDest'' 50 \<noteq> abort_ledger"
    using abort_demo by (metis sum.inject(2) zero_neq_numeral)
  from settle_abort_loses_completion [OF conjunct1 [OF abort_demo] r] ne show ?thesis
    by (auto simp: demo_store_def stored_def)
qed

end
