(* ===== verification/Membership.thy ===== *)
theory Membership
  imports Store
begin

text \<open>
  The Membership Engine: the four handlers that create tontines and add members.
  \<^item> \<open>POST /api/create-tontine\<close> (\<open>src/BCI/src/app/api/create-tontine/route.js\<close>):
    creates the data file when it is missing, rejects a name some record already has
    in its \<open>name\<close> field, appends a record with the creator as only member.
  \<^item> \<open>POST /api/createWallet\<close> (\<open>src/src/app/api/createWallet/route.js\<close>), the one the
    create page calls: creates and funds a wallet with its RLUSD trust line on the
    ledger, then appends an active record with \<open>id = String(Date.now())\<close>; it checks
    no name.
  \<^item> \<open>POST /api/join-tontine\<close> and \<open>POST /api/join\<close>: find the record by id, reject a
    member already in it, append the user; \<open>join\<close> first asks \<open>trustline/add\<close>
    (an HTTP call to the route modelled by \<open>trustline_add\<close>) for the tontine wallet's
    trust line and fails without writing when that answer is not 200.
  The random suffix of \<open>create-tontine\<close>'s id (\<open>Math.random().toString(36)\<close>), the
  clock and the generated key pair are parameters.
\<close>

definition add_member :: "string \<Rightarrow> tontine \<Rightarrow> tontine" where
  "add_member u t = t\<lparr>members := members t @ [u]\<rparr>"

definition has_name :: "string \<Rightarrow> tontine \<Rightarrow> bool" where
  \<comment> \<open>\<open>t.name === name\<close>\<close>
  "has_name n t = (name t = Some n)"

definition new_tontine :: "string \<Rightarrow> string \<Rightarrow> string \<Rightarrow> string \<Rightarrow> string \<Rightarrow> time \<Rightarrow> tontine" where
  "new_tontine rnd n cyc pwd creator now =
     \<lparr>tid = ''rlsud_'' @ n @ ''_'' @ rnd, name = Some n, tontineName = None,
      cycleSize = js_parse_int cyc, password = Some pwd, destination = None, scheduledTime = None,
      tontineMaster = None, wallet = None, createdAt = now, status = None, members = [creator],
      transferredAt = None, txResult = None\<rparr>"

definition create_tontine ::
  "store \<Rightarrow> time \<Rightarrow> string \<Rightarrow> field \<Rightarrow> field \<Rightarrow> field \<Rightarrow> field \<Rightarrow> (api_error + tontine) \<times> store" where
  "create_tontine st now rnd fname fcycle fpwd fcreator =
     (if \<not> truthy fname \<or> \<not> truthy fcycle \<or> \<not> truthy fpwd \<or> \<not> truthy fcreator
      then (Inl MissingFields, st)
      else let n = the fname;
               st1 = (if tontines_file st = Missing then st\<lparr>tontines_file := Json []\<rparr> else st) in
        (case read_strict (tontines_file st1) of
          Inl e \<Rightarrow> (Inl (Internal e), st1)
        | Inr ts \<Rightarrow>
            if list_ex (has_name n) ts then (Inl DuplicateName, st1)
            else let t = new_tontine rnd n (the fcycle) (the fpwd) (the fcreator) now in
              (Inr t, st1\<lparr>tontines_file := Json (ts @ [t])\<rparr>)))"

definition wallet_record ::
  "time \<Rightarrow> wallet \<Rightarrow> string \<Rightarrow> string \<Rightarrow> string \<Rightarrow> string \<Rightarrow> tontine" where
  "wallet_record now w n dest sched u =
     \<lparr>tid = int_str now, name = None, tontineName = Some n, cycleSize = None, password = None,
      destination = Some dest, scheduledTime = Some sched, tontineMaster = Some u,
      wallet = Some \<lparr>address = address w, secret = secret w\<rparr>, createdAt = now,
      status = Some Active, members = [u], transferredAt = None, txResult = None\<rparr>"

definition create_wallet ::
  "store \<Rightarrow> ledger \<Rightarrow> time \<Rightarrow> wallet \<Rightarrow> field \<Rightarrow> field \<Rightarrow> field \<Rightarrow> field \<Rightarrow>
   (api_error + string \<times> string) \<times> store \<times> ledger" where
  "create_wallet st L now gen fname fdest fsched fuser =
     (if \<not> truthy fname \<or> \<not> truthy fdest \<or> \<not> truthy fsched \<or> \<not> truthy fuser
      then (Inl MissingFields, st, L)
      else (case create_temporary_wallet L gen of
        (Inl e, L1) \<Rightarrow> (Inl (Internal e), st, L1)
      | (Inr w, L1) \<Rightarrow>
          let t = wallet_record now w (the fname) (the fdest) (the fsched) (the fuser) in
          (case read_trimmed (tontines_file st) of
            Inl e \<Rightarrow> (Inl (Internal e), st, L1)
          | Inr ts \<Rightarrow> (Inr (tid t, address w), st\<lparr>tontines_file := Json (ts @ [t])\<rparr>, L1))))"

text \<open>The part the two join handlers share: field check, existence of the data file,
  parse, lookup by id, membership check. It returns the array and the found record.\<close>

definition join_lookup :: "store \<Rightarrow> field \<Rightarrow> field \<Rightarrow> api_error + tontine list \<times> tontine" where
  "join_lookup st fid fuser =
     (if \<not> truthy fid \<or> \<not> truthy fuser then Inl MissingFields
      else if tontines_file st = Missing then Inl DataFileMissing
      else (case read_strict (tontines_file st) of
        Inl e \<Rightarrow> Inl (Internal e)
      | Inr ts \<Rightarrow>
          (case find_tontine ts (the fid) of
            None \<Rightarrow> Inl TontineNotFound
          | Some t \<Rightarrow> if the fuser \<in> set (members t) then Inl AlreadyMember else Inr (ts, t))))"

definition joined :: "string \<Rightarrow> string \<Rightarrow> tontine list \<Rightarrow> tontine list" where
  \<comment> \<open>\<open>tontine.members.push(userId)\<close> on the found record, then the array is written\<close>
  "joined i u ts = upd_first (\<lambda>x. tid x = i) (add_member u) ts"

definition join_tontine :: "store \<Rightarrow> field \<Rightarrow> field \<Rightarrow> (api_error + tontine) \<times> store" where
  "join_tontine st fid fuser =
     (case join_lookup st fid fuser of
       Inl e \<Rightarrow> (Inl e, st)
     | Inr (ts, t) \<Rightarrow>
         (Inr (add_member (the fuser) t),
          st\<lparr>tontines_file := Json (joined (the fid) (the fuser) ts)\<rparr>))"

definition join_trustline ::
  "store \<Rightarrow> ledger \<Rightarrow> field \<Rightarrow> field \<Rightarrow> (api_error + tontine) \<times> store \<times> ledger" where
  "join_trustline st L fid fuser =
     (case join_lookup st fid fuser of
       Inl e \<Rightarrow> (Inl e, st, L)
     | Inr (ts, t) \<Rightarrow>
         (case wallet t of
           None \<Rightarrow> (Inl (Internal TypeError), st, L)
         | Some w \<Rightarrow>
             (case trustline_add L (Some (address w)) (Some (secret w)) of
               (Inl _, L1) \<Rightarrow> (Inl TrustlineFailed, st, L1)
             | (Inr _, L1) \<Rightarrow>
                 (Inr (add_member (the fuser) t),
                  st\<lparr>tontines_file := Json (joined (the fid) (the fuser) ts)\<rparr>, L1))))"

text \<open>The names a \<open>create-tontine\<close> record carries; \<open>createWallet\<close> records have none.\<close>

definition names_of :: "tontine list \<Rightarrow> string list" where
  "names_of ts = concat (map (\<lambda>t. case name t of None \<Rightarrow> [] | Some n \<Rightarrow> [n]) ts)"

subsection \<open>Scenario\<close>

text \<open>A store with the tontine \<open>G1\<close> created by \<open>createWallet\<close> at time 1000 with the
  wallet \<open>rW\<close>, and a ledger on which \<open>rW\<close> exists without trust lines.\<close>

definition club_wallet :: wallet where
  "club_wallet = \<lparr>address = ''rW'', secret = ''sW''\<rparr>"

definition club_record :: tontine where
  "club_record = wallet_record 1000 club_wallet ''G1'' ''rDest'' ''2025-01-01T10:00'' ''u1''"

definition club_store :: store where
  "club_store = \<lparr>tontines_file = Json [club_record], users_file = Missing\<rparr>"

definition club_ledger :: ledger where
  "club_ledger = \<lparr>account_lines = (\<lambda>a. if a = ''rW'' then Some [] else None), down = (\<lambda>_. False),
     seed_address = (\<lambda>s. if s = ''sW'' then Some ''rW'' else None),
     pay_result = (\<lambda>_ _. tes_success), trust_result = (\<lambda>_. tes_success), xrp_balance = (\<lambda>_. ''100'')\<rparr>"


subsection \<open>Joining\<close>

lemma join_lookup_Inr:
  "join_lookup st fid fuser = Inr (ts, t) \<longleftrightarrow>
   (\<exists>i u. fid = Some i \<and> fuser = Some u \<and> i \<noteq> [] \<and> u \<noteq> [] \<and> tontines_file st = Json ts \<and>
          find_tontine ts i = Some t \<and> u \<notin> set (members t))"
  by (cases fid; cases fuser) (auto simp: join_lookup_def split: sum.splits option.splits if_splits)

lemma find_joined:
  "find_tontine (joined i u ts) = (find_tontine ts)(i := map_option (add_member u) (find_tontine ts i))"
  by (induction ts) (auto simp: joined_def find_tontine_def add_member_def fun_eq_iff)

lemma join_tontine_Inr:
  assumes "join_tontine st fid fuser = (Inr t', st')"
  shows "\<exists>ts t. tontines_file st = Json ts \<and> find_tontine ts (the fid) = Some t \<and>
           t' = add_member (the fuser) t \<and> find_tontine (stored st') = (find_tontine ts)(the fid \<mapsto> t')"
  using assms
  by (auto simp: join_tontine_def join_lookup_Inr find_joined split: sum.splits prod.splits)

lemma trustline_add_Inl: "trustline_add L a s = (Inl e, L') \<Longrightarrow> L' = L"
  by (auto simp: trustline_add_def Let_def split: option.splits if_splits)

text \<open>C12: Refinement of joining: a successful \<open>join-tontine\<close> changes the id-lookup view of the
  tontine file exactly at the requested id, where the found record gains the user as last member.\<close>

theorem join_refines:
  assumes "join_tontine st fid fuser = (Inr t', st')"
  shows "\<exists>ts t. tontines_file st = Json ts \<and> find_tontine ts (the fid) = Some t \<and>
           t' = add_member (the fuser) t \<and> find_tontine (stored st') = (find_tontine ts)(the fid \<mapsto> t')"
  using assms by (rule join_tontine_Inr)

text \<open>C13: Membership idempotence: after a successful \<open>join-tontine\<close> of a user, joining the same
  user again is rejected with AlreadyMember and changes nothing, and the record's member list grew by
  exactly one.\<close>

theorem join_twice:
  assumes "join_tontine st (Some i) (Some u) = (Inr t1, st1)"
  shows "join_tontine st1 (Some i) (Some u) = (Inl AlreadyMember, st1) \<and>
         (\<exists>t. find_tontine (stored st) i = Some t \<and> find_tontine (stored st1) i = Some t1 \<and>
              length (members t1) = Suc (length (members t)))"
proof -
  from assms obtain ts t where ts: "tontines_file st = Json ts" "find_tontine ts i = Some t"
      "t1 = add_member u t" "find_tontine (stored st1) = (find_tontine ts)(i \<mapsto> t1)"
    using join_tontine_Inr by fastforce
  from assms have "i \<noteq> []" "u \<noteq> []" "tontines_file st1 = Json (joined i u ts)"
    using ts(1) by (auto simp: join_tontine_def join_lookup_Inr split: sum.splits prod.splits)
  moreover have "find_tontine (joined i u ts) i = Some t1"
    using ts by (simp add: find_joined)
  moreover have "u \<in> set (members t1)" using ts(3) by (simp add: add_member_def)
  ultimately have "join_tontine st1 (Some i) (Some u) = (Inl AlreadyMember, st1)"
    by (simp add: join_tontine_def join_lookup_def)
  moreover have "find_tontine (stored st) i = Some t" using ts by (simp add: stored_def)
  ultimately show ?thesis using ts by (simp add: add_member_def)
qed

text \<open>C14: When the trust line step of \<open>join\<close> fails, the join answers TrustlineFailed, writes
  nothing and leaves the ledger as it was.\<close>

theorem join_trustline_failure:
  assumes "join_lookup st fid fuser = Inr (ts, t)" "wallet t = Some w"
    and "fst (trustline_add L (Some (address w)) (Some (secret w))) = Inl e"
  shows "join_trustline st L fid fuser = (Inl TrustlineFailed, st, L)"
proof -
  obtain L1 where "trustline_add L (Some (address w)) (Some (secret w)) = (Inl e, L1)"
    using assms(3) by (cases "trustline_add L (Some (address w)) (Some (secret w))") auto
  moreover from this have "L1 = L" by (rule trustline_add_Inl)
  ultimately show ?thesis using assms(1,2) by (simp add: join_trustline_def)
qed

lemma add_trust_line_has_line:
  "account_lines L a = Some ls \<Longrightarrow> \<exists>ls'. account_lines (add_trust_line a L) a = Some ls' \<and> list_ex is_rlusd_line ls'"
  by (auto simp: add_trust_line_def list_ex_iff find_None_iff rlusd_trust_line_def is_rlusd_line_def
      dest!: find_Some_iff[THEN iffD1])

lemma trustline_add_usable:
  assumes "trustline_add L (Some a) (Some s) = (Inr oc, L')" "seed_address L s = Some a"
  shows "\<exists>ls. account_lines L' a = Some ls \<and> list_ex is_rlusd_line ls"
proof -
  from assms(1) obtain ls where ls: "account_lines L a = Some ls"
    by (auto simp: trustline_add_def Let_def split: option.splits if_splits)
  show ?thesis
  proof (cases "List.find is_trust_line ls")
    case None
    with assms ls have "L' = add_trust_line a L"
      by (auto simp: trustline_add_def Let_def split: if_splits)
    with ls show ?thesis by (simp add: add_trust_line_has_line)
  next
    case (Some l)
    with assms ls have "L' = L"
      by (auto simp: trustline_add_def Let_def split: if_splits)
    moreover from Some have "l \<in> set ls \<and> is_rlusd_line l"
      by (auto simp: find_Some_iff is_trust_line_def is_rlusd_line_def)
    ultimately show ?thesis using ls by (auto simp: list_ex_iff)
  qed
qed

text \<open>After a successful \<open>join\<close> on a tontine whose secret signs for its address, the
  tontine wallet holds an RLUSD trust line: a member is only added once the access path is usable.\<close>

theorem join_trustline_usable:
  assumes "join_trustline st L fid fuser = (Inr t', st', L')" "wallet t' = Some w"
    and "seed_address L (secret w) = Some (address w)"
  shows "\<exists>ls. account_lines L' (address w) = Some ls \<and> list_ex is_rlusd_line ls"
proof -
  from assms(1) obtain ts t oc where "join_lookup st fid fuser = Inr (ts, t)" "wallet t = Some w"
      "trustline_add L (Some (address w)) (Some (secret w)) = (Inr oc, L')"
    using assms(2)
    by (auto simp: join_trustline_def add_member_def split: sum.splits option.splits prod.splits)
  then show ?thesis using assms(3) by (blast intro: trustline_add_usable)
qed

subsection \<open>Creation\<close>

lemma names_of_append [simp]: "names_of (xs @ ys) = names_of xs @ names_of ys"
  by (simp add: names_of_def)

lemma names_of_has_name: "n \<in> set (names_of ts) \<longleftrightarrow> list_ex (has_name n) ts"
  by (induction ts) (auto simp: names_of_def has_name_def list_ex_iff split: option.splits)

text \<open>C15: \<open>create-tontine\<close> rejects a name some stored record already has, with
  DuplicateName and without writing.\<close>

theorem create_tontine_duplicate:
  assumes "tontines_file st = Json ts" "list_ex (has_name n) ts" "n \<noteq> []"
    and "truthy fc" "truthy fp" "truthy fcr"
  shows "create_tontine st now rnd (Some n) fc fp fcr = (Inl DuplicateName, st)"
  using assms by (simp add: create_tontine_def)

text \<open>C16: Name uniqueness for \<open>create-tontine\<close>: a successful creation keeps the names of the
  stored records pairwise distinct.\<close>

theorem create_tontine_names_distinct:
  assumes "create_tontine st now rnd fn fc fp fcr = (Inr t, st')" "distinct (names_of (stored st))"
  shows "distinct (names_of (stored st'))"
proof -
  from assms(1) obtain n ts where n: "fn = Some n" "n \<noteq> []" "stored st = ts"
      "\<not> list_ex (has_name n) ts" "t = new_tontine rnd n (the fc) (the fp) (the fcr) now"
      "stored st' = ts @ [t]"
    by (cases fn) (auto simp: create_tontine_def stored_def Let_def
                        split: if_splits sum.splits jfile.splits)
  then have "names_of (stored st') = names_of ts @ [n]"
    by (simp add: names_of_def new_tontine_def)
  with n assms(2) show ?thesis by (simp add: names_of_has_name)
qed

text \<open>A successful \<open>createWallet\<close> created its wallet on the ledger first and appends one
  active record, with id \<open>String(now)\<close>, the creator as only member and that wallet, to the
  records it read.\<close>

theorem create_wallet_appends:
  assumes "create_wallet st L now gen fn fd fs fu = (Inr (i, a), st', L')"
    and "read_trimmed (tontines_file st) = Inr ts"
  shows "\<exists>w. create_temporary_wallet L gen = (Inr w, L') \<and> i = int_str now \<and> a = address w \<and>
           stored st' = ts @ [wallet_record now w (the fn) (the fd) (the fs) (the fu)]"
  using assms
  by (auto simp: create_wallet_def wallet_record_def split: if_splits prod.splits sum.splits)

lemma create_temporary_wallet_Inr: "create_temporary_wallet L gen = (Inr w, L') \<Longrightarrow> w = gen"
  by (auto simp: create_temporary_wallet_def Let_def split: if_splits)

text \<open>C17: \<open>createWallet\<close>, the creation route the application uses, performs no duplicate-name
  check: with a stored tontine of the same name, creation succeeds and the store then holds two
  tontines of that name.\<close>

theorem create_wallet_duplicate_name:
  assumes "read_trimmed (tontines_file st) = Inr ts" "list_ex (\<lambda>t. tontineName t = Some n) ts"
    and "create_temporary_wallet L gen = (Inr w, L')" "n \<noteq> []" "d \<noteq> []" "s \<noteq> []" "u \<noteq> []"
  shows "\<exists>st'. create_wallet st L now gen (Some n) (Some d) (Some s) (Some u) = (Inr (int_str now, address w), st', L') \<and>
              2 \<le> length (filter (\<lambda>t. tontineName t = Some n) (stored st'))"
proof -
  let ?st' = "st\<lparr>tontines_file := Json (ts @ [wallet_record now w n d s u])\<rparr>"
  have run: "create_wallet st L now gen (Some n) (Some d) (Some s) (Some u) = (Inr (int_str now, address w), ?st', L')"
    using assms(1,3-) by (simp add: create_wallet_def wallet_record_def)
  from assms(2) have "1 \<le> length (filter (\<lambda>t. tontineName t = Some n) ts)"
    by (auto simp: list_ex_iff Suc_le_eq filter_empty_conv)
  then have "2 \<le> length (filter (\<lambda>t. tontineName t = Some n) (stored ?st'))"
    by (simp add: wallet_record_def)
  with run show ?thesis by blast
qed

text \<open>\<open>createTemporaryWallet\<close> on a fresh key pair succeeds whenever the network answers
  and the TrustSet is accepted: the faucet creates the account and the trust line it then verifies
  is the one the TrustSet added.\<close>

theorem create_temporary_wallet_fresh:
  assumes "\<not> down L (address gen)" "account_lines L (address gen) = None"
    and "trust_result (fund_account (address gen) L) (address gen) = tes_success"
  shows "create_temporary_wallet L gen =
           (Inr gen, add_trust_line (address gen) (fund_account (address gen) L))"
  using assms
  by (simp add: create_temporary_wallet_def fund_account_def add_trust_line_def rlusd_trust_line_def
      is_exact_trust_line_def)

lemma club_join:
  "join_tontine club_store (Some (int_str 1000)) (Some ''u2'') =
     (Inr (add_member ''u2'' club_record), club_store\<lparr>tontines_file := Json [add_member ''u2'' club_record]\<rparr>)"
  by (simp add: join_tontine_def join_lookup_def club_store_def club_record_def wallet_record_def
      find_tontine_def joined_def)

theorem join_refines_witness:
  "find_tontine [add_member ''u2'' club_record] (int_str 1000) = Some (add_member ''u2'' club_record)"
proof -
  from join_refines [OF club_join] have
    "find_tontine (stored (club_store\<lparr>tontines_file := Json [add_member ''u2'' club_record]\<rparr>)) =
     (find_tontine [club_record])((int_str 1000) \<mapsto> add_member ''u2'' club_record)"
    by (auto simp: club_store_def)
  then show ?thesis by (simp add: fun_eq_iff)
qed

theorem join_twice_witness:
  "join_tontine (club_store\<lparr>tontines_file := Json [add_member ''u2'' club_record]\<rparr>) (Some (int_str 1000)) (Some ''u2'') =
     (Inl AlreadyMember, club_store\<lparr>tontines_file := Json [add_member ''u2'' club_record]\<rparr>) \<and>
   members (add_member ''u2'' club_record) = [''u1'', ''u2'']"
  using join_twice [OF club_join]
  by (simp add: add_member_def club_record_def wallet_record_def)

theorem join_trustline_failure_witness:
  "join_trustline club_store (club_ledger\<lparr>trust_result := (\<lambda>_. ''tecNO_PERMISSION'')\<rparr>) (Some (int_str 1000)) (Some ''u2'') =
     (Inl TrustlineFailed, club_store, club_ledger\<lparr>trust_result := (\<lambda>_. ''tecNO_PERMISSION'')\<rparr>)"
proof (rule join_trustline_failure)
  show "join_lookup club_store (Some (int_str 1000)) (Some ''u2'') = Inr ([club_record], club_record)"
    by (simp add: join_lookup_def club_store_def club_record_def wallet_record_def find_tontine_def)
  show "wallet club_record = Some club_wallet"
    by (simp add: club_record_def wallet_record_def club_wallet_def)
  show "fst (trustline_add (club_ledger\<lparr>trust_result := (\<lambda>_. ''tecNO_PERMISSION'')\<rparr>)
           (Some (address club_wallet)) (Some (secret club_wallet))) = Inl (Internal (TxFailed ''tecNO_PERMISSION''))"
    by (simp add: trustline_add_def club_ledger_def club_wallet_def tes_success_def)
qed

theorem join_trustline_usable_witness:
  "\<exists>ls. account_lines (add_trust_line ''rW'' club_ledger) ''rW'' = Some ls \<and> list_ex is_rlusd_line ls"
proof -
  have run: "join_trustline club_store club_ledger (Some (int_str 1000)) (Some ''u2'') =
     (Inr (add_member ''u2'' club_record), club_store\<lparr>tontines_file := Json [add_member ''u2'' club_record]\<rparr>,
      add_trust_line ''rW'' club_ledger)"
    by (simp add: join_trustline_def join_lookup_def club_store_def club_record_def wallet_record_def
        find_tontine_def joined_def club_wallet_def trustline_add_def
        club_ledger_def)
  have "wallet (add_member ''u2'' club_record) = Some club_wallet"
    by (simp add: add_member_def club_record_def wallet_record_def club_wallet_def)
  moreover have "seed_address club_ledger (secret club_wallet) = Some (address club_wallet)"
    by (simp add: club_ledger_def club_wallet_def)
  ultimately show ?thesis using join_trustline_usable [OF run] by (simp add: club_wallet_def)
qed

theorem create_tontine_duplicate_witness:
  "create_tontine (club_store\<lparr>tontines_file := Json [new_tontine ''k3x9a'' ''G1'' ''30'' ''pw'' ''u1'' 5]\<rparr>)
     7 ''q8z2m'' (Some ''G1'') (Some ''30'') (Some ''pw'') (Some ''u3'') =
   (Inl DuplicateName, club_store\<lparr>tontines_file := Json [new_tontine ''k3x9a'' ''G1'' ''30'' ''pw'' ''u1'' 5]\<rparr>)"
proof -
  have "list_ex (has_name ''G1'') [new_tontine ''k3x9a'' ''G1'' ''30'' ''pw'' ''u1'' 5]"
    by (simp add: new_tontine_def has_name_def)
  from create_tontine_duplicate [OF _ this] show ?thesis by simp
qed

theorem create_tontine_names_distinct_witness:
  "distinct (names_of (stored (club_store\<lparr>tontines_file := Json [club_record, new_tontine ''k3x9a'' ''G1'' ''30'' ''pw'' ''u1'' 5]\<rparr>)))"
proof -
  have run: "create_tontine club_store 5 ''k3x9a'' (Some ''G1'') (Some ''30'') (Some ''pw'') (Some ''u1'') =
    (Inr (new_tontine ''k3x9a'' ''G1'' ''30'' ''pw'' ''u1'' 5),
     club_store\<lparr>tontines_file := Json [club_record, new_tontine ''k3x9a'' ''G1'' ''30'' ''pw'' ''u1'' 5]\<rparr>)"
    by (simp add: create_tontine_def club_store_def club_record_def wallet_record_def has_name_def
        Let_def)
  have "distinct (names_of (stored club_store))"
    by (simp add: club_store_def stored_def names_of_def club_record_def wallet_record_def)
  from create_tontine_names_distinct [OF run this] show ?thesis .
qed

lemma club_fresh_wallet:
  "create_temporary_wallet club_ledger \<lparr>address = ''rN'', secret = ''sN''\<rparr> =
     (Inr \<lparr>address = ''rN'', secret = ''sN''\<rparr>, add_trust_line ''rN'' (fund_account ''rN'' club_ledger))"
  using create_temporary_wallet_fresh [of club_ledger "\<lparr>address = ''rN'', secret = ''sN''\<rparr>"]
  by (simp add: club_ledger_def fund_account_def)

theorem create_temporary_wallet_fresh_witness:
  "\<not> down club_ledger ''rN'' \<and> account_lines club_ledger ''rN'' = None \<and>
   fst (create_temporary_wallet club_ledger \<lparr>address = ''rN'', secret = ''sN''\<rparr>) = Inr \<lparr>address = ''rN'', secret = ''sN''\<rparr>"
  using create_temporary_wallet_fresh [of club_ledger "\<lparr>address = ''rN'', secret = ''sN''\<rparr>"]
  by (simp add: club_ledger_def fund_account_def)

theorem create_wallet_appends_witness:
  "stored (club_store\<lparr>tontines_file := Json [club_record,
     wallet_record 2000 \<lparr>address = ''rN'', secret = ''sN''\<rparr> ''G2'' ''rDest'' ''2025-02-01T10:00'' ''u2'']\<rparr>) =
   [club_record, wallet_record 2000 \<lparr>address = ''rN'', secret = ''sN''\<rparr> ''G2'' ''rDest'' ''2025-02-01T10:00'' ''u2'']"
proof -
  have run: "create_wallet club_store club_ledger 2000 \<lparr>address = ''rN'', secret = ''sN''\<rparr>
      (Some ''G2'') (Some ''rDest'') (Some ''2025-02-01T10:00'') (Some ''u2'') =
    (Inr (int_str 2000, ''rN''), club_store\<lparr>tontines_file := Json [club_record,
       wallet_record 2000 \<lparr>address = ''rN'', secret = ''sN''\<rparr> ''G2'' ''rDest'' ''2025-02-01T10:00'' ''u2'']\<rparr>,
     add_trust_line ''rN'' (fund_account ''rN'' club_ledger))"
    by (simp add: create_wallet_def club_fresh_wallet club_store_def wallet_record_def)
  have "read_trimmed (tontines_file club_store) = Inr [club_record]" by (simp add: club_store_def)
  from create_wallet_appends [OF run this] show ?thesis
    by (auto simp: club_fresh_wallet)
qed

theorem create_wallet_duplicate_name_witness:
  "\<exists>st'. create_wallet club_store club_ledger 2000 \<lparr>address = ''rN'', secret = ''sN''\<rparr>
      (Some ''G1'') (Some ''rDest'') (Some ''2025-02-01T10:00'') (Some ''u2'') =
     (Inr (int_str 2000, ''rN''), st', add_trust_line ''rN'' (fund_account ''rN'' club_ledger)) \<and>
   2 \<le> length (filter (\<lambda>t. tontineName t = Some ''G1'') (stored st'))"
proof -
  have "read_trimmed (tontines_file club_store) = Inr [club_record]" by (simp add: club_store_def)
  moreover have "list_ex (\<lambda>t. tontineName t = Some ''G1'') [club_record]"
    by (simp add: club_record_def wallet_record_def)
  ultimately show ?thesis
    using create_wallet_duplicate_name [OF _ _ club_fresh_wallet] by simp
qed


end
