(* ===== verification/Auth.thy ===== *)
theory Auth
  imports Store
begin

text \<open>
  \<open>POST /api/auth\<close> (\<open>src/src/app/api/auth/route.js\<close>): first-seen provisioning of users
  by wallet address. The address is the only credential: the handler looks it up in
  \<open>data/users.json\<close> and returns the user it finds, or appends a new user with
  \<open>userId = "user_" + Date.now()\<close> and a random session token
  (\<open>"session_" + Math.random().toString(36).substring(2)\<close>, the parameter \<open>rnd\<close>).
  A missing file is an empty list; the file is read without a trim, so a blank or
  malformed file is a 500.
\<close>

definition new_user :: "time \<Rightarrow> string \<Rightarrow> string \<Rightarrow> user" where
  "new_user now rnd a = \<lparr>userId = ''user_'' @ int_str now, walletAddress = a, sessionToken = ''session_'' @ rnd\<rparr>"

definition read_users :: "user list jfile \<Rightarrow> exc + user list" where
  \<comment> \<open>\<open>existsSync\<close>, then \<open>JSON.parse(readFileSync(...))\<close>\<close>
  "read_users f = (if f = Missing then Inr [] else read_strict f)"

definition login :: "store \<Rightarrow> time \<Rightarrow> string \<Rightarrow> field \<Rightarrow> (api_error + user) \<times> store" where
  "login st now rnd fwa =
     (if \<not> truthy fwa then (Inl MissingFields, st)
      else (case read_users (users_file st) of
        Inl e \<Rightarrow> (Inl (Internal e), st)
      | Inr us \<Rightarrow>
          (case List.find (\<lambda>u. walletAddress u = the fwa) us of
            Some u \<Rightarrow> (Inr u, st)
          | None \<Rightarrow>
              let u = new_user now rnd (the fwa) in (Inr u, st\<lparr>users_file := Json (us @ [u])\<rparr>))))"

text \<open>The users a successful read of the file sees.\<close>

definition users :: "store \<Rightarrow> user list" where
  "users st = (case read_users (users_file st) of Inr us \<Rightarrow> us | Inl _ \<Rightarrow> [])"

subsection \<open>Login\<close>

lemma login_Inr:
  assumes "login st now rnd fwa = (Inr u, st')"
  shows "\<exists>a us. fwa = Some a \<and> a \<noteq> [] \<and> read_users (users_file st) = Inr us \<and>
           ((List.find (\<lambda>u. walletAddress u = a) us = Some u \<and> st' = st) \<or>
            (List.find (\<lambda>u. walletAddress u = a) us = None \<and> u = new_user now rnd a \<and>
             st' = st\<lparr>users_file := Json (us @ [u])\<rparr>))"
  using assms by (cases fwa) (auto simp: login_def Let_def split: if_splits sum.splits option.splits)

lemma read_users_Json [simp]: "read_users (Json us) = Inr us"
  by (simp add: read_users_def)

lemma find_wallet_snoc:
  "List.find (\<lambda>u. walletAddress u = a) us = None \<Longrightarrow> walletAddress u = a \<Longrightarrow>
   List.find (\<lambda>v. walletAddress v = a) (us @ [u]) = Some u"
  by (induction us) auto

subsection \<open>Properties\<close>

text \<open>Login is idempotent: logging in again with the same wallet address, at any later
  time, returns the same user and writes nothing.\<close>

theorem login_idempotent:
  assumes "login st now rnd (Some a) = (Inr u, st')"
  shows "login st' now' rnd' (Some a) = (Inr u, st')"
proof -
  from login_Inr [OF assms] obtain us where a: "a \<noteq> []" "read_users (users_file st) = Inr us" and
    cases: "(List.find (\<lambda>u. walletAddress u = a) us = Some u \<and> st' = st) \<or>
            (List.find (\<lambda>u. walletAddress u = a) us = None \<and> u = new_user now rnd a \<and>
             st' = st\<lparr>users_file := Json (us @ [u])\<rparr>)"
    by auto
  from cases show ?thesis
  proof
    assume "List.find (\<lambda>u. walletAddress u = a) us = Some u \<and> st' = st"
    with a show ?thesis by (simp add: login_def)
  next
    assume c: "List.find (\<lambda>u. walletAddress u = a) us = None \<and> u = new_user now rnd a \<and>
               st' = st\<lparr>users_file := Json (us @ [u])\<rparr>"
    then have "List.find (\<lambda>v. walletAddress v = a) (us @ [u]) = Some u"
      by (intro find_wallet_snoc) (auto simp: new_user_def)
    with a c show ?thesis by (simp add: login_def)
  qed
qed

text \<open>Wallet-address uniqueness: login keeps the wallet addresses of the stored users
  pairwise distinct.\<close>

theorem login_addresses_distinct:
  assumes "login st now rnd fwa = (Inr u, st')" "distinct (map walletAddress (users st))"
  shows "distinct (map walletAddress (users st'))"
proof -
  from login_Inr [OF assms(1)] obtain a us where a: "fwa = Some a" "read_users (users_file st) = Inr us" and
    cases: "(List.find (\<lambda>u. walletAddress u = a) us = Some u \<and> st' = st) \<or>
            (List.find (\<lambda>u. walletAddress u = a) us = None \<and> u = new_user now rnd a \<and>
             st' = st\<lparr>users_file := Json (us @ [u])\<rparr>)"
    by auto
  have us: "users st = us" using a by (simp add: users_def)
  from cases show ?thesis
  proof
    assume "List.find (\<lambda>u. walletAddress u = a) us = Some u \<and> st' = st"
    with assms(2) show ?thesis by simp
  next
    assume c: "List.find (\<lambda>u. walletAddress u = a) us = None \<and> u = new_user now rnd a \<and>
               st' = st\<lparr>users_file := Json (us @ [u])\<rparr>"
    then have "users st' = us @ [u]" by (simp add: users_def)
    moreover from c have "walletAddress u \<notin> set (map walletAddress us)"
      by (auto simp: new_user_def find_None_iff)
    moreover from assms(2) us have "distinct (map walletAddress us)" by simp
    ultimately show ?thesis by simp
  qed
qed

text \<open>User ids collide: two first logins by different addresses in the same millisecond
  create two distinct users with the same \<open>userId\<close>.\<close>

theorem login_userid_collision:
  assumes "login st now r1 (Some a) = (Inr u1, st1)" "login st1 now r2 (Some b) = (Inr u2, st2)"
    and "List.find (\<lambda>u. walletAddress u = a) (users st) = None" "a \<noteq> b"
    and "List.find (\<lambda>u. walletAddress u = b) (users st1) = None"
  shows "userId u1 = userId u2 \<and> u1 \<noteq> u2 \<and> u1 \<in> set (users st2) \<and> u2 \<in> set (users st2)"
proof -
  from login_Inr [OF assms(1)] assms(3) obtain us where
    "read_users (users_file st) = Inr us" "u1 = new_user now r1 a" "st1 = st\<lparr>users_file := Json (us @ [u1])\<rparr>"
    by (auto simp: users_def)
  moreover from login_Inr [OF assms(2)] assms(5) obtain vs where
    "read_users (users_file st1) = Inr vs" "u2 = new_user now r2 b" "st2 = st1\<lparr>users_file := Json (vs @ [u2])\<rparr>"
    by (auto simp: users_def)
  ultimately show ?thesis using assms(4) by (auto simp: new_user_def users_def)
qed

lemma login_first:
  "login \<lparr>tontines_file = Missing, users_file = Missing\<rparr> 5 ''k1'' (Some ''rAlice'') =
     (Inr (new_user 5 ''k1'' ''rAlice''),
      \<lparr>tontines_file = Missing, users_file = Json [new_user 5 ''k1'' ''rAlice'']\<rparr>)"
  by (simp add: login_def read_users_def Let_def)

theorem login_idempotent_witness:
  "login \<lparr>tontines_file = Missing, users_file = Json [new_user 5 ''k1'' ''rAlice'']\<rparr> 9 ''k9'' (Some ''rAlice'') =
     (Inr (new_user 5 ''k1'' ''rAlice''), \<lparr>tontines_file = Missing, users_file = Json [new_user 5 ''k1'' ''rAlice'']\<rparr>)"
  by (rule login_idempotent [OF login_first])

theorem login_addresses_distinct_witness:
  "distinct (map walletAddress (users \<lparr>tontines_file = Missing, users_file = Json [new_user 5 ''k1'' ''rAlice'']\<rparr>))"
proof -
  have "distinct (map walletAddress (users \<lparr>tontines_file = Missing, users_file = Missing\<rparr>))"
    by (simp add: users_def read_users_def)
  from login_addresses_distinct [OF login_first this] show ?thesis .
qed

theorem login_userid_collision_witness:
  "userId (new_user 5 ''k1'' ''rAlice'') = userId (new_user 5 ''k2'' ''rBob'') \<and>
   new_user 5 ''k1'' ''rAlice'' \<noteq> new_user 5 ''k2'' ''rBob''"
proof -
  have second: "login \<lparr>tontines_file = Missing, users_file = Json [new_user 5 ''k1'' ''rAlice'']\<rparr> 5 ''k2'' (Some ''rBob'') =
     (Inr (new_user 5 ''k2'' ''rBob''),
      \<lparr>tontines_file = Missing, users_file = Json [new_user 5 ''k1'' ''rAlice'', new_user 5 ''k2'' ''rBob'']\<rparr>)"
    by (simp add: login_def new_user_def Let_def)
  have "List.find (\<lambda>u. walletAddress u = ''rAlice'') (users \<lparr>tontines_file = Missing, users_file = Missing\<rparr>) = None"
    by (simp add: users_def read_users_def)
  moreover have "List.find (\<lambda>u. walletAddress u = ''rBob'')
      (users \<lparr>tontines_file = Missing, users_file = Json [new_user 5 ''k1'' ''rAlice'']\<rparr>) = None"
    by (simp add: users_def new_user_def)
  ultimately show ?thesis
    using login_userid_collision [OF login_first second] by simp
qed

end
