(* ===== verification/Queries.thy ===== *)
theory Queries
  imports Membership
begin

text \<open>
  The read-only routes over the tontine file and the routes that answer constants:
  \<^item> \<open>GET /api/tontines/list?userId=\<close> (\<open>src/src/app/api/tontines/list/route.js\<close>): the
    tontines whose members include the user, projected on id, \<open>tontineName\<close>,
    \<open>scheduledTime\<close> and \<open>status\<close>;
  \<^item> \<open>GET /api/tontines/details?id=\<close> (\<open>src/BCI/src/app/api/tontines/details/route.js\<close>):
    the whole stored record with that id, wallet secret included;
  \<^item> \<open>get-tontine\<close> (a pages-router handler whose lookup is the constant \<open>null\<close>),
    \<open>list-tontines\<close> (two hard-coded tontines) and \<open>wallet-balance\<close> (the constant
    \<open>'250.75'\<close>).
  Both file routes read with \<open>readFileSync\<close> and no existence check.
\<close>

record summary =
  s_id :: string
  s_tontineName :: "string option"
  s_scheduledTime :: "string option"
  s_status :: "tstatus option"

definition summarize :: "tontine \<Rightarrow> summary" where
  "summarize t = \<lparr>s_id = tid t, s_tontineName = tontineName t, s_scheduledTime = scheduledTime t,
                  s_status = status t\<rparr>"

definition tontines_list :: "store \<Rightarrow> field \<Rightarrow> api_error + summary list" where
  "tontines_list st fuser =
     (if \<not> truthy fuser then Inl MissingFields
      else (case read_strict (tontines_file st) of
        Inl e \<Rightarrow> Inl (Internal e)
      | Inr ts \<Rightarrow> Inr (map summarize (filter (\<lambda>t. the fuser \<in> set (members t)) ts))))"

definition tontine_details :: "store \<Rightarrow> field \<Rightarrow> api_error + tontine" where
  "tontine_details st fid =
     (if \<not> truthy fid then Inl MissingFields
      else (case read_strict (tontines_file st) of
        Inl e \<Rightarrow> Inl (Internal e)
      | Inr ts \<Rightarrow> (case find_tontine ts (the fid) of None \<Rightarrow> Inl TontineNotFound | Some t \<Rightarrow> Inr t)))"

definition get_tontine :: "string \<Rightarrow> field \<Rightarrow> api_error + tontine" where
  \<comment> \<open>\<open>const tontine = null; if (!tontine) return 404\<close>; any other method is a 405\<close>
  "get_tontine method fid = (if method = ''GET'' then Inl TontineNotFound else Inl MethodNotAllowed)"

definition list_tontines :: "(string \<times> string \<times> int) list" where
  "list_tontines = [(''xrpl_001'', ''Tontine Entrepreneurs'', 30), (''rlsud_002'', ''Tontine Investisseurs'', 15)]"

definition wallet_balance_const :: string where
  "wallet_balance_const = ''250.75''"

subsection \<open>Properties\<close>

lemma tontines_list_Json:
  "u \<noteq> [] \<Longrightarrow> tontines_list (st\<lparr>tontines_file := Json ts\<rparr>) (Some u) =
     Inr (map summarize (filter (\<lambda>t. u \<in> set (members t)) ts))"
  by (simp add: tontines_list_def)

text \<open>The details route hands out the tontine wallet's secret seed: for the tontine
  \<open>G1\<close> created with the wallet \<open>rW\<close>, \<open>tontines/details\<close> answers the stored record, whose
  wallet carries the secret \<open>sW\<close>.\<close>

theorem details_exposes_secret:
  "tontine_details club_store (Some (int_str 1000)) = Inr club_record \<and>
   map_option secret (wallet club_record) = Some ''sW''"
  by (simp add: tontine_details_def club_store_def club_record_def wallet_record_def club_wallet_def
      find_tontine_def)

end
