(* ===== verification/Wallets.thy ===== *)
theory Wallets
  imports Ledger
begin

text \<open>
  The balance routes, each with its own copy of the trust-line lookup:
  \<^item> \<open>GET /api/wallet?address=\<close> (\<open>src/BCI/src/app/api/wallet/route.js\<close>): XRP balance
    and the balance of the first line with currency \<open>RLUSD\<close> or its hex code whose issuer
    matches upper-cased, \<open>"0"\<close> without one;
  \<^item> \<open>POST /api/wallet/balance\<close> (\<open>src/src/app/api/wallet/balance/route.js\<close>): rejects an
    address that does not start with \<open>r\<close>, and looks for the hex code only;
  \<^item> \<open>POST /api/getWalletBalance\<close> (\<open>src/BCI/src/app/api/getWalletBalance/route.js\<close>):
    \<open>getRLUSDBalance\<close> of the service.
  A request that fails at the network, or about an account that does not exist, throws
  and is answered 500.
\<close>

definition rlusd_of_lines :: "(rline \<Rightarrow> bool) \<Rightarrow> rline list \<Rightarrow> int" where
  \<comment> \<open>\<open>let rlusdBalance = "0"; const line = lines.find(p); if (line) rlusdBalance = line.balance\<close>\<close>
  "rlusd_of_lines p ls = (case List.find p ls of None \<Rightarrow> 0 | Some l \<Rightarrow> balance l)"

definition xrp_and_rlusd :: "(rline \<Rightarrow> bool) \<Rightarrow> ledger \<Rightarrow> string \<Rightarrow> api_error + string \<times> int" where
  \<comment> \<open>connect, \<open>getXrpBalance\<close>, \<open>account_lines\<close>, then the lookup\<close>
  "xrp_and_rlusd p L a =
     (if down L a then Inl (Internal NetworkError)
      else (case account_lines L a of
        None \<Rightarrow> Inl (Internal AccountNotFound)
      | Some ls \<Rightarrow> Inr (xrp_balance L a, rlusd_of_lines p ls)))"

definition wallet_get :: "ledger \<Rightarrow> field \<Rightarrow> api_error + string \<times> int" where
  "wallet_get L faddr = (if \<not> truthy faddr then Inl MissingFields else xrp_and_rlusd is_rlusd_line L (the faddr))"

definition starts_with_r :: "string \<Rightarrow> bool" where
  \<comment> \<open>\<open>address.startsWith("r")\<close>\<close>
  "starts_with_r a = (take 1 a = ''r'')"

definition wallet_balance_post :: "ledger \<Rightarrow> field \<Rightarrow> api_error + string \<times> int" where
  "wallet_balance_post L faddr =
     (if \<not> truthy faddr \<or> \<not> starts_with_r (the faddr) then Inl InvalidAddress
      else xrp_and_rlusd is_trust_line L (the faddr))"

definition get_wallet_balance :: "ledger \<Rightarrow> field \<Rightarrow> api_error + int" where
  "get_wallet_balance L fwa =
     (if \<not> truthy fwa then Inl MissingFields
      else (case get_rlusd_balance L (the fwa) of Inl e \<Rightarrow> Inl (Internal e) | Inr b \<Rightarrow> Inr b))"

subsection \<open>Scenario\<close>

text \<open>An account \<open>rM\<close> whose only line has the currency written \<open>RLUSD\<close> rather than
  in hex, and an account \<open>rC\<close> whose only line is issued by the issuer's address with its
  last letter in lower case, a different XRPL account.\<close>

definition look_alike_issuer :: string where
  "look_alike_issuer = ''rQhWct2fv4Vc4KRjRgMrxa8xPN9Zx9iLKv''"

definition lines_ledger :: ledger where
  "lines_ledger = \<lparr>account_lines = (\<lambda>a.
       if a = ''rM'' then Some [\<lparr>currency = ''RLUSD'', account = issuer_address, balance = 7, limit = 1000000\<rparr>]
       else if a = ''rC'' then Some [\<lparr>currency = rlusd_hex, account = look_alike_issuer, balance = 9, limit = 1000000\<rparr>]
       else None),
     down = (\<lambda>_. False), seed_address = (\<lambda>_. None), pay_result = (\<lambda>_ _. tes_success),
     trust_result = (\<lambda>_. tes_success), xrp_balance = (\<lambda>_. ''12'')\<rparr>"

subsection \<open>Properties\<close>

text \<open>C35: The inline lookup of the \<open>wallet\<close> route computes the service's
  \<open>getRLUSDBalance\<close>: for any address, its RLUSD part agrees with the service on the value
  and on failure.\<close>

theorem wallet_get_equiv:
  "a \<noteq> [] \<Longrightarrow> map_sum id snd (wallet_get L (Some a)) = map_sum Internal id (get_rlusd_balance L a)"
  by (simp add: wallet_get_def xrp_and_rlusd_def get_rlusd_balance_def rlusd_of_lines_def
      split: option.splits)

text \<open>The balance routes disagree: for an account whose RLUSD line names the currency
  \<open>RLUSD\<close> instead of its hex code, \<open>wallet\<close> and \<open>getRLUSDBalance\<close> report 7 while
  \<open>wallet/balance\<close> reports 0.\<close>

theorem balance_routes_disagree:
  "wallet_get lines_ledger (Some ''rM'') = Inr (''12'', 7) \<and>
   get_rlusd_balance lines_ledger ''rM'' = Inr 7 \<and>
   wallet_balance_post lines_ledger (Some ''rM'') = Inr (''12'', 0)"
  by (simp add: wallet_get_def wallet_balance_post_def xrp_and_rlusd_def get_rlusd_balance_def
      rlusd_of_lines_def lines_ledger_def is_rlusd_line_def is_trust_line_def starts_with_r_def
      rlusd_hex_def)

text \<open>The issuer comparison ignores letter case although XRPL addresses are
  case-sensitive: a line issued by an address that differs from the RLUSD issuer in the case of
  one letter is counted as RLUSD by the services and the routes.\<close>

theorem look_alike_issuer_counted:
  "look_alike_issuer \<noteq> issuer_address \<and>
   get_rlusd_balance lines_ledger ''rC'' = Inr 9 \<and>
   wallet_balance_post lines_ledger (Some ''rC'') = Inr (''12'', 9)"
  by code_simp

text \<open>\<open>wallet/balance\<close> rejects, before any request, every address that does not start
  with \<open>r\<close>, with a 400.\<close>

theorem wallet_balance_rejects:
  "\<not> starts_with_r a \<Longrightarrow> wallet_balance_post L (Some a) = Inl InvalidAddress \<and>
     http_status InvalidAddress = 400"
  by (simp add: wallet_balance_post_def)

theorem wallet_get_equiv_witness:
  "map_sum id snd (wallet_get lines_ledger (Some ''rM'')) = Inr 7"
  using wallet_get_equiv [of "''rM''" lines_ledger]
  by (simp add: get_rlusd_balance_def lines_ledger_def rlusd_of_lines_def is_rlusd_line_def)

theorem wallet_balance_rejects_witness:
  "wallet_balance_post lines_ledger (Some ''xM'') = Inl InvalidAddress"
  using wallet_balance_rejects [of "''xM''" lines_ledger] by (simp add: starts_with_r_def)

end
