(* ===== verification/PaymentClient.thy ===== *)
theory PaymentClient
  imports Ledger
begin

text \<open>
  The XRPL client of \<open>src/BCI/src/lib/xrpClient.js\<close> and the routes that call it
  (\<open>record-payment\<close>, \<open>send-rlsud\<close>, \<open>create-trustline\<close>). The module holds one
  client for the whole server process; \<open>connectXRPL\<close> connects it unless it is
  connected, and every call disconnects it in its \<open>finally\<close>. A call of
  \<open>createTrustLine\<close> or \<open>sendRLUSD\<close> is three awaited steps on that shared client:
  connect, \<open>submitAndWait\<close>, disconnect; \<open>Wallet.fromSeed\<close> runs before them, outside
  the \<open>try\<close>. Calls of concurrent requests interleave at these steps, so the model
  keeps, besides the shared client and the ledger, one program counter per call and a
  step relation that lets any unfinished call take its next step.

  Submission is decided by the ledger: a transaction whose \<open>Account\<close> is not the
  address of the signing seed gets \<open>tefBAD_AUTH\<close>; otherwise the engine result of the
  ledger applies, and a tesSUCCESS Payment or TrustSet changes the trust lines.
  \<open>submitAndWait\<close> returns the result whatever it is; it throws on a disconnected
  client, on an account that does not exist (\<open>autofill\<close>), and on a transaction the
  library cannot encode.
\<close>

record payment_tx =
  pay_account :: string
  pay_destination :: string
  pay_currency :: string
  pay_issuer :: string
  pay_value :: int

record trustset_tx =
  set_account :: string
  set_currency :: string
  set_issuer :: string
  set_limit :: string

datatype xreq = Payment payment_tx string | TrustSet trustset_tx string \<comment> \<open>the transaction and the signing secret\<close>

definition send_rlusd_tx :: "string \<Rightarrow> string \<Rightarrow> string \<Rightarrow> int \<Rightarrow> xreq" where
  \<comment> \<open>\<open>sendRLUSD(account, secret, destination, amount)\<close>\<close>
  "send_rlusd_tx acct sec dest amt =
     Payment \<lparr>pay_account = acct, pay_destination = dest, pay_currency = ''RLUSD'',
              pay_issuer = issuer_address, pay_value = amt\<rparr> sec"

definition create_trust_line_tx :: "string \<Rightarrow> string \<Rightarrow> string \<Rightarrow> xreq" where
  \<comment> \<open>\<open>createTrustLine(account, secret, limit = "1000000")\<close>\<close>
  "create_trust_line_tx acct sec lim =
     TrustSet \<lparr>set_account = acct, set_currency = ''RLUSD'', set_issuer = issuer_address, set_limit = lim\<rparr> sec"

fun req_account :: "xreq \<Rightarrow> string" where
  "req_account (Payment tx s) = pay_account tx"
| "req_account (TrustSet tx s) = set_account tx"

fun req_secret :: "xreq \<Rightarrow> string" where
  "req_secret (Payment tx s) = s"
| "req_secret (TrustSet tx s) = s"

text \<open>What the XRPL library accepts: \<open>ripple-binary-codec\<close> encodes a currency code of three
  characters other than XRP, or of forty upper-case hexadecimal digits, and throws on any
  other; an amount's value must read as a number.\<close>

definition valid_currency :: "string \<Rightarrow> bool" where
  "valid_currency c = ((length c = 3 \<and> c \<noteq> ''XRP'') \<or> is_hex40 c)"

fun valid_tx :: "xreq \<Rightarrow> bool" where
  "valid_tx (Payment tx s) = valid_currency (pay_currency tx)"
| "valid_tx (TrustSet tx s) = (valid_currency (set_currency tx) \<and> js_parse_int (set_limit tx) \<noteq> None)"

text \<open>A validated TrustSet sets the limit of the line of that currency and issuer, and opens
  the line when the account has none.\<close>

definition trust_set :: "string \<Rightarrow> trustset_tx \<Rightarrow> ledger \<Rightarrow> ledger" where
  "trust_set a tx L =
     (let same = (\<lambda>l. currency l = set_currency tx \<and> account l = set_issuer tx);
          v = the (js_parse_int (set_limit tx)) in
      L\<lparr>account_lines := (account_lines L)(a := map_option
         (\<lambda>ls. if list_ex same ls then map (\<lambda>l. if same l then l\<lparr>limit := v\<rparr> else l) ls
               else ls @ [\<lparr>currency = set_currency tx, account = set_issuer tx, balance = 0, limit = v\<rparr>])
         (account_lines L a))\<rparr>)"

fun engine :: "ledger \<Rightarrow> xreq \<Rightarrow> string \<times> ledger" where
  "engine L r =
     (if seed_address L (req_secret r) \<noteq> Some (req_account r) then (''tefBAD_AUTH'', L)
      else (case r of
        Payment tx s \<Rightarrow>
          let code = pay_result L (pay_account tx) (pay_destination tx) in
          (code, if code = tes_success
                 then apply_payment L (pay_account tx) (pay_destination tx) (pay_value tx) else L)
      | TrustSet tx s \<Rightarrow>
          let code = trust_result L (set_account tx) in
          (code, if code = tes_success then trust_set (set_account tx) tx L else L)))"

record xstate =
  connected :: bool
  xledger :: ledger

record xcall =
  xpc :: nat                       \<comment> \<open>0 start, 1 connected, 2 submitted, 3 finished\<close>
  xreq :: xreq
  xres :: "(exc + string) option"  \<comment> \<open>the engine result returned, or the exception thrown\<close>

definition call_step :: "xstate \<Rightarrow> xcall \<Rightarrow> xstate \<times> xcall" where
  "call_step s c =
     (if xpc c = 0 then
        (if seed_address (xledger s) (req_secret (xreq c)) = None
         then (s, c\<lparr>xpc := 3, xres := Some (Inl InvalidSeed)\<rparr>)
         else (s\<lparr>connected := True\<rparr>, c\<lparr>xpc := 1\<rparr>))
      else if xpc c = 1 then
        (if \<not> connected s then (s, c\<lparr>xpc := 2, xres := Some (Inl NetworkError)\<rparr>)
         else if account_lines (xledger s) (req_account (xreq c)) = None
         then (s, c\<lparr>xpc := 2, xres := Some (Inl AccountNotFound)\<rparr>)
         else if \<not> valid_tx (xreq c) then (s, c\<lparr>xpc := 2, xres := Some (Inl InvalidTx)\<rparr>)
         else (s\<lparr>xledger := snd (engine (xledger s) (xreq c))\<rparr>,
               c\<lparr>xpc := 2, xres := Some (Inr (fst (engine (xledger s) (xreq c))))\<rparr>))
      else if xpc c = 2 then (s\<lparr>connected := False\<rparr>, c\<lparr>xpc := 3\<rparr>)
      else (s, c))"

definition fresh_call :: "xreq \<Rightarrow> xcall" where
  "fresh_call r = \<lparr>xpc = 0, xreq = r, xres = None\<rparr>"

text \<open>One request alone: the steps of one call run to its end.\<close>

fun run_call :: "nat \<Rightarrow> xstate \<Rightarrow> xcall \<Rightarrow> xstate \<times> xcall" where
  "run_call 0 s c = (s, c)"
| "run_call (Suc n) s c = (if xpc c < 3 then (case call_step s c of (s', c') \<Rightarrow> run_call n s' c') else (s, c))"

text \<open>Concurrent requests: any unfinished call takes its next step.\<close>

inductive xstep :: "xstate \<times> xcall list \<Rightarrow> xstate \<times> xcall list \<Rightarrow> bool" where
  step: "i < length cs \<Longrightarrow> xpc (cs ! i) < 3 \<Longrightarrow> call_step s (cs ! i) = (s', c') \<Longrightarrow>
         xstep (s, cs) (s', cs[i := c'])"

inductive_cases xstepE: "xstep (s, cs) (s', cs')"

subsection \<open>The routes\<close>

definition call_result :: "xstate \<Rightarrow> xreq \<Rightarrow> (api_error + string) \<times> xstate" where
  "call_result s r =
     (case run_call 3 s (fresh_call r) of
       (s', c') \<Rightarrow> (case xres c' of Some (Inr code) \<Rightarrow> Inr code | Some (Inl e) \<Rightarrow> Inl (Internal e)
                   | None \<Rightarrow> Inl (Internal NetworkError), s'))"

definition send_rlsud_route ::
  "xstate \<Rightarrow> string \<Rightarrow> string \<Rightarrow> string \<Rightarrow> string \<Rightarrow> int \<Rightarrow> string \<Rightarrow> (api_error + string) \<times> xstate" where
  \<comment> \<open>\<open>sendRLUSD(account, secret, destination, amount, issuer)\<close>: the issuer is a fifth argument the function does not take\<close>
  "send_rlsud_route s method acct sec dest amt iss =
     (if method \<noteq> ''POST'' then (Inl MethodNotAllowed, s) else call_result s (send_rlusd_tx acct sec dest amt))"

definition record_payment_route ::
  "xstate \<Rightarrow> string \<Rightarrow> string \<Rightarrow> string \<Rightarrow> string \<Rightarrow> int \<Rightarrow> string \<Rightarrow> (api_error + string) \<times> xstate" where
  \<comment> \<open>\<open>sendRLUSD(payer, secret, tontineMaster, amount, issuer)\<close>\<close>
  "record_payment_route s method payer sec master amt iss =
     (if method \<noteq> ''POST'' then (Inl MethodNotAllowed, s) else call_result s (send_rlusd_tx payer sec master amt))"

definition create_trustline_route ::
  "xstate \<Rightarrow> string \<Rightarrow> string \<Rightarrow> string \<Rightarrow> string \<Rightarrow> string \<Rightarrow> (api_error + string) \<times> xstate" where
  \<comment> \<open>\<open>createTrustLine(account, secret, issuer, currency, limit)\<close> binds \<open>issuer\<close> to the \<open>limit\<close> parameter\<close>
  "create_trustline_route s acct sec iss cur lim = call_result s (create_trust_line_tx acct sec iss)"

subsection \<open>Connections in use\<close>

text \<open>Some call has connected and not yet run its \<open>finally\<close>.\<close>

definition busy :: "xcall list \<Rightarrow> bool" where
  "busy cs = list_ex (\<lambda>c. xpc c = 1 \<or> xpc c = 2) cs"

subsection \<open>A scenario\<close>

text \<open>Two funded accounts with their seeds; every Payment between them succeeds.\<close>

definition pay_ledger :: ledger where
  "pay_ledger =
     \<lparr>account_lines = (\<lambda>a. if a = ''rA'' \<or> a = ''rB'' then Some [] else None),
      down = (\<lambda>a. False),
      seed_address = (\<lambda>k. if k = ''sA'' then Some ''rA'' else if k = ''sB'' then Some ''rB'' else None),
      pay_result = (\<lambda>a b. tes_success), trust_result = (\<lambda>a. tes_success), xrp_balance = (\<lambda>a. ''100'')\<rparr>"

definition pay_state :: xstate where
  "pay_state = \<lparr>connected = False, xledger = pay_ledger\<rparr>"

subsection \<open>Steps of a call\<close>

lemma call_step_start:
  "xpc c = 0 \<Longrightarrow> seed_address (xledger s) (req_secret (xreq c)) \<noteq> None \<Longrightarrow>
   call_step s c = (s\<lparr>connected := True\<rparr>, c\<lparr>xpc := 1\<rparr>)"
  by (auto simp: call_step_def)

lemma call_step_submit:
  "xpc c = 1 \<Longrightarrow> \<exists>L' res. call_step s c = (s\<lparr>xledger := L'\<rparr>, c\<lparr>xpc := 2, xres := Some res\<rparr>)"
  by (auto simp: call_step_def) (rule exI [of _ "xledger s"], simp)+

lemma call_step_offline:
  "xpc c = 1 \<Longrightarrow> \<not> connected s \<Longrightarrow> call_step s c = (s, c\<lparr>xpc := 2, xres := Some (Inl NetworkError)\<rparr>)"
  by (simp add: call_step_def)

lemma call_step_finally:
  "xpc c = 2 \<Longrightarrow> call_step s c = (s\<lparr>connected := False\<rparr>, c\<lparr>xpc := 3\<rparr>)"
  by (simp add: call_step_def)

lemma xstep_then:
  "xstep\<^sup>*\<^sup>* x (s, cs) \<Longrightarrow> i < length cs \<Longrightarrow> xpc (cs ! i) < 3 \<Longrightarrow> call_step s (cs ! i) = (s', c') \<Longrightarrow>
   xstep\<^sup>*\<^sup>* x (s', cs[i := c'])"
  by (rule rtranclp.rtrancl_into_rtrancl) (auto intro: xstep.step)

text \<open>A request alone: an invalid seed throws before the client is touched; otherwise the
  client is connected and disconnected again, and the call answers AccountNotFound for an
  unknown account, InvalidTx for a transaction the library cannot encode, and else the
  engine's result, whatever it is, with the engine's effect on the ledger.\<close>

lemma call_result_eq:
  "call_result s r =
     (if seed_address (xledger s) (req_secret r) = None then (Inl (Internal InvalidSeed), s)
      else if account_lines (xledger s) (req_account r) = None
      then (Inl (Internal AccountNotFound), s\<lparr>connected := False\<rparr>)
      else if \<not> valid_tx r then (Inl (Internal InvalidTx), s\<lparr>connected := False\<rparr>)
      else (Inr (fst (engine (xledger s) r)), s\<lparr>connected := False, xledger := snd (engine (xledger s) r)\<rparr>))"
  by (simp add: call_result_def call_step_def fresh_call_def numeral_eq_Suc)

lemma valid_currency_rlusd: "\<not> valid_currency ''RLUSD''"
  by (simp add: valid_currency_def is_hex40_def)

subsection \<open>The routes never reach the ledger\<close>

text \<open>C34: \<open>sendRLUSD\<close> and \<open>createTrustLine\<close> name the currency \<open>RLUSD\<close>, which the XRPL
  library cannot encode (it takes three-character or forty-digit hexadecimal codes), so
  the \<open>send-rlsud\<close>, \<open>record-payment\<close> and \<open>create-trustline\<close> routes answer an error
  for every request and never change the ledger.\<close>

theorem rlusd_routes_never_submit:
  "fst (send_rlsud_route s m a sec d amt iss) \<noteq> Inr code \<and> xledger (snd (send_rlsud_route s m a sec d amt iss)) = xledger s \<and>
   fst (record_payment_route s m a sec d amt iss) \<noteq> Inr code \<and> xledger (snd (record_payment_route s m a sec d amt iss)) = xledger s \<and>
   fst (create_trustline_route s a sec iss cur lim) \<noteq> Inr code \<and> xledger (snd (create_trustline_route s a sec iss cur lim)) = xledger s"
  by (simp add: send_rlsud_route_def record_payment_route_def create_trustline_route_def call_result_eq
       send_rlusd_tx_def create_trust_line_tx_def valid_currency_rlusd)


lemma busy_update_other: "busy cs \<Longrightarrow> xpc (cs ! i) \<noteq> 1 \<Longrightarrow> xpc (cs ! i) \<noteq> 2 \<Longrightarrow> busy (cs[i := c'])"
  by (auto simp: busy_def list_ex_length) (metis length_list_update nth_list_update_neq)+

lemma busy_update_here: "i < length cs \<Longrightarrow> xpc c' = 1 \<or> xpc c' = 2 \<Longrightarrow> busy (cs[i := c'])"
  by (auto simp: busy_def list_ex_length intro!: exI [of _ i])

lemma xstep_conn_inv:
  assumes "xstep x y" "connected (fst x) \<longrightarrow> busy (snd x)"
  shows "connected (fst y) \<longrightarrow> busy (snd y)"
  using assms(1)
proof cases
  case (step i cs s c' s')
  then show ?thesis
    using assms(2) by (auto simp: call_step_def busy_update_other busy_update_here split: if_splits)
qed

lemma xstep_star_conn_inv:
  "xstep\<^sup>*\<^sup>* x y \<Longrightarrow> connected (fst x) \<longrightarrow> busy (snd x) \<Longrightarrow> connected (fst y) \<longrightarrow> busy (snd y)"
  by (induction rule: rtranclp_induct) (auto dest: xstep_conn_inv)

subsection \<open>The shared client under concurrent requests\<close>

text \<open>C33: however the calls of concurrent requests interleave, once every call has finished
  the shared client is disconnected: each connect is followed by the \<open>finally\<close> of the call
  that made it.\<close>

theorem client_connection_released:
  assumes "xstep\<^sup>*\<^sup>* (s0, cs0) (s, cs)" "\<not> connected s0" "list_all (\<lambda>c. xpc c = 3) cs"
  shows "\<not> connected s"
  using xstep_star_conn_inv [OF assms(1)] assms(2,3) by (auto simp: busy_def list_ex_iff list_all_iff)

text \<open>C32: the client is shared, so two requests with valid seeds can interleave so that the
  first call's \<open>finally\<close> disconnects the client under the second, whose submission then
  fails with a network error, although each request alone would reach the ledger.\<close>

theorem concurrent_calls_disconnect:
  assumes "seed_address (xledger s) (req_secret r1) \<noteq> None" "seed_address (xledger s) (req_secret r2) \<noteq> None"
  shows "\<exists>s' cs'. xstep\<^sup>*\<^sup>* (s, [fresh_call r1, fresh_call r2]) (s', cs') \<and> xres (cs' ! 1) = Some (Inl NetworkError)"
proof -
  let ?c1 = "fresh_call r1" and ?c2 = "fresh_call r2"
  let ?s1 = "s\<lparr>connected := True\<rparr>"
  have a: "xstep\<^sup>*\<^sup>* (s, [?c1, ?c2]) (?s1, [?c1\<lparr>xpc := 1\<rparr>, ?c2])"
    using xstep_then [OF rtranclp.rtrancl_refl, of 0 "[?c1, ?c2]" s] call_step_start assms(1)
    by (simp add: fresh_call_def)
  have b: "xstep\<^sup>*\<^sup>* (s, [?c1, ?c2]) (?s1, [?c1\<lparr>xpc := 1\<rparr>, ?c2\<lparr>xpc := 1\<rparr>])"
    using xstep_then [OF a, of 1] call_step_start assms(2)
    by (simp add: fresh_call_def)
  obtain L' res where sub: "call_step ?s1 (?c1\<lparr>xpc := 1\<rparr>) = (?s1\<lparr>xledger := L'\<rparr>, ?c1\<lparr>xpc := 2, xres := Some res\<rparr>)"
    using call_step_submit [of "?c1\<lparr>xpc := 1\<rparr>" ?s1] by auto
  have c: "xstep\<^sup>*\<^sup>* (s, [?c1, ?c2]) (?s1\<lparr>xledger := L'\<rparr>, [?c1\<lparr>xpc := 2, xres := Some res\<rparr>, ?c2\<lparr>xpc := 1\<rparr>])"
    using xstep_then [OF b, of 0] sub by (simp add: fresh_call_def)
  let ?s4 = "?s1\<lparr>xledger := L', connected := False\<rparr>"
  have d: "xstep\<^sup>*\<^sup>* (s, [?c1, ?c2]) (?s4, [?c1\<lparr>xpc := 3, xres := Some res\<rparr>, ?c2\<lparr>xpc := 1\<rparr>])"
    using xstep_then [OF c, of 0] call_step_finally by (simp add: fresh_call_def)
  have e: "xstep\<^sup>*\<^sup>* (s, [?c1, ?c2]) (?s4, [?c1\<lparr>xpc := 3, xres := Some res\<rparr>, ?c2\<lparr>xpc := 2, xres := Some (Inl NetworkError)\<rparr>])"
    using xstep_then [OF d, of 1] call_step_offline by (simp add: fresh_call_def)
  then show ?thesis by fastforce
qed


theorem client_connection_released_witness:
  "xstep\<^sup>*\<^sup>* (pay_state, [fresh_call (send_rlusd_tx ''rA'' ''sA'' ''rB'' 5)])
          (pay_state, [\<lparr>xpc = 3, xreq = send_rlusd_tx ''rA'' ''sA'' ''rB'' 5, xres = Some (Inl InvalidTx)\<rparr>]) \<and>
   \<not> connected pay_state \<and> list_all (\<lambda>c. xpc c = 3) [\<lparr>xpc = 3, xreq = send_rlusd_tx ''rA'' ''sA'' ''rB'' 5, xres = Some (Inl InvalidTx)\<rparr>] \<and>
   \<not> connected pay_state"
proof -
  let ?r = "send_rlusd_tx ''rA'' ''sA'' ''rB'' 5"
  have a: "xstep\<^sup>*\<^sup>* (pay_state, [fresh_call ?r]) (pay_state\<lparr>connected := True\<rparr>, [fresh_call ?r\<lparr>xpc := 1\<rparr>])"
    using xstep_then [OF rtranclp.rtrancl_refl, of 0 "[fresh_call ?r]" pay_state]
    by (simp add: call_step_def fresh_call_def pay_state_def pay_ledger_def send_rlusd_tx_def)
  have b: "xstep\<^sup>*\<^sup>* (pay_state, [fresh_call ?r])
             (pay_state\<lparr>connected := True\<rparr>, [fresh_call ?r\<lparr>xpc := 2, xres := Some (Inl InvalidTx)\<rparr>])"
    using xstep_then [OF a, of 0]
    by (simp add: call_step_def fresh_call_def pay_state_def pay_ledger_def send_rlusd_tx_def valid_currency_rlusd)
  have c: "xstep\<^sup>*\<^sup>* (pay_state, [fresh_call ?r])
             (pay_state, [\<lparr>xpc = 3, xreq = ?r, xres = Some (Inl InvalidTx)\<rparr>])"
    using xstep_then [OF b, of 0] by (simp add: call_step_def fresh_call_def pay_state_def)
  then show ?thesis
    using client_connection_released [OF c] by (simp add: pay_state_def)
qed

theorem concurrent_calls_disconnect_witness:
  "\<exists>s' cs'. xstep\<^sup>*\<^sup>* (pay_state, [fresh_call (send_rlusd_tx ''rA'' ''sA'' ''rB'' 5), fresh_call (send_rlusd_tx ''rB'' ''sB'' ''rA'' 3)]) (s', cs')
     \<and> xres (cs' ! 1) = Some (Inl NetworkError)"
  using concurrent_calls_disconnect [of pay_state "send_rlusd_tx ''rA'' ''sA'' ''rB'' 5" "send_rlusd_tx ''rB'' ''sB'' ''rA'' 3"]
  by (simp add: pay_state_def pay_ledger_def send_rlusd_tx_def)

end
