(* ===== verification/Cycles.thy ===== *)
theory Cycles
  imports Store "HOL-Library.AList"
begin

text \<open>
  The in-memory contribution-cycle classes: \<open>Tontine\<close> (\<open>src/src/lib/tontine.js\<close>), a
  member table with payment marks and a cycle counter; \<open>TontineMaster\<close>
  (\<open>src/BCI/src/lib/tontineMaster.js\<close>), a table of tontines keyed by
  \<open>"tontine_" + Date.now()\<close>; \<open>TontineUser\<close> (\<open>src/src/lib/tontineUser.js\<close>), the list
  of tontine ids a user belongs to; and the \<open>add-member\<close> route
  (\<open>src/BCI/src/app/api/add-member/route.js\<close>), which adds a member to a new, empty
  \<open>Tontine\<close>. The JavaScript objects used as tables (\<open>this.members = {}\<close>,
  \<open>this.tontines = {}\<close>) are association lists in insertion order, as
  \<open>obj[k] = v\<close> keeps the place of an existing key; a key is the string the
  property access converts the value to. A lookup \<open>obj[k]\<close> on such an object also
  finds the properties every object inherits from \<open>Object.prototype\<close>: those names
  read as present although the table does not hold them.
\<close>

definition proto_keys :: "string list" where
  \<comment> \<open>the properties of \<open>Object.prototype\<close>, truthy on every plain object\<close>
  "proto_keys = [''constructor'', ''hasOwnProperty'', ''isPrototypeOf'', ''propertyIsEnumerable'',
     ''toLocaleString'', ''toString'', ''valueOf'', ''__proto__'', ''__defineGetter__'',
     ''__defineSetter__'', ''__lookupGetter__'', ''__lookupSetter__'']"

definition js_has :: "(string \<times> 'v) list \<Rightarrow> string \<Rightarrow> bool" where
  \<comment> \<open>\<open>if (obj[k])\<close> where every stored value is an object\<close>
  "js_has al k = (map_of al k \<noteq> None \<or> k \<in> set proto_keys)"

definition js_key :: "field \<Rightarrow> string" where
  \<comment> \<open>the property key of a request field: \<open>undefined\<close> becomes \<open>"undefined"\<close>\<close>
  "js_key v = (case v of None \<Rightarrow> ''undefined'' | Some s \<Rightarrow> s)"

datatype cycle_error = NotMember | AlreadyMember | TontineMissing | NotAFunction

subsection \<open>Tontine\<close>

record member =
  amount :: field
  hasPaid :: bool

record tontine_obj =
  o_id :: field
  o_name :: field
  masterId :: field
  o_members :: "(string \<times> member) list"
  cycleState :: tstatus
  atmCycle :: nat

definition new_tontine_obj :: "field \<Rightarrow> field \<Rightarrow> field \<Rightarrow> tontine_obj" where
  "new_tontine_obj i n m = \<lparr>o_id = i, o_name = n, masterId = m, o_members = [], cycleState = Active, atmCycle = 0\<rparr>"

definition addMember :: "tontine_obj \<Rightarrow> string \<Rightarrow> field \<Rightarrow> cycle_error + tontine_obj" where
  "addMember t u a =
     (if js_has (o_members t) u then Inl AlreadyMember
      else Inr (t\<lparr>o_members := AList.update u \<lparr>amount = a, hasPaid = False\<rparr> (o_members t)\<rparr>))"

definition removeMember :: "tontine_obj \<Rightarrow> string \<Rightarrow> cycle_error + tontine_obj" where
  \<comment> \<open>\<open>delete\<close> of an inherited name removes nothing\<close>
  "removeMember t u =
     (if \<not> js_has (o_members t) u then Inl NotMember
      else Inr (t\<lparr>o_members := AList.delete u (o_members t)\<rparr>))"

definition markPayment :: "tontine_obj \<Rightarrow> string \<Rightarrow> cycle_error + tontine_obj" where
  \<comment> \<open>on an inherited name the mark lands on the prototype's property, not in the table\<close>
  "markPayment t u =
     (if \<not> js_has (o_members t) u then Inl NotMember
      else Inr (t\<lparr>o_members := AList.map_entry u (\<lambda>m. m\<lparr>hasPaid := True\<rparr>) (o_members t)\<rparr>))"

definition checkAllPaid :: "tontine_obj \<Rightarrow> bool" where
  \<comment> \<open>\<open>Object.values(this.members).every(m => m.hasPaid)\<close>: own properties only\<close>
  "checkAllPaid t = list_all (\<lambda>(k, m). hasPaid m) (o_members t)"

definition resetCycle :: "tontine_obj \<Rightarrow> tontine_obj" where
  "resetCycle t = t\<lparr>atmCycle := atmCycle t + 1,
                    o_members := map (\<lambda>(k, m). (k, m\<lparr>hasPaid := False\<rparr>)) (o_members t)\<rparr>"

text \<open>The methods of a \<open>Tontine\<close> as operations on it, and a sequence of calls.\<close>

datatype tontine_op = OpAdd string field | OpRemove string | OpMark string | OpReset

fun tontine_call :: "tontine_obj \<Rightarrow> tontine_op \<Rightarrow> cycle_error + tontine_obj" where
  "tontine_call t (OpAdd u a) = addMember t u a"
| "tontine_call t (OpRemove u) = removeMember t u"
| "tontine_call t (OpMark u) = markPayment t u"
| "tontine_call t OpReset = Inr (resetCycle t)"

fun tontine_calls :: "tontine_obj \<Rightarrow> tontine_op list \<Rightarrow> cycle_error + tontine_obj" where
  "tontine_calls t [] = Inr t"
| "tontine_calls t (op # ops) = (case tontine_call t op of Inl e \<Rightarrow> Inl e | Inr t' \<Rightarrow> tontine_calls t' ops)"

definition keys_distinct :: "tontine_obj \<Rightarrow> bool" where
  "keys_distinct t = distinct (map fst (o_members t))"

subsection \<open>TontineMaster\<close>

record master =
  m_masterId :: field
  m_tontines :: "(string \<times> tontine_obj) list"

datatype validation = CycleDone | NotAllPaid

definition createTontine :: "master \<Rightarrow> time \<Rightarrow> field \<Rightarrow> tontine_obj \<times> master" where
  "createTontine mst now n =
     (let i = ''tontine_'' @ int_str now; t = new_tontine_obj (Some i) n (m_masterId mst) in
      (t, mst\<lparr>m_tontines := AList.update i t (m_tontines mst)\<rparr>))"

text \<open>\<open>this.tontines[tontineId]\<close>: absent, an inherited property (whose methods are not
  those of a \<open>Tontine\<close>, so calling one throws a TypeError), or a stored tontine.\<close>

definition with_tontine ::
  "master \<Rightarrow> string \<Rightarrow> (tontine_obj \<Rightarrow> cycle_error + tontine_obj) \<Rightarrow> cycle_error + master" where
  "with_tontine mst i f =
     (case map_of (m_tontines mst) i of
       None \<Rightarrow> if i \<in> set proto_keys then Inl NotAFunction else Inl TontineMissing
     | Some t \<Rightarrow> (case f t of
         Inl e \<Rightarrow> Inl e
       | Inr t' \<Rightarrow> Inr (mst\<lparr>m_tontines := AList.update i t' (m_tontines mst)\<rparr>)))"

definition addUserToTontine :: "master \<Rightarrow> string \<Rightarrow> string \<Rightarrow> field \<Rightarrow> cycle_error + master" where
  "addUserToTontine mst i u a = with_tontine mst i (\<lambda>t. addMember t u a)"

definition removeUserFromTontine :: "master \<Rightarrow> string \<Rightarrow> string \<Rightarrow> cycle_error + master" where
  "removeUserFromTontine mst i u = with_tontine mst i (\<lambda>t. removeMember t u)"

definition validatePayments :: "master \<Rightarrow> string \<Rightarrow> (cycle_error + validation) \<times> master" where
  "validatePayments mst i =
     (case map_of (m_tontines mst) i of
       None \<Rightarrow> (if i \<in> set proto_keys then Inl NotAFunction else Inl TontineMissing, mst)
     | Some t \<Rightarrow>
         if checkAllPaid t
         then (Inr CycleDone, mst\<lparr>m_tontines := AList.update i (resetCycle t) (m_tontines mst)\<rparr>)
         else (Inr NotAllPaid, mst))"

subsection \<open>TontineUser\<close>

record tontine_user =
  u_userId :: field
  u_name :: field
  u_email :: field
  u_walletAddress :: field
  u_tontines :: "string list"

definition joinTontine :: "tontine_user \<Rightarrow> string \<Rightarrow> cycle_error + tontine_user" where
  "joinTontine usr i =
     (if i \<in> set (u_tontines usr) then Inl AlreadyMember else Inr (usr\<lparr>u_tontines := u_tontines usr @ [i]\<rparr>))"

definition leaveTontine :: "tontine_user \<Rightarrow> string \<Rightarrow> tontine_user" where
  "leaveTontine usr i = usr\<lparr>u_tontines := filter (\<lambda>j. j \<noteq> i) (u_tontines usr)\<rparr>"

subsection \<open>The add-member route\<close>

text \<open>\<open>new Tontine()\<close> with every argument undefined, then \<open>addMember(userId, amount)\<close>;
  the tontine is answered and dropped.\<close>

definition add_member_route :: "field \<Rightarrow> field \<Rightarrow> field \<Rightarrow> cycle_error + tontine_obj" where
  \<comment> \<open>a thrown error is answered 500 with its message\<close>
  "add_member_route ftid fuser famount = addMember (new_tontine_obj None None None) (js_key fuser) famount"

subsection \<open>Helper lemmas\<close>

lemma length_update_present: "k \<in> fst ` set al \<Longrightarrow> length (AList.update k v al) = length al"
  by (induction al) auto

lemma keys_map_entry [simp]: "map fst (AList.map_entry k f al) = map fst al"
  by (induction al) auto

lemma keys_reset [simp]: "map fst (map (\<lambda>(k, m). (k, m\<lparr>hasPaid := False\<rparr>)) al) = map fst al"
  by (induction al) auto

lemma tontine_call_distinct: "keys_distinct t \<Longrightarrow> tontine_call t op = Inr t' \<Longrightarrow> keys_distinct t'"
  by (cases op)
     (auto simp: keys_distinct_def addMember_def removeMember_def markPayment_def resetCycle_def
        distinct_update distinct_delete comp_def case_prod_beta split: if_splits)

subsection \<open>Properties\<close>

text \<open>A member table keeps distinct keys under any sequence of calls of the Tontine methods.\<close>

theorem tontine_calls_distinct:
  "keys_distinct t \<Longrightarrow> tontine_calls t ops = Inr t' \<Longrightarrow> keys_distinct t'"
proof (induction ops arbitrary: t)
  case Nil
  then show ?case by simp
next
  case (Cons op ops)
  then show ?case by (auto split: sum.splits dest: tontine_call_distinct)
qed

text \<open>Adding a member and then removing it gives back the tontine as it was.\<close>

theorem add_remove_roundtrip:
  "addMember t u a = Inr t' \<Longrightarrow> removeMember t' u = Inr t"
  by (auto simp: addMember_def removeMember_def js_has_def update_conv' delete_update_same
      map_of_eq_None_iff dom_update split: if_splits)

text \<open>validatePayments starts a new cycle exactly when every member of the tontine has
  paid: the cycle count goes up by one and every payment mark is cleared; otherwise
  nothing changes.\<close>

theorem validatePayments_cycle:
  assumes "map_of (m_tontines mst) i = Some t"
  shows "(checkAllPaid t \<longrightarrow> (\<exists>mst' t'. validatePayments mst i = (Inr CycleDone, mst') \<and>
            map_of (m_tontines mst') i = Some t' \<and> atmCycle t' = Suc (atmCycle t) \<and>
            map fst (o_members t') = map fst (o_members t) \<and> list_all (\<lambda>(k, m). \<not> hasPaid m) (o_members t'))) \<and>
         (\<not> checkAllPaid t \<longrightarrow> validatePayments mst i = (Inr NotAllPaid, mst))"
  using assms by (auto simp: validatePayments_def resetCycle_def update_conv' list_all_iff)

text \<open>Every member of an empty tontine has paid: validatePayments on a new tontine starts
  a new cycle at each call although nobody contributed.\<close>

theorem empty_tontine_cycles:
  "createTontine mst now n = (t, mst1) \<Longrightarrow> validatePayments mst1 (the (o_id t)) = (Inr CycleDone, mst2) \<Longrightarrow>
   validatePayments mst2 (the (o_id t)) = (Inr CycleDone, mst3) \<Longrightarrow>
   map_option atmCycle (map_of (m_tontines mst3) (the (o_id t))) = Some 2"
  by (auto simp: createTontine_def validatePayments_def new_tontine_obj_def update_conv' checkAllPaid_def
      resetCycle_def Let_def)

text \<open>Tontine ids are timestamps: a second createTontine in the same millisecond replaces
  the first tontine, whose members are lost, and the table does not grow.\<close>

theorem createTontine_same_ms_overwrites:
  assumes "createTontine mst now n1 = (t1, mst1)" "createTontine mst1 now n2 = (t2, mst2)"
  shows "length (m_tontines mst2) = length (m_tontines mst1) \<and> o_id t2 = o_id t1 \<and>
         map_of (m_tontines mst2) (the (o_id t1)) = Some t2 \<and> o_members t2 = []"
proof -
  define i where "i = ''tontine_'' @ int_str now"
  have t1: "o_id t1 = Some i" "mst1 = mst\<lparr>m_tontines := AList.update i t1 (m_tontines mst)\<rparr>"
    using assms(1) by (auto simp: createTontine_def Let_def new_tontine_obj_def i_def)
  have t2: "o_id t2 = Some i" "o_members t2 = []" "mst2 = mst1\<lparr>m_tontines := AList.update i t2 (m_tontines mst1)\<rparr>"
    using assms(2) by (auto simp: createTontine_def Let_def new_tontine_obj_def i_def)
  have "i \<in> fst ` set (m_tontines mst1)" using t1(2) by (simp add: dom_update)
  then have "length (m_tontines mst2) = length (m_tontines mst1)"
    unfolding t2(3) using length_update_present by (metis master.select_convs(2) master.surjective master.update_convs(2))
  then show ?thesis using t1(1) t2 by (simp add: update_conv')
qed

text \<open>A user id that names a property of Object.prototype reads as a member of every
  tontine: addMember rejects it as already a member, also on the empty tontine of the
  add-member route.\<close>

theorem addMember_proto_rejected:
  "u \<in> set proto_keys \<Longrightarrow> addMember t u a = Inl AlreadyMember \<and> add_member_route ft (Some u) a = Inl AlreadyMember"
  by (simp add: addMember_def add_member_route_def js_has_def js_key_def)

text \<open>A user who joins a tontine and leaves it again has the list of tontines it had.\<close>

theorem join_leave_roundtrip:
  "joinTontine usr i = Inr usr' \<Longrightarrow> leaveTontine usr' i = usr"
proof -
  assume "joinTontine usr i = Inr usr'"
  then have "i \<notin> set (u_tontines usr)" "usr' = usr\<lparr>u_tontines := u_tontines usr @ [i]\<rparr>"
    by (auto simp: joinTontine_def split: if_splits)
  moreover from this(1) have "filter (\<lambda>j. j \<noteq> i) (u_tontines usr) = u_tontines usr"
    by (auto simp: filter_id_conv)
  ultimately show ?thesis by (simp add: leaveTontine_def)
qed


theorem tontine_calls_distinct_witness:
  "keys_distinct (new_tontine_obj None None None) \<and>
   tontine_calls (new_tontine_obj None None None) [OpAdd ''u1'' None, OpAdd ''u2'' None, OpMark ''u1'', OpReset, OpRemove ''u2'']
     = Inr \<lparr>o_id = None, o_name = None, masterId = None, o_members = [(''u1'', \<lparr>amount = None, hasPaid = False\<rparr>)],
            cycleState = Active, atmCycle = 1\<rparr> \<and>
   keys_distinct \<lparr>o_id = None, o_name = None, masterId = None, o_members = [(''u1'', \<lparr>amount = None, hasPaid = False\<rparr>)],
            cycleState = Active, atmCycle = 1\<rparr>"
proof -
  have d: "keys_distinct (new_tontine_obj None None None)" by (simp add: keys_distinct_def new_tontine_obj_def)
  have e: "tontine_calls (new_tontine_obj None None None) [OpAdd ''u1'' None, OpAdd ''u2'' None, OpMark ''u1'', OpReset, OpRemove ''u2'']
     = Inr \<lparr>o_id = None, o_name = None, masterId = None, o_members = [(''u1'', \<lparr>amount = None, hasPaid = False\<rparr>)],
            cycleState = Active, atmCycle = 1\<rparr>"
    by (simp add: new_tontine_obj_def addMember_def removeMember_def markPayment_def resetCycle_def js_has_def proto_keys_def)
  show ?thesis using d e tontine_calls_distinct [OF d e] by simp
qed

theorem add_remove_roundtrip_witness:
  "addMember (new_tontine_obj None None None) ''u1'' (Some ''10'') =
     Inr ((new_tontine_obj None None None)\<lparr>o_members := [(''u1'', \<lparr>amount = Some ''10'', hasPaid = False\<rparr>)]\<rparr>) \<and>
   removeMember ((new_tontine_obj None None None)\<lparr>o_members := [(''u1'', \<lparr>amount = Some ''10'', hasPaid = False\<rparr>)]\<rparr>) ''u1'' =
     Inr (new_tontine_obj None None None)"
proof -
  have a: "addMember (new_tontine_obj None None None) ''u1'' (Some ''10'') =
     Inr ((new_tontine_obj None None None)\<lparr>o_members := [(''u1'', \<lparr>amount = Some ''10'', hasPaid = False\<rparr>)]\<rparr>)"
    by (simp add: addMember_def new_tontine_obj_def js_has_def proto_keys_def)
  show ?thesis using a add_remove_roundtrip [OF a] by simp
qed

theorem validatePayments_cycle_witness:
  "map_of (m_tontines \<lparr>m_masterId = None, m_tontines = [(''k'', (new_tontine_obj None None None)\<lparr>o_members := [(''u1'', \<lparr>amount = None, hasPaid = True\<rparr>)]\<rparr>)]\<rparr>) ''k''
     = Some ((new_tontine_obj None None None)\<lparr>o_members := [(''u1'', \<lparr>amount = None, hasPaid = True\<rparr>)]\<rparr>) \<and>
   fst (validatePayments \<lparr>m_masterId = None, m_tontines = [(''k'', (new_tontine_obj None None None)\<lparr>o_members := [(''u1'', \<lparr>amount = None, hasPaid = True\<rparr>)]\<rparr>)]\<rparr> ''k'') = Inr CycleDone"
proof -
  let ?t = "(new_tontine_obj None None None)\<lparr>o_members := [(''u1'', \<lparr>amount = None, hasPaid = True\<rparr>)]\<rparr>"
  let ?m = "\<lparr>m_masterId = None, m_tontines = [(''k'', ?t)]\<rparr>"
  have a: "map_of (m_tontines ?m) ''k'' = Some ?t" by simp
  have "checkAllPaid ?t" by (simp add: checkAllPaid_def)
  then show ?thesis using a validatePayments_cycle [OF a] by auto
qed

theorem empty_tontine_cycles_witness:
  "map_option atmCycle (map_of (m_tontines (snd (validatePayments (snd (validatePayments
      (snd (createTontine \<lparr>m_masterId = None, m_tontines = []\<rparr> 5 (Some ''G'')))
      (''tontine_'' @ int_str 5))) (''tontine_'' @ int_str 5)))) (''tontine_'' @ int_str 5)) = Some 2"
proof -
  let ?m0 = "\<lparr>m_masterId = None, m_tontines = []\<rparr>" and ?i = "''tontine_'' @ int_str 5"
  obtain t m1 where c: "createTontine ?m0 5 (Some ''G'') = (t, m1)" by fastforce
  have i: "the (o_id t) = ?i" using c by (auto simp: createTontine_def Let_def new_tontine_obj_def)
  obtain r2 m2 where v2: "validatePayments m1 (the (o_id t)) = (r2, m2)" by fastforce
  obtain r3 m3 where v3: "validatePayments m2 (the (o_id t)) = (r3, m3)" by fastforce
  have r2: "r2 = Inr CycleDone" using c v2
    by (auto simp: createTontine_def Let_def new_tontine_obj_def validatePayments_def checkAllPaid_def)
  have r3: "r3 = Inr CycleDone" using c v2 v3
    by (auto simp: createTontine_def Let_def new_tontine_obj_def validatePayments_def checkAllPaid_def
        resetCycle_def)
  have "map_option atmCycle (map_of (m_tontines m3) (the (o_id t))) = Some 2"
    using empty_tontine_cycles [OF c v2 [unfolded r2] v3 [unfolded r3]] .
  then show ?thesis using c v2 v3 i by simp
qed

theorem createTontine_same_ms_overwrites_witness:
  "length (m_tontines (snd (createTontine (snd (createTontine \<lparr>m_masterId = None, m_tontines = []\<rparr> 5 (Some ''A''))) 5 (Some ''B'')))) = 1"
proof -
  let ?m0 = "\<lparr>m_masterId = None, m_tontines = []\<rparr>"
  obtain t1 m1 where a: "createTontine ?m0 5 (Some ''A'') = (t1, m1)" by fastforce
  obtain t2 m2 where b: "createTontine m1 5 (Some ''B'') = (t2, m2)" by fastforce
  have "length (m_tontines m1) = 1" using a by (auto simp: createTontine_def Let_def)
  then show ?thesis using createTontine_same_ms_overwrites [OF a b] a b by simp
qed

theorem addMember_proto_rejected_witness:
  "add_member_route None (Some ''toString'') (Some ''10'') = Inl AlreadyMember"
  using addMember_proto_rejected [of "''toString''"] by (simp add: proto_keys_def)

theorem join_leave_roundtrip_witness:
  "leaveTontine \<lparr>u_userId = Some ''u1'', u_name = None, u_email = None, u_walletAddress = None, u_tontines = [''t1'', ''t2'']\<rparr> ''t2''
     = \<lparr>u_userId = Some ''u1'', u_name = None, u_email = None, u_walletAddress = None, u_tontines = [''t1'']\<rparr>"
proof -
  let ?u = "\<lparr>u_userId = Some ''u1'', u_name = None, u_email = None, u_walletAddress = None, u_tontines = [''t1'']\<rparr>"
  have "joinTontine ?u ''t2'' = Inr (?u\<lparr>u_tontines := [''t1'', ''t2'']\<rparr>)" by (simp add: joinTontine_def)
  from join_leave_roundtrip [OF this] show ?thesis by simp
qed

end
