(* ===== verification/Escrow.thy ===== *)
theory Escrow
  imports Ledger "HOL-Library.AList"
begin

text \<open>
  The escrow helpers of \<open>src/BCI/src/lib/xrplHelpers.js\<close>, which no route calls. Each
  helper opens its own client (\<open>getClient\<close>), signs and submits one transaction, and
  disconnects; nothing is in a \<open>try\<close>, so a throw leaves its client connected. The model
  counts the open connections and keeps the XRP side of the ledger: balances in drops,
  the next sequence number of each account, the escrows by owner and sequence, and the
  ledger's close time in seconds since the Ripple epoch (2000-01-01), the unit of
  \<open>FinishAfter\<close>. Transaction fees and reserves are not modelled. An EscrowCreate with a
  \<open>FinishAfter\<close> not in the future gets tecNO_PERMISSION, one for more than the balance
  tecUNFUNDED; an EscrowFinish of an unknown escrow gets tecNO_TARGET and one at a close
  time not after \<open>FinishAfter\<close> tecNO_PERMISSION. Every submitted transaction uses the
  account's sequence number.
\<close>

record escrow =
  e_owner :: string
  e_destination :: string
  e_amount :: int
  e_finishAfter :: int

record xrp_ledger =
  drops :: "string \<Rightarrow> int option"            \<comment> \<open>None: the account does not exist\<close>
  next_seq :: "string \<Rightarrow> nat"
  escrows :: "((string \<times> nat) \<times> escrow) list"  \<comment> \<open>keyed by owner and sequence\<close>
  close_time :: int                          \<comment> \<open>seconds since the Ripple epoch\<close>
  key_address :: "string \<Rightarrow> string option"   \<comment> \<open>\<open>Wallet.fromSeed(seed).classicAddress\<close>\<close>
  open_clients :: nat                        \<comment> \<open>clients connected and not disconnected\<close>

definition ripple_epoch :: int where
  \<comment> \<open>the UNIX time of 2000-01-01T00:00:00Z\<close>
  "ripple_epoch = 946684800"

definition faucet_drops :: int where
  "faucet_drops = 100000000"

definition get_client :: "xrp_ledger \<Rightarrow> xrp_ledger" where
  "get_client X = X\<lparr>open_clients := Suc (open_clients X)\<rparr>"

definition disconnect :: "xrp_ledger \<Rightarrow> xrp_ledger" where
  "disconnect X = X\<lparr>open_clients := open_clients X - 1\<rparr>"

definition bump_seq :: "string \<Rightarrow> xrp_ledger \<Rightarrow> xrp_ledger" where
  "bump_seq a X = X\<lparr>next_seq := (next_seq X)(a := Suc (next_seq X a))\<rparr>"

definition add_drops :: "string \<Rightarrow> int \<Rightarrow> xrp_ledger \<Rightarrow> xrp_ledger" where
  "add_drops a d X = X\<lparr>drops := (drops X)(a := map_option (\<lambda>b. b + d) (drops X a))\<rparr>"

definition generateTestWallet :: "xrp_ledger \<Rightarrow> wallet \<Rightarrow> wallet \<times> xrp_ledger" where
  \<comment> \<open>\<open>client.fundWallet()\<close> with the new key pair \<open>gen\<close>\<close>
  "generateTestWallet X gen =
     (let X1 = get_client X;
          X2 = X1\<lparr>drops := (drops X1)(address gen := Some faucet_drops),
                  key_address := (key_address X1)(secret gen := Some (address gen))\<rparr>
      in (gen, disconnect X2))"

definition escrow_create_engine :: "xrp_ledger \<Rightarrow> string \<Rightarrow> int \<Rightarrow> int \<Rightarrow> string \<times> xrp_ledger" where
  "escrow_create_engine X a amt fa =
     (let X1 = bump_seq a X in
      if fa \<le> close_time X then (''tecNO_PERMISSION'', X1)
      else if amt \<le> 0 \<or> the (drops X a) < amt then (''tecUNFUNDED'', X1)
      else (tes_success, (add_drops a (- amt) X1)\<lparr>escrows := escrows X1 @
              [((a, next_seq X a), \<lparr>e_owner = a, e_destination = a, e_amount = amt, e_finishAfter = fa\<rparr>)]\<rparr>))"

definition createEscrow :: "xrp_ledger \<Rightarrow> string \<Rightarrow> int \<Rightarrow> int \<Rightarrow> (exc + string) \<times> xrp_ledger" where
  "createEscrow X seed amt fa =
     (let X1 = get_client X in
      case key_address X1 seed of
        None \<Rightarrow> (Inl InvalidSeed, X1)
      | Some a \<Rightarrow>
          if drops X1 a = None then (Inl AccountNotFound, X1)
          else let (code, X2) = escrow_create_engine X1 a amt fa in (Inr code, disconnect X2))"

definition escrow_finish_engine :: "xrp_ledger \<Rightarrow> string \<Rightarrow> string \<Rightarrow> nat \<Rightarrow> string \<times> xrp_ledger" where
  "escrow_finish_engine X a owner sq =
     (let X1 = bump_seq a X in
      case map_of (escrows X) (owner, sq) of
        None \<Rightarrow> (''tecNO_TARGET'', X1)
      | Some e \<Rightarrow>
          if close_time X \<le> e_finishAfter e then (''tecNO_PERMISSION'', X1)
          else (tes_success, (add_drops (e_destination e) (e_amount e) X1)\<lparr>
                  escrows := AList.delete (owner, sq) (escrows X1)\<rparr>))"

definition finishEscrow :: "xrp_ledger \<Rightarrow> string \<Rightarrow> string \<Rightarrow> nat \<Rightarrow> (exc + string) \<times> xrp_ledger" where
  "finishEscrow X seed owner sq =
     (let X1 = get_client X in
      case key_address X1 seed of
        None \<Rightarrow> (Inl InvalidSeed, X1)
      | Some a \<Rightarrow>
          if drops X1 a = None then (Inl AccountNotFound, X1)
          else let (code, X2) = escrow_finish_engine X1 a owner sq in (Inr code, disconnect X2))"

subsection \<open>A scenario\<close>

text \<open>An account \<open>rE\<close> of 1000 drops with seed \<open>sE\<close>, next sequence 7, at close time 100.\<close>

definition esc_ledger :: xrp_ledger where
  "esc_ledger = \<lparr>drops = (\<lambda>a. if a = ''rE'' then Some 1000 else None), next_seq = (\<lambda>a. 7), escrows = [],
     close_time = 100, key_address = (\<lambda>k. if k = ''sE'' then Some ''rE'' else None), open_clients = 0\<rparr>"

subsection \<open>Properties\<close>

lemma map_of_snoc_new [simp]: "map_of xs k = None \<Longrightarrow> map_of (xs @ [(k, v)]) k = Some v"
  by (simp add: map_add_def)

lemma createEscrow_success:
  assumes "createEscrow X seed amt fa = (Inr tes_success, X1)" "key_address X seed = Some a"
  shows "close_time X < fa \<and> 0 < amt \<and> (\<exists>b. drops X a = Some b \<and> amt \<le> b) \<and>
         X1 = disconnect ((add_drops a (- amt) (bump_seq a (get_client X)))\<lparr>escrows := escrows X @
                [((a, next_seq X a), \<lparr>e_owner = a, e_destination = a, e_amount = amt, e_finishAfter = fa\<rparr>)]\<rparr>)"
  using assms
  by (auto simp: createEscrow_def escrow_create_engine_def get_client_def bump_seq_def Let_def
      tes_success_def split: if_splits)

text \<open>The helpers have no try/finally: createEscrow leaves its client connected whenever
  it throws (invalid seed, unknown account), and disconnects it when the transaction is
  submitted.\<close>

theorem createEscrow_clients:
  "open_clients (snd (createEscrow X seed amt fa)) =
     (case fst (createEscrow X seed amt fa) of Inl e \<Rightarrow> Suc (open_clients X) | Inr c \<Rightarrow> open_clients X)"
  by (auto simp: createEscrow_def escrow_create_engine_def get_client_def disconnect_def bump_seq_def
      add_drops_def Let_def split: option.splits)

text \<open>The escrow createEscrow makes is to the signer itself: finishing it after its
  \<open>FinishAfter\<close> with the same seed gives the account back the amount, and both helpers
  together leave no client open.\<close>

theorem escrow_self_roundtrip:
  assumes "createEscrow X seed amt fa = (Inr tes_success, X1)" "key_address X seed = Some a"
    and "map_of (escrows X) (a, next_seq X a) = None" "fa < t"
  shows "\<exists>X3. finishEscrow (X1\<lparr>close_time := t\<rparr>) seed a (next_seq X a) = (Inr tes_success, X3) \<and>
             drops X3 a = drops X a \<and> open_clients X3 = open_clients X"
  using createEscrow_success [OF assms(1,2)] assms(2,3,4)
  by (auto simp: finishEscrow_def escrow_finish_engine_def get_client_def disconnect_def bump_seq_def
      add_drops_def map_add_def Let_def)

text \<open>C38: \<open>FinishAfter\<close> is read in seconds since 2000-01-01, while the code passes it as a
  UNIX time (so says its comment): an escrow meant to be released at UNIX time \<open>u\<close> cannot
  be finished at any UNIX time up to \<open>u\<close> plus thirty years (946684800 seconds).\<close>

theorem escrow_unix_finish_after:
  assumes "createEscrow X seed amt u = (Inr tes_success, X1)" "key_address X seed = Some a"
    and "map_of (escrows X) (a, next_seq X a) = None" "u < tu" "tu \<le> u + ripple_epoch"
  shows "\<exists>X3. finishEscrow (X1\<lparr>close_time := tu - ripple_epoch\<rparr>) seed a (next_seq X a) = (Inr ''tecNO_PERMISSION'', X3) \<and>
             escrows X3 = escrows X1"
  using createEscrow_success [OF assms(1,2)] assms(2-5)
  by (auto simp: finishEscrow_def escrow_finish_engine_def get_client_def disconnect_def bump_seq_def
      add_drops_def ripple_epoch_def map_add_def Let_def)

lemma esc_create: "\<exists>X1. createEscrow esc_ledger ''sE'' 300 200 = (Inr tes_success, X1)"
  by (simp add: createEscrow_def escrow_create_engine_def esc_ledger_def get_client_def Let_def)

theorem escrow_self_roundtrip_witness:
  "\<exists>X1 X3. createEscrow esc_ledger ''sE'' 300 200 = (Inr tes_success, X1) \<and>
     finishEscrow (X1\<lparr>close_time := 500\<rparr>) ''sE'' ''rE'' 7 = (Inr tes_success, X3) \<and> drops X3 ''rE'' = Some 1000"
proof -
  obtain X1 where c: "createEscrow esc_ledger ''sE'' 300 200 = (Inr tes_success, X1)" using esc_create by blast
  have k: "key_address esc_ledger ''sE'' = Some ''rE''" by (simp add: esc_ledger_def)
  have n: "map_of (escrows esc_ledger) (''rE'', next_seq esc_ledger ''rE'') = None" by (simp add: esc_ledger_def)
  from escrow_self_roundtrip [OF c k n, of 500] show ?thesis using c by (auto simp: esc_ledger_def)
qed

theorem escrow_unix_finish_after_witness:
  "\<exists>X1 X3. createEscrow esc_ledger ''sE'' 300 200 = (Inr tes_success, X1) \<and>
     finishEscrow (X1\<lparr>close_time := 500 - ripple_epoch\<rparr>) ''sE'' ''rE'' 7 = (Inr ''tecNO_PERMISSION'', X3)"
proof -
  obtain X1 where c: "createEscrow esc_ledger ''sE'' 300 200 = (Inr tes_success, X1)" using esc_create by blast
  have k: "key_address esc_ledger ''sE'' = Some ''rE''" by (simp add: esc_ledger_def)
  have n: "map_of (escrows esc_ledger) (''rE'', next_seq esc_ledger ''rE'') = None" by (simp add: esc_ledger_def)
  from escrow_unix_finish_after [OF c k n, of 500] show ?thesis using c by (auto simp: esc_ledger_def ripple_epoch_def)
qed

end
