(* ===== verification/Pages.thy ===== *)
theory Pages
  imports Queries Wallets Auth Settlement
begin

text \<open>
  The client side: the React pages of \<open>src/src/app\<close> and \<open>src/BCI/src/app\<close> as event
  handlers over the browser state, composed with the route handlers they call. The
  browser state is the \<open>"user"\<close> entry of \<open>localStorage\<close> (the JSON of a user, or absent)
  and the last \<open>router.push\<close> target. A page's own state (\<open>useState\<close>) is a record per page.
  A \<open>fetch\<close> is the route handler of the server model applied to the server state; its
  response is \<open>ok\<close> exactly when the handler answers \<open>Inr\<close>. The parameter \<open>net\<close> says
  whether the request reaches the server: when it is False, \<open>fetch\<close> rejects and the
  handler does not run. What a page shows is recorded as a datatype of the messages it
  sets (\<open>setMessage\<close>, \<open>setError\<close>), a server error carrying the route's error;
  the theory \<open>Render\<close> turns a page's state into what it shows.
\<close>

record browser =
  ls_user :: "user option"   \<comment> \<open>\<open>JSON.parse(localStorage.getItem("user"))\<close>; None for \<open>null\<close>\<close>
  location :: string         \<comment> \<open>the last \<open>router.push\<close> target, \<open>''\<close> before any\<close>

subsection \<open>Guards: the root layout and \<open>checkAuth\<close>\<close>

definition layout_guard :: "string \<Rightarrow> browser \<Rightarrow> browser" where
  \<comment> \<open>\<open>if (!user && window.location.pathname !== '/login') router.push('/login')\<close>\<close>
  "layout_guard path br = (if ls_user br = None \<and> path \<noteq> ''/login'' then br\<lparr>location := ''/login''\<rparr> else br)"

definition check_auth :: "browser \<Rightarrow> user option \<times> browser" where
  "check_auth br = (ls_user br, if ls_user br = None then br\<lparr>location := ''/login''\<rparr> else br)"

subsection \<open>Login page (\<open>src/src/app/login/page.js\<close>)\<close>

datatype login_msg = NoLoginMsg | EnterAddress | LoginServerError api_error | LoginNetworkError

record login_page =
  lp_address :: string
  lp_error :: login_msg

definition login_mount :: "browser \<Rightarrow> browser" where
  "login_mount br = (if ls_user br \<noteq> None then br\<lparr>location := ''/''\<rparr> else br)"

definition handle_login ::
  "browser \<Rightarrow> login_page \<Rightarrow> store \<Rightarrow> time \<Rightarrow> string \<Rightarrow> bool \<Rightarrow> browser \<times> login_page \<times> store" where
  "handle_login br lp st now rnd net =
     (if lp_address lp = [] then (br, lp\<lparr>lp_error := EnterAddress\<rparr>, st)
      else if \<not> net then (br, lp\<lparr>lp_error := LoginNetworkError\<rparr>, st)
      else (case login st now rnd (Some (lp_address lp)) of
        (Inr u, st') \<Rightarrow> (br\<lparr>ls_user := Some u, location := ''/''\<rparr>, lp, st')
      | (Inl e, st') \<Rightarrow> (br, lp\<lparr>lp_error := LoginServerError e\<rparr>, st')))"

subsection \<open>Dashboard (\<open>src/src/app/page.js\<close>)\<close>

record dashboard =
  d_user :: "user option"
  d_balance :: "string \<times> string"  \<comment> \<open>\<open>{xrp, rlusd}\<close> as shown\<close>
  d_tontines :: "summary list"
  d_mounted :: bool

definition dashboard_init :: dashboard where
  "dashboard_init = \<lparr>d_user = None, d_balance = (''...'', ''...''), d_tontines = [], d_mounted = False\<rparr>"

definition or_default :: "string \<Rightarrow> string \<Rightarrow> string" where
  \<comment> \<open>\<open>s || d\<close> on a string\<close>
  "or_default s d = (if s = [] then d else s)"

definition shown_balance :: "ledger \<Rightarrow> string \<Rightarrow> bool \<Rightarrow> string \<times> string" where
  \<comment> \<open>\<open>fetchWalletBalance\<close>: the prefix check, then \<open>POST /api/wallet/balance\<close>\<close>
  "shown_balance L a net =
     (if a = [] \<or> \<not> starts_with_r a \<or> \<not> net then (''Error'', ''Error'')
      else (case wallet_balance_post L (Some a) of
        Inr (x, r) \<Rightarrow> (or_default x ''0.00'', or_default (int_str r) ''0.00'')
      | Inl e \<Rightarrow> (''Error'', ''Error'')))"

definition shown_tontines :: "store \<Rightarrow> string \<Rightarrow> bool \<Rightarrow> summary list \<Rightarrow> summary list" where
  \<comment> \<open>\<open>fetchUserTontines\<close>: \<open>setTontines\<close> only on an ok response\<close>
  "shown_tontines st u net old =
     (if \<not> net then old else (case tontines_list st (Some u) of Inr ss \<Rightarrow> ss | Inl e \<Rightarrow> old))"

definition dashboard_mount ::
  "browser \<Rightarrow> dashboard \<Rightarrow> store \<Rightarrow> ledger \<Rightarrow> bool \<Rightarrow> bool \<Rightarrow> browser \<times> dashboard" where
  "dashboard_mount br d st L net_b net_t =
     (case ls_user br of
       None \<Rightarrow> (br\<lparr>location := ''/login''\<rparr>, d)
     | Some u \<Rightarrow> (br, d\<lparr>d_user := Some u, d_balance := shown_balance L (walletAddress u) net_b,
                         d_tontines := shown_tontines st (userId u) net_t (d_tontines d), d_mounted := True\<rparr>))"

definition handle_logout :: "browser \<Rightarrow> browser" where
  "handle_logout br = br\<lparr>ls_user := None, location := ''/login''\<rparr>"

definition card_click :: "browser \<Rightarrow> string \<Rightarrow> browser" where
  \<comment> \<open>\<open>TontineCard.handleViewDetails\<close>\<close>
  "card_click br i = (if i = [] then br else br\<lparr>location := ''/viewTontines?id='' @ i\<rparr>)"

subsection \<open>Create page (\<open>src/src/app/create-tontine/page.js\<close>)\<close>

datatype create_msg = NoCreateMsg | PleaseLogIn | CreateFillAll | CreatingWallet
  | CreateServerError api_error | CreatedRedirecting | CreateNetworkError

record create_page =
  cp_name :: string
  cp_destination :: string
  cp_scheduled :: string
  cp_user :: string
  cp_msg :: create_msg
  cp_loading :: bool
  cp_redirect :: "string option"  \<comment> \<open>the \<open>router.push\<close> the \<open>setTimeout\<close> will make\<close>

definition create_mount :: "browser \<Rightarrow> create_page \<Rightarrow> create_page" where
  "create_mount br cp =
     (case ls_user br of
       None \<Rightarrow> cp\<lparr>cp_msg := PleaseLogIn\<rparr>
     | Some u \<Rightarrow> if userId u = [] then cp\<lparr>cp_msg := PleaseLogIn\<rparr> else cp\<lparr>cp_user := userId u\<rparr>)"

definition handle_create_wallet ::
  "create_page \<Rightarrow> store \<Rightarrow> ledger \<Rightarrow> time \<Rightarrow> wallet \<Rightarrow> bool \<Rightarrow> create_page \<times> store \<times> ledger" where
  "handle_create_wallet cp st L now gen net =
     (if cp_name cp = [] \<or> cp_destination cp = [] \<or> cp_scheduled cp = [] \<or> cp_user cp = []
      then (cp\<lparr>cp_msg := CreateFillAll\<rparr>, st, L)
      else if \<not> net then (cp\<lparr>cp_msg := CreateNetworkError, cp_loading := False\<rparr>, st, L)
      else (case create_wallet st L now gen (Some (cp_name cp)) (Some (cp_destination cp))
                   (Some (cp_scheduled cp)) (Some (cp_user cp)) of
        (Inl e, st', L') \<Rightarrow> (cp\<lparr>cp_msg := CreateServerError e, cp_loading := False\<rparr>, st', L')
      | (Inr (i, a), st', L') \<Rightarrow>
          (cp\<lparr>cp_msg := CreatedRedirecting, cp_loading := False,
              cp_redirect := Some (''/viewTontines?id='' @ i)\<rparr>, st', L')))"

definition create_redirect :: "create_page \<Rightarrow> browser \<Rightarrow> browser" where
  \<comment> \<open>the \<open>setTimeout\<close> callback, two seconds later\<close>
  "create_redirect cp br = (case cp_redirect cp of None \<Rightarrow> br | Some l \<Rightarrow> br\<lparr>location := l\<rparr>)"

subsection \<open>Join page (\<open>src/src/app/join/page.js\<close>)\<close>

text \<open>The page as a machine over events: typing in the two fields, submitting the form
  (the button is \<open>disabled={loading}\<close>, so a submit while loading does nothing), and the
  arrival of the response of the pending request, which runs the \<open>join\<close> route on the
  values captured at submission. The \<open>finally\<close> clears \<open>loading\<close>.\<close>

datatype join_msg = NoJoinMsg | JoinFillAll | Adding | Joined | JoinServerError api_error | JoinNetworkError

record join_page =
  jp_tontine :: string
  jp_user :: string
  jp_msg :: join_msg
  jp_loading :: bool
  jp_pending :: "(string \<times> string) option"

datatype join_event = TypeIds string string | Submit | Deliver bool

type_synonym join_sys = "join_page \<times> store \<times> ledger"

definition join_page_init :: join_page where
  "join_page_init = \<lparr>jp_tontine = [], jp_user = [], jp_msg = NoJoinMsg, jp_loading = False, jp_pending = None\<rparr>"

fun join_page_step :: "join_sys \<Rightarrow> join_event \<Rightarrow> join_sys" where
  "join_page_step (p, st, L) (TypeIds i u) = (p\<lparr>jp_tontine := i, jp_user := u\<rparr>, st, L)"
| "join_page_step (p, st, L) Submit =
     (if jp_loading p then (p, st, L)
      else if jp_tontine p = [] \<or> jp_user p = [] then (p\<lparr>jp_msg := JoinFillAll\<rparr>, st, L)
      else (p\<lparr>jp_loading := True, jp_msg := Adding, jp_pending := Some (jp_tontine p, jp_user p)\<rparr>, st, L))"
| "join_page_step (p, st, L) (Deliver net) =
     (case jp_pending p of
       None \<Rightarrow> (p, st, L)
     | Some (i, u) \<Rightarrow>
         if \<not> net then (p\<lparr>jp_msg := JoinNetworkError, jp_loading := False, jp_pending := None\<rparr>, st, L)
         else (case join_trustline st L (Some i) (Some u) of
           (Inr t, st', L') \<Rightarrow> (p\<lparr>jp_msg := Joined, jp_loading := False, jp_pending := None\<rparr>, st', L')
         | (Inl e, st', L') \<Rightarrow> (p\<lparr>jp_msg := JoinServerError e, jp_loading := False, jp_pending := None\<rparr>, st', L')))"

fun join_page_run :: "join_sys \<Rightarrow> join_event list \<Rightarrow> join_sys" where
  "join_page_run s [] = s"
| "join_page_run s (e # es) = join_page_run (join_page_step s e) es"

definition join_page_ok :: "join_page \<Rightarrow> bool" where
  \<comment> \<open>a request is pending exactly while the page shows it is loading\<close>
  "join_page_ok p = (jp_loading p = (jp_pending p \<noteq> None))"

subsection \<open>Settlement page (\<open>src/src/app/triggerTransfer/page.js\<close>)\<close>

datatype transfer_msg = Initialising | Verifying | TransfersDone | TransferServerError api_error | TransferNetworkError

record transfer_page =
  tp_msg :: transfer_msg
  tp_results :: "outcome list"
  tp_loading :: bool

definition transfer_mount ::
  "date_parser \<Rightarrow> time \<Rightarrow> store \<Rightarrow> ledger \<Rightarrow> bool \<Rightarrow> transfer_page \<times> store \<times> ledger" where
  "transfer_mount dp now st L net =
     (if \<not> net then (\<lparr>tp_msg = TransferNetworkError, tp_results = [], tp_loading = False\<rparr>, st, L)
      else (case trigger_transfer dp now st L of
        (Inr rs, st', L') \<Rightarrow> (\<lparr>tp_msg = TransfersDone, tp_results = rs, tp_loading = False\<rparr>, st', L')
      | (Inl e, st', L') \<Rightarrow> (\<lparr>tp_msg = TransferServerError e, tp_results = [], tp_loading = False\<rparr>, st', L')))"

subsection \<open>Tontine page (\<open>src/BCI/src/app/viewTontines/page.js\<close>)\<close>

datatype view_msg = NoViewMsg | IdMissing | DetailsServerError api_error | DetailsNetworkError

datatype trustline_msg = NoTrustlineMsg | EnterRecipient | CreatingTrustline | TrustlineExists
  | TrustlineAdded | TrustlineServerError api_error | TrustlineRequestFailed

record view_page =
  vp_details :: "tontine option"
  vp_balance :: "string \<times> string"
  vp_error :: view_msg
  vp_trustline_shown :: bool
  vp_tl_msg :: trustline_msg
  vp_loading_tl :: bool
  vp_recipient :: string

definition view_init :: view_page where
  "view_init = \<lparr>vp_details = None, vp_balance = (''...'', ''...''), vp_error = NoViewMsg,
     vp_trustline_shown = False, vp_tl_msg = NoTrustlineMsg, vp_loading_tl = False, vp_recipient = []\<rparr>"

definition view_balance :: "ledger \<Rightarrow> string \<Rightarrow> bool \<Rightarrow> string \<times> string" where
  \<comment> \<open>this page's \<open>fetchWalletBalance\<close>: an error answer shows \<open>Erreur\<close>, a failed request \<open>Error\<close>\<close>
  "view_balance L a net =
     (if \<not> starts_with_r a \<or> \<not> net then (''Error'', ''Error'')
      else (case wallet_balance_post L (Some a) of
        Inr (x, r) \<Rightarrow> (or_default x ''0.00'', or_default (int_str r) ''0.00'')
      | Inl e \<Rightarrow> (''Erreur'', ''Erreur'')))"

definition view_mount ::
  "view_page \<Rightarrow> store \<Rightarrow> ledger \<Rightarrow> field \<Rightarrow> bool \<Rightarrow> bool \<Rightarrow> view_page" where
  \<comment> \<open>\<open>fetchTontineDetails\<close>: \<open>data.wallet.address\<close> throws inside its \<open>try\<close> on a record
     without a wallet, and the \<open>catch\<close> reports a network error\<close>
  "view_mount vp st L fid net_d net_b =
     (if \<not> truthy fid then vp\<lparr>vp_error := IdMissing\<rparr>
      else if \<not> net_d then vp\<lparr>vp_error := DetailsNetworkError\<rparr>
      else (case tontine_details st fid of
        Inl e \<Rightarrow> vp\<lparr>vp_error := DetailsServerError e\<rparr>
      | Inr t \<Rightarrow> (case wallet t of
          None \<Rightarrow> vp\<lparr>vp_details := Some t, vp_error := DetailsNetworkError\<rparr>
        | Some w \<Rightarrow> vp\<lparr>vp_details := Some t, vp_balance := view_balance L (address w) net_b\<rparr>)))"

definition handle_add_trustline :: "view_page \<Rightarrow> ledger \<Rightarrow> bool \<Rightarrow> view_page \<times> ledger" where
  \<comment> \<open>the request sends the tontine wallet's address and secret; \<open>recipientAddress\<close> is
     sent too, and the route does not read it\<close>
  "handle_add_trustline vp L net =
     (if vp_recipient vp = [] then (vp\<lparr>vp_tl_msg := EnterRecipient\<rparr>, L)
      else (case vp_details vp of
        None \<Rightarrow> (vp\<lparr>vp_tl_msg := TrustlineRequestFailed, vp_loading_tl := False\<rparr>, L)
      | Some t \<Rightarrow> (case wallet t of
          None \<Rightarrow> (vp\<lparr>vp_tl_msg := TrustlineRequestFailed, vp_loading_tl := False\<rparr>, L)
        | Some w \<Rightarrow>
            if \<not> net then (vp\<lparr>vp_tl_msg := TrustlineRequestFailed, vp_loading_tl := False\<rparr>, L)
            else (case trustline_add L (Some (address w)) (Some (secret w)) of
              (Inr AlreadyExists, L') \<Rightarrow> (vp\<lparr>vp_tl_msg := TrustlineExists, vp_trustline_shown := True, vp_loading_tl := False\<rparr>, L')
            | (Inr Added, L') \<Rightarrow> (vp\<lparr>vp_tl_msg := TrustlineAdded, vp_loading_tl := False\<rparr>, L')
            | (Inl e, L') \<Rightarrow> (vp\<lparr>vp_tl_msg := TrustlineServerError e, vp_loading_tl := False\<rparr>, L')))))"

subsection \<open>Properties\<close>

lemma join_page_step_ok: "join_page_ok (fst s) \<Longrightarrow> join_page_ok (fst (join_page_step s e))"
  by (cases s; cases e)
     (auto simp: join_page_ok_def split: option.splits prod.splits sum.splits)

lemma join_page_run_ok: "join_page_ok (fst s) \<Longrightarrow> join_page_ok (fst (join_page_run s es))"
  by (induction s es rule: join_page_run.induct) (auto dest: join_page_step_ok)

lemma join_page_init_ok: "join_page_ok join_page_init"
  by (simp add: join_page_ok_def join_page_init_def)

text \<open>C22: Every request of the join page is answered: in any state the page reaches from its
  initial state, while it shows that it is loading a request is pending, and the arrival of
  that request's response, whether it succeeded, failed or never reached the server, ends the
  loading and leaves no request pending.\<close>

theorem join_page_answered:
  assumes "jp_loading (fst (join_page_run (join_page_init, st, L) es))"
  shows "\<not> jp_loading (fst (join_page_step (join_page_run (join_page_init, st, L) es) (Deliver net))) \<and>
         jp_pending (fst (join_page_step (join_page_run (join_page_init, st, L) es) (Deliver net))) = None"
proof -
  obtain p st' L' where s: "join_page_run (join_page_init, st, L) es = (p, st', L')" by (cases "join_page_run (join_page_init, st, L) es") auto
  have "join_page_ok p" using join_page_run_ok [of "(join_page_init, st, L)" es] join_page_init_ok s by simp
  with assms s obtain i u where "jp_pending p = Some (i, u)" by (auto simp: join_page_ok_def)
  with s show ?thesis by (auto split: prod.splits sum.splits)
qed

lemma login_address:
  "login st now rnd (Some a) = (Inr u, st') \<Longrightarrow> walletAddress u = a"
  by (auto dest!: login_Inr simp: new_user_def find_Some_iff)

text \<open>C20: Login then dashboard: after a successful login from the login page, the dashboard
  mounts without redirecting to the login page, for the user whose wallet address was typed,
  and shows the tontines the list route answers for that user's id.\<close>

theorem login_then_dashboard:
  assumes "lp_address lp \<noteq> []" "login st now rnd (Some (lp_address lp)) = (Inr u, st')"
  shows "handle_login br lp st now rnd True = (br\<lparr>ls_user := Some u, location := ''/''\<rparr>, lp, st') \<and>
         walletAddress u = lp_address lp \<and>
         dashboard_mount (br\<lparr>ls_user := Some u, location := ''/''\<rparr>) d st' L nb True =
           (br\<lparr>ls_user := Some u, location := ''/''\<rparr>,
            d\<lparr>d_user := Some u, d_balance := shown_balance L (lp_address lp) nb,
              d_tontines := (case tontines_list st' (Some (userId u)) of Inr ss \<Rightarrow> ss | Inl e \<Rightarrow> d_tontines d),
              d_mounted := True\<rparr>)"
  using assms login_address [OF assms(2)]
  by (simp add: handle_login_def dashboard_mount_def shown_tontines_def)

lemma create_wallet_Inr_store:
  assumes "create_wallet st L now gen fn fd fs fu = (Inr (i, a), st', L')"
  shows "\<exists>ts w. read_trimmed (tontines_file st) = Inr ts \<and> i = int_str now \<and> stored st = ts \<and>
           st' = st\<lparr>tontines_file := Json (ts @ [wallet_record now w (the fn) (the fd) (the fs) (the fu)])\<rparr>"
  using assms
  by (auto simp: create_wallet_def stored_def wallet_record_def Let_def split: if_splits prod.splits sum.splits)

lemma find_tontine_snoc:
  "find_tontine ts i = None \<Longrightarrow> tid t = i \<Longrightarrow> find_tontine (ts @ [t]) i = Some t"
  by (induction ts) (auto simp: find_tontine_def)

lemma create_page_record:
  assumes "handle_create_wallet cp st L now gen True = (cp', st', L')" "cp_msg cp' = CreatedRedirecting"
    and "find_tontine (stored st) (int_str now) = None"
  shows "\<exists>w. cp_redirect cp' = Some (''/viewTontines?id='' @ int_str now) \<and>
           tontine_details st' (Some (int_str now)) =
             Inr (wallet_record now w (cp_name cp) (cp_destination cp) (cp_scheduled cp) (cp_user cp))"
proof -
  from assms(1,2) obtain i a where c: "create_wallet st L now gen (Some (cp_name cp)) (Some (cp_destination cp))
      (Some (cp_scheduled cp)) (Some (cp_user cp)) = (Inr (i, a), st', L')"
    and r: "cp_redirect cp' = Some (''/viewTontines?id='' @ i)"
    by (auto simp: handle_create_wallet_def split: if_splits prod.splits sum.splits)
  from create_wallet_Inr_store [OF c] obtain ts w where
    s: "read_trimmed (tontines_file st) = Inr ts" "i = int_str now" "stored st = ts"
       "st' = st\<lparr>tontines_file := Json (ts @ [wallet_record now w (cp_name cp) (cp_destination cp) (cp_scheduled cp) (cp_user cp)])\<rparr>"
    by auto
  let ?t = "wallet_record now w (cp_name cp) (cp_destination cp) (cp_scheduled cp) (cp_user cp)"
  have "find_tontine (ts @ [?t]) i = Some ?t"
    using assms(3) s by (intro find_tontine_snoc) (auto simp: wallet_record_def)
  with r s show ?thesis by (intro exI [of _ w]) (simp add: tontine_details_def)
qed

text \<open>C21: Create then view: after the create page's request succeeds, it redirects to the
  tontine page of the returned id, and that page shows the record just created, with its
  name, unless an earlier record has the same id (one created in the same millisecond).\<close>

theorem create_then_view:
  assumes "handle_create_wallet cp st L now gen True = (cp', st', L')" "cp_msg cp' = CreatedRedirecting"
    and "find_tontine (stored st) (int_str now) = None"
  shows "\<exists>t. cp_redirect cp' = Some (''/viewTontines?id='' @ tid t) \<and>
            vp_details (view_mount vp st' L' (Some (tid t)) True nb) = Some t \<and>
            tontineName t = Some (cp_name cp) \<and> wallet t \<noteq> None"
proof -
  from create_page_record [OF assms] obtain w where
    r: "cp_redirect cp' = Some (''/viewTontines?id='' @ int_str now)" and
    d: "tontine_details st' (Some (int_str now)) =
          Inr (wallet_record now w (cp_name cp) (cp_destination cp) (cp_scheduled cp) (cp_user cp))"
    by blast
  let ?t = "wallet_record now w (cp_name cp) (cp_destination cp) (cp_scheduled cp) (cp_user cp)"
  have "tid ?t = int_str now" by (simp add: wallet_record_def)
  with r d show ?thesis
    by (intro exI [of _ ?t]) (simp add: view_mount_def wallet_record_def)
qed

lemma create_tontine_details:
  assumes "create_tontine st now rnd fn fc fp fcr = (Inr t, st')" "find_tontine (stored st) (tid t) = None"
  shows "tontine_details st' (Some (tid t)) = Inr t \<and> wallet t = None \<and> tid t \<noteq> []"
proof -
  from assms(1) obtain ts where s: "read_strict (tontines_file st') = Inr (ts @ [t])" "stored st = ts"
      "wallet t = None" "tid t \<noteq> []"
    by (cases "tontines_file st")
       (auto simp: create_tontine_def new_tontine_def stored_def Let_def split: if_splits)
  then have "find_tontine (ts @ [t]) (tid t) = Some t" using assms(2) by (simp add: find_tontine_snoc)
  with s show ?thesis by (simp add: tontine_details_def)
qed

text \<open>A tontine made by create-tontine has no wallet, and its page reports a network error:
  \<open>data.wallet.address\<close> throws inside the \<open>try\<close> of \<open>fetchTontineDetails\<close>, whose \<open>catch\<close>
  says the network failed although the details arrived.\<close>

theorem created_tontine_view_error:
  assumes "create_tontine st now rnd fn fc fp fcr = (Inr t, st')" "find_tontine (stored st) (tid t) = None"
  shows "vp_error (view_mount vp st' L (Some (tid t)) True nb) = DetailsNetworkError \<and>
         vp_details (view_mount vp st' L (Some (tid t)) True nb) = Some t"
  using create_tontine_details [OF assms] by (simp add: view_mount_def)

lemma trustline_add_effect:
  "trustline_add L ta ts = (r, L') \<Longrightarrow> L' = L \<or> (\<exists>src. seed_address L (the ts) = Some src \<and> L' = add_trust_line src L)"
  by (auto simp: trustline_add_def Let_def split: if_splits option.splits)

lemma add_trust_line_other: "a \<noteq> src \<Longrightarrow> account_lines (add_trust_line src L) a = account_lines L a"
  by (simp add: add_trust_line_def)

text \<open>C24: The tontine page asks for a recipient address, but the trust line it requests is
  the tontine wallet's: the recipient's trust lines are never changed, unless the recipient
  is the account the tontine's secret signs for.\<close>

theorem trustline_recipient_untouched:
  assumes "handle_add_trustline vp L net = (vp', L')" "vp_details vp = Some t" "wallet t = Some w"
    and "seed_address L (secret w) \<noteq> Some (vp_recipient vp)"
  shows "account_lines L' (vp_recipient vp) = account_lines L (vp_recipient vp)"
proof -
  have "L' = L \<or> (\<exists>r. trustline_add L (Some (address w)) (Some (secret w)) = (r, L'))"
    using assms(1-3) by (auto simp: handle_add_trustline_def split: if_splits prod.splits sum.splits trust_outcome.splits)
  then show ?thesis
  proof
    assume "\<exists>r. trustline_add L (Some (address w)) (Some (secret w)) = (r, L')"
    then obtain r where "trustline_add L (Some (address w)) (Some (secret w)) = (r, L')" by blast
    from trustline_add_effect [OF this] assms(4) show ?thesis by (auto simp: add_trust_line_other)
  qed simp
qed

lemma settle_loop_results:
  "settle_loop dp now L ts = (Inr (ts', rs, u), L') \<Longrightarrow>
   list_all (\<lambda>(i, r). \<exists>t \<in> set ts'. tid t = i \<and> status t = Some Completed \<and> txResult t = Some r) rs \<and>
   (rs \<noteq> [] \<longrightarrow> u)"
proof (induction dp now L ts arbitrary: ts' rs u L' rule: settle_loop.induct)
  case (1 dp now L)
  then show ?case by simp
next
  case (2 dp now L t ts)
  show ?case
    using "2.prems" "2.IH"
    by (fastforce simp: pass_Inr complete_def list_all_iff split: if_splits option.splits sum.splits prod.splits)
qed

text \<open>C25: The settlement page lists exactly the outcomes of the pass, and each listed
  tontine is stored as completed with the listed transaction result.\<close>

theorem transfer_page_results:
  assumes "transfer_mount dp now st L True = (tp, st', L')"
  shows "list_all (\<lambda>(i, r). \<exists>t \<in> set (stored st'). tid t = i \<and> status t = Some Completed \<and> txResult t = Some r)
           (tp_results tp)"
proof (cases "trigger_transfer dp now st L")
  case (fields res st1 L1)
  show ?thesis
  proof (cases res)
    case (Inl e)
    with assms fields show ?thesis by (auto simp: transfer_mount_def)
  next
    case (Inr rs)
    with fields obtain ts ts' u where
      "read_trimmed (tontines_file st) = Inr ts" "settle_loop dp now L ts = (Inr (ts', rs, u), L1)"
      "st1 = (if u then st\<lparr>tontines_file := Json ts'\<rparr> else st)"
      by (auto simp: trigger_transfer_def split: sum.splits prod.splits)
    moreover from this(2) have "list_all (\<lambda>(i, r). \<exists>t \<in> set ts'. tid t = i \<and> status t = Some Completed \<and> txResult t = Some r) rs"
        "rs \<noteq> [] \<longrightarrow> u"
      by (auto dest: settle_loop_results)
    moreover have "tp_results tp = rs" "st' = st1" using assms fields Inr by (auto simp: transfer_mount_def)
    ultimately show ?thesis by (cases "rs = []") auto
  qed
qed

theorem join_page_answered_witness:
  "jp_loading (fst (join_page_run (join_page_init, club_store, club_ledger) [TypeIds (int_str 1000) ''u2'', Submit])) \<and>
   \<not> jp_loading (fst (join_page_step (join_page_run (join_page_init, club_store, club_ledger)
       [TypeIds (int_str 1000) ''u2'', Submit]) (Deliver True)))"
proof -
  have l: "jp_loading (fst (join_page_run (join_page_init, club_store, club_ledger) [TypeIds (int_str 1000) ''u2'', Submit]))"
    by (simp add: join_page_init_def)
  from join_page_answered [OF l] l show ?thesis by simp
qed

theorem login_then_dashboard_witness:
  "d_user (snd (dashboard_mount (\<lparr>ls_user = None, location = []\<rparr>\<lparr>ls_user := Some (new_user 5 ''k1'' ''rAlice''), location := ''/''\<rparr>)
      dashboard_init \<lparr>tontines_file = Missing, users_file = Json [new_user 5 ''k1'' ''rAlice'']\<rparr> club_ledger True True))
     = Some (new_user 5 ''k1'' ''rAlice'') \<and>
   walletAddress (new_user 5 ''k1'' ''rAlice'') = ''rAlice''"
proof -
  let ?lp = "\<lparr>lp_address = ''rAlice'', lp_error = NoLoginMsg\<rparr>"
  have a: "lp_address ?lp \<noteq> []" by simp
  have l: "login \<lparr>tontines_file = Missing, users_file = Missing\<rparr> 5 ''k1'' (Some (lp_address ?lp)) =
     (Inr (new_user 5 ''k1'' ''rAlice''), \<lparr>tontines_file = Missing, users_file = Json [new_user 5 ''k1'' ''rAlice'']\<rparr>)"
    using login_first by simp
  have "walletAddress (new_user 5 ''k1'' ''rAlice'') = lp_address ?lp \<and>
      dashboard_mount (\<lparr>ls_user = None, location = []\<rparr>\<lparr>ls_user := Some (new_user 5 ''k1'' ''rAlice''), location := ''/''\<rparr>)
        dashboard_init \<lparr>tontines_file = Missing, users_file = Json [new_user 5 ''k1'' ''rAlice'']\<rparr> club_ledger True True =
      (\<lparr>ls_user = None, location = []\<rparr>\<lparr>ls_user := Some (new_user 5 ''k1'' ''rAlice''), location := ''/''\<rparr>,
       dashboard_init\<lparr>d_user := Some (new_user 5 ''k1'' ''rAlice''), d_balance := shown_balance club_ledger (lp_address ?lp) True,
         d_tontines := (case tontines_list \<lparr>tontines_file = Missing, users_file = Json [new_user 5 ''k1'' ''rAlice'']\<rparr>
            (Some (userId (new_user 5 ''k1'' ''rAlice''))) of Inr ss \<Rightarrow> ss | Inl e \<Rightarrow> d_tontines dashboard_init),
         d_mounted := True\<rparr>)"
    using login_then_dashboard [OF a l, of "\<lparr>ls_user = None, location = []\<rparr>" dashboard_init club_ledger True] by blast
  then show ?thesis by simp
qed

lemma club_ids: "int_str 1000 \<noteq> int_str 2000"
  by code_simp

lemma club_create_page:
  "handle_create_wallet
      \<lparr>cp_name = ''G2'', cp_destination = ''rDest'', cp_scheduled = ''2025-02-01T10:00'', cp_user = ''u2'',
       cp_msg = NoCreateMsg, cp_loading = False, cp_redirect = None\<rparr>
      club_store club_ledger 2000 \<lparr>address = ''rN'', secret = ''sN''\<rparr> True =
    (\<lparr>cp_name = ''G2'', cp_destination = ''rDest'', cp_scheduled = ''2025-02-01T10:00'', cp_user = ''u2'',
      cp_msg = CreatedRedirecting, cp_loading = False, cp_redirect = Some (''/viewTontines?id='' @ int_str 2000)\<rparr>,
     club_store\<lparr>tontines_file := Json [club_record,
       wallet_record 2000 \<lparr>address = ''rN'', secret = ''sN''\<rparr> ''G2'' ''rDest'' ''2025-02-01T10:00'' ''u2'']\<rparr>,
     add_trust_line ''rN'' (fund_account ''rN'' club_ledger))"
  by (simp add: handle_create_wallet_def create_wallet_def club_fresh_wallet club_store_def wallet_record_def)

lemma club_create_fresh: "find_tontine (stored club_store) (int_str 2000) = None"
  using club_ids by (simp add: club_store_def club_record_def wallet_record_def find_tontine_def stored_def)

theorem create_then_view_witness:
  "\<exists>t. vp_details (view_mount view_init (club_store\<lparr>tontines_file := Json [club_record,
       wallet_record 2000 \<lparr>address = ''rN'', secret = ''sN''\<rparr> ''G2'' ''rDest'' ''2025-02-01T10:00'' ''u2'']\<rparr>)
       (add_trust_line ''rN'' (fund_account ''rN'' club_ledger)) (Some (tid t)) True True) = Some t \<and>
     tontineName t = Some ''G2''"
  using create_then_view [OF club_create_page _ club_create_fresh, of view_init True] by auto

theorem created_tontine_view_error_witness:
  "vp_error (view_mount view_init \<lparr>tontines_file = Json [new_tontine ''r'' ''G'' ''30'' ''pw'' ''u1'' 5], users_file = Missing\<rparr>
      club_ledger (Some (tid (new_tontine ''r'' ''G'' ''30'' ''pw'' ''u1'' 5))) True True) = DetailsNetworkError"
proof -
  have c: "create_tontine \<lparr>tontines_file = Missing, users_file = Missing\<rparr> 5 ''r'' (Some ''G'') (Some ''30'') (Some ''pw'') (Some ''u1'') =
      (Inr (new_tontine ''r'' ''G'' ''30'' ''pw'' ''u1'' 5),
       \<lparr>tontines_file = Json [new_tontine ''r'' ''G'' ''30'' ''pw'' ''u1'' 5], users_file = Missing\<rparr>)"
    by (simp add: create_tontine_def Let_def)
  have f: "find_tontine (stored \<lparr>tontines_file = Missing, users_file = Missing\<rparr>) (tid (new_tontine ''r'' ''G'' ''30'' ''pw'' ''u1'' 5)) = None"
    by (simp add: stored_def find_tontine_def)
  from created_tontine_view_error [OF c f] show ?thesis by simp
qed

theorem trustline_recipient_untouched_witness:
  "account_lines (snd (handle_add_trustline (view_init\<lparr>vp_details := Some club_record, vp_recipient := ''rX''\<rparr>) club_ledger True)) ''rX''
     = account_lines club_ledger ''rX''"
proof -
  obtain vp' L' where h: "handle_add_trustline (view_init\<lparr>vp_details := Some club_record, vp_recipient := ''rX''\<rparr>) club_ledger True = (vp', L')"
    by fastforce
  have d: "vp_details (view_init\<lparr>vp_details := Some club_record, vp_recipient := ''rX''\<rparr>) = Some club_record" by simp
  have w: "wallet club_record = Some \<lparr>address = ''rW'', secret = ''sW''\<rparr>"
    by (simp add: club_record_def wallet_record_def club_wallet_def)
  have n: "seed_address club_ledger (secret \<lparr>address = ''rW'', secret = ''sW''\<rparr>) \<noteq>
           Some (vp_recipient (view_init\<lparr>vp_details := Some club_record, vp_recipient := ''rX''\<rparr>))"
    by (simp add: club_ledger_def)
  from trustline_recipient_untouched [OF h d w n] h show ?thesis by simp
qed

theorem transfer_page_results_witness:
  "tp_results (fst (transfer_mount (\<lambda>_. Some 0) 10 demo_store demo_ledger True)) = [(''1'', demo_receipt)] \<and>
   list_all (\<lambda>(i, r). \<exists>t \<in> set (stored (fst (snd (transfer_mount (\<lambda>_. Some 0) 10 demo_store demo_ledger True)))).
       tid t = i \<and> status t = Some Completed \<and> txResult t = Some r)
     (tp_results (fst (transfer_mount (\<lambda>_. Some 0) 10 demo_store demo_ledger True)))"
proof -
  obtain tp st' L' where m: "transfer_mount (\<lambda>_. Some 0) 10 demo_store demo_ledger True = (tp, st', L')" by (cases "transfer_mount (\<lambda>_. Some 0) 10 demo_store demo_ledger True") auto
  have "tp_results tp = [(''1'', demo_receipt)]" using m settle_demo by (auto simp: transfer_mount_def)
  with transfer_page_results [OF m] m show ?thesis by simp
qed

end
