(* ===== verification/Render.thy ===== *)
theory Render
  imports Pages
begin

text \<open>
  What the pages show: the JSX of each page as a function from the page's state to the
  elements it renders, in document order, each with the text it shows. Class names,
  animation props, placeholders and the \<open><style jsx>\<close> blocks carry no data and are
  dropped. A render that throws (a property read on \<open>null\<close>) is None; a component that
  returns \<open>null\<close> renders the empty list. Text is UTF-8: the emoji and accented letters of
  the source are written as their bytes. The text of a route's \<open>data.error\<close> is kept as
  the route's error, and \<open>JSON.stringify(result.txResult)\<close> as the receipt. The date of a
  \<open>TontineCard\<close>, \<open>new Date(s).toLocaleString()\<close>, is the date parser of the settlement
  model followed by a locale formatter \<open>loc\<close>.
\<close>

datatype node =
    Txt string                 \<comment> \<open>an element's text\<close>
  | Err string api_error       \<comment> \<open>a prefix, then the route's \<open>data.error\<close>\<close>
  | TxJson string receipt      \<comment> \<open>a prefix, then \<open>JSON.stringify\<close> of the receipt\<close>
  | Btn string bool            \<comment> \<open>a button: its label and \<open>disabled\<close>\<close>
  | Card string "node list"    \<comment> \<open>a \<open>TontineCard\<close>: its \<open>id\<close> prop and its content\<close>
  | Item "node list"           \<comment> \<open>an \<open><li>\<close> of a list\<close>

type_synonym locale_fmt = "time \<Rightarrow> string"

subsection \<open>UTF-8 text\<close>

definition cross_mark :: string where "cross_mark = [CHR 0xE2, CHR 0x9D, CHR 0x8C]"
definition hourglass :: string where "hourglass = [CHR 0xE2, CHR 0x8F, CHR 0xB3]"
definition warning_sign :: string where "warning_sign = [CHR 0xE2, CHR 0x9A, CHR 0xA0]"
definition check_mark :: string where "check_mark = [CHR 0xE2, CHR 0x9C, CHR 0x85]"
definition e_acute :: string where "e_acute = [CHR 0xC3, CHR 0xA9]"

subsection \<open>Login page (\<open>src/src/app/login/page.js\<close>)\<close>

definition login_text :: "login_msg \<Rightarrow> node list" where
  \<comment> \<open>\<open>{error && <p className="error-message">{error}</p>}\<close>\<close>
  "login_text m = (case m of
     NoLoginMsg \<Rightarrow> []
   | EnterAddress \<Rightarrow> [Txt ''Veuillez entrer une adresse de wallet.'']
   | LoginServerError e \<Rightarrow> [Err [] e]
   | LoginNetworkError \<Rightarrow> [Txt (''Une erreur r'' @ e_acute @ ''seau s'' @ [CHR 0x27] @ ''est produite.'')])"

definition render_login :: "bool \<Rightarrow> login_page \<Rightarrow> node list" where
  \<comment> \<open>\<open>if (!isClient) return null\<close>: \<open>isClient\<close> is set by the page's first effect\<close>
  "render_login client lp =
     (if \<not> client then [] else [Txt ''Sign In'', Btn ''Log In'' False] @ login_text (lp_error lp))"

subsection \<open>Dashboard (\<open>src/src/app/page.js\<close>)\<close>

definition status_text :: "tstatus option \<Rightarrow> string" where
  \<comment> \<open>the stored \<open>status\<close> string; \<open>undefined\<close> renders nothing\<close>
  "status_text s = (case s of Some Active \<Rightarrow> ''active'' | Some Completed \<Rightarrow> ''completed'' | None \<Rightarrow> [])"

definition date_text :: "date_parser \<Rightarrow> locale_fmt \<Rightarrow> string option \<Rightarrow> string" where
  \<comment> \<open>\<open>new Date(s).toLocaleString()\<close>: an absent or unparsable time is \<open>Invalid Date\<close>\<close>
  "date_text dp loc s = (case s of None \<Rightarrow> ''Invalid Date''
     | Some x \<Rightarrow> (case dp x of None \<Rightarrow> ''Invalid Date'' | Some t \<Rightarrow> loc t))"

definition tontine_card :: "date_parser \<Rightarrow> locale_fmt \<Rightarrow> summary \<Rightarrow> node" where
  "tontine_card dp loc s =
     Card (s_id s) [Txt (case s_tontineName s of None \<Rightarrow> [] | Some n \<Rightarrow> n),
                    Txt (''Status: '' @ status_text (s_status s)),
                    Txt (''Scheduled: '' @ date_text dp loc (s_scheduledTime s))]"

definition render_dashboard :: "date_parser \<Rightarrow> locale_fmt \<Rightarrow> dashboard \<Rightarrow> node list" where
  \<comment> \<open>\<open>if (!mounted) return null\<close>, then the header, the overview and the two actions\<close>
  "render_dashboard dp loc d =
     (if \<not> d_mounted d then []
      else [Txt (''Logged in as: '' @ (case d_user d of Some u \<Rightarrow> walletAddress u | None \<Rightarrow> ''...'')),
            Txt ''Tontine Dashboard'', Btn ''Light Mode'' False, Btn ''Logout'' False,
            Txt ''Overview'', Txt ''Your Wallet Balance'',
            Txt (''XRP: '' @ fst (d_balance d)), Txt (''RLUSD: '' @ snd (d_balance d)),
            Txt ''Your Tontines''] @
           (if d_tontines d = [] then [Txt ''No tontines available'']
            else map (tontine_card dp loc) (d_tontines d)) @
           [Txt ''Want to Join a Tontine?'', Btn ''Join a Tontine'' False, Btn ''Create a Tontine'' False])"

fun cards :: "node list \<Rightarrow> string list" where
  \<comment> \<open>the \<open>id\<close> props of the rendered cards, in order\<close>
  "cards [] = []"
| "cards (Card i ns # xs) = i # cards xs"
| "cards (x # xs) = cards xs"

subsection \<open>Create page (\<open>src/src/app/create-tontine/page.js\<close>)\<close>

definition create_text :: "create_msg \<Rightarrow> node list" where
  "create_text m = (case m of
     NoCreateMsg \<Rightarrow> []
   | PleaseLogIn \<Rightarrow> [Txt (warning_sign @ '' Please log in again.'')]
   | CreateFillAll \<Rightarrow> [Txt (cross_mark @ '' Please fill in all fields.'')]
   | CreatingWallet \<Rightarrow> [Txt (hourglass @ '' Creation of the depositary wallet in progress...'')]
   | CreateServerError e \<Rightarrow> [Err (cross_mark @ '' Erreur: '') e]
   | CreatedRedirecting \<Rightarrow>
       [Txt (check_mark @ '' Wallet depository and Trustline created successfully! REDIRECTION ...'')]
   | CreateNetworkError \<Rightarrow> [Txt (cross_mark @ '' Error during the creation of the wallet.'')])"

definition render_create :: "create_page \<Rightarrow> node list" where
  "render_create cp =
     [Txt ''Create a Tontine'', Btn ''Back to Home'' False, Txt ''Create a New Tontine'',
      Btn (if cp_loading cp then ''Creation...'' else ''Create a depository wallet'') (cp_loading cp)] @
     create_text (cp_msg cp)"

subsection \<open>Join page (\<open>src/src/app/join/page.js\<close>)\<close>

definition join_text :: "join_msg \<Rightarrow> node list" where
  "join_text m = (case m of
     NoJoinMsg \<Rightarrow> []
   | JoinFillAll \<Rightarrow> [Txt (cross_mark @ '' Please fill in all fields.'')]
   | Adding \<Rightarrow> [Txt (hourglass @ '' Adding...'')]
   | Joined \<Rightarrow> [Txt (check_mark @ '' Success! You have joined the tontine. A Trustline has been created'')]
   | JoinServerError e \<Rightarrow> [Err (cross_mark @ '' Error : '') e]
   | JoinNetworkError \<Rightarrow> [Txt (cross_mark @ '' Network Error'')])"

definition render_join :: "join_page \<Rightarrow> node list" where
  "render_join p =
     [Txt ''Join a Tontine'', Btn (if jp_loading p then ''Adding...'' else ''Join'') (jp_loading p)] @
     join_text (jp_msg p) @ [Btn ''Back to home'' False]"

subsection \<open>Settlement page (\<open>src/src/app/triggerTransfer/page.js\<close>)\<close>

definition transfer_text :: "transfer_msg \<Rightarrow> node" where
  \<comment> \<open>\<open><p className="status-message">{message}</p>\<close>; a success shows the route's message\<close>
  "transfer_text m = (case m of
     Initialising \<Rightarrow> Txt ''Initialisation...''
   | Verifying \<Rightarrow> Txt ''Verification of tontines to be transferred...''
   | TransfersDone \<Rightarrow> Txt (''Transferts effectu'' @ e_acute @ ''s.'')
   | TransferServerError e \<Rightarrow> Err [] e
   | TransferNetworkError \<Rightarrow> Txt ''Error when initiating transfers.'')"

definition result_item :: "outcome \<Rightarrow> node" where
  "result_item r = Item [Txt (''Tontine ID: '' @ fst r), Txt ''Status: completed'', TxJson ''Transaction: '' (snd r)]"

definition render_transfer :: "transfer_page \<Rightarrow> node list" where
  "render_transfer tp =
     [Txt ''Trigger Tontine Transfers'',
      Txt ''Page that executes transactions of expired tontines (In production this will be automated with a crontab)'',
      transfer_text (tp_msg tp)] @
     (if tp_loading tp then [Txt ''Loading...''] else []) @
     (if \<not> tp_loading tp \<and> tp_results tp \<noteq> [] then Txt ''Transfer Results'' # map result_item (tp_results tp) else []) @
     (if \<not> tp_loading tp \<and> tp_results tp = [] then [Txt ''No transfers made. All tontines are up to date.''] else []) @
     [Btn ''Back to Dashboard'' False]"

subsection \<open>Tontine page (\<open>src/BCI/src/app/viewTontines/page.js\<close>)\<close>

definition trustline_text :: "trustline_msg \<Rightarrow> node list" where
  \<comment> \<open>a success shows the \<open>trustline/add\<close> route's message\<close>
  "trustline_text m = (case m of
     NoTrustlineMsg \<Rightarrow> []
   | EnterRecipient \<Rightarrow> [Txt (cross_mark @ ''  Please enter an XRPL address'')]
   | CreatingTrustline \<Rightarrow> [Txt (hourglass @ '' Creation of the trustline in progress...'')]
   | TrustlineExists \<Rightarrow> [Txt (check_mark @ '' Trustline d'' @ e_acute @ ''j'' @ [CHR 0xC3, CHR 0xA0] @ '' existante.'')]
   | TrustlineAdded \<Rightarrow> [Txt (check_mark @ '' Trustline ajout'' @ e_acute @ ''e avec succ'' @ [CHR 0xC3, CHR 0xA8] @ ''s !'')]
   | TrustlineServerError e \<Rightarrow> [Err (cross_mark @ '' Error: '') e]
   | TrustlineRequestFailed \<Rightarrow> [Txt (cross_mark @ '' An error occurred'')])"

definition render_view :: "view_page \<Rightarrow> node list option" where
  \<comment> \<open>\<open>tontineDetails?.wallet.address\<close> is undefined before the details arrive and throws
     on details whose \<open>wallet\<close> is absent; \<open>error\<close> and \<open>trustline\<close> are never rendered\<close>
  "render_view vp =
     (case (case vp_details vp of None \<Rightarrow> Some [] | Some t \<Rightarrow> map_option address (wallet t)) of
       None \<Rightarrow> None
     | Some a \<Rightarrow> Some (
         [Txt (case vp_details vp of None \<Rightarrow> [] | Some t \<Rightarrow> (case tontineName t of None \<Rightarrow> [] | Some n \<Rightarrow> n)),
          Btn ''Back to Home'' False,
          Txt (''Wallet of the Tontine: '' @ a),
          Txt (''XRP Balance: '' @ fst (vp_balance vp)),
          Txt (''RLUSD Balance: '' @ snd (vp_balance vp)),
          Txt ''Create an additional Trustline for an external user'',
          Btn (if vp_loading_tl vp then ''Adding...'' else ''Create Trustline'') (vp_loading_tl vp)] @
         trustline_text (vp_tl_msg vp)))"

subsection \<open>Unused components and the root layout\<close>

text \<open>\<open>src/BCI/src/app/components\<close> holds a second \<open>TontineCard\<close> (name and cycle size) and a
  \<open>LoadingSpinner\<close>; no page imports them. The root layout of \<open>src/BCI/src/app\<close> wraps the
  page in \<open><html><body>\<close> and adds nothing the user reads.\<close>

definition bci_tontine_card :: "string option \<Rightarrow> int option \<Rightarrow> node" where
  \<comment> \<open>\<open><h3>{name}</h3><p>{cycleSize} days</p>\<close>; an absent or \<open>null\<close> prop renders nothing\<close>
  "bci_tontine_card n c =
     Item [Txt (case n of None \<Rightarrow> [] | Some x \<Rightarrow> x),
           Txt ((case c of None \<Rightarrow> [] | Some k \<Rightarrow> int_str k) @ '' days'')]"

definition loading_spinner :: node where
  \<comment> \<open>two nested \<open>div\<close>s styled as a spinner, with no text\<close>
  "loading_spinner = Item [Item []]"

definition render_layout :: "node list \<Rightarrow> node list" where
  \<comment> \<open>\<open><html lang="en"><body>{children}</body></html>\<close>\<close>
  "render_layout children = children"

subsection \<open>Properties\<close>

lemma cards_append [simp]: "cards (xs @ ys) = cards xs @ cards ys"
  by (induction xs rule: cards.induct) auto

lemma cards_map_card [simp]: "cards (map (tontine_card dp loc) ss) = map s_id ss"
  by (induction ss) (auto simp: tontine_card_def)

lemma find_tontine_tid: "t \<in> set ts \<Longrightarrow> \<exists>t'. find_tontine ts (tid t) = Some t' \<and> tid t' = tid t"
  by (induction ts) (auto simp: find_tontine_def)

lemma view_mount_found:
  "tontines_file st = Json ts \<Longrightarrow> t \<in> set ts \<Longrightarrow> tid t \<noteq> [] \<Longrightarrow>
   \<exists>t'. vp_details (view_mount vp st L (Some (tid t)) True nb) = Some t' \<and> tid t' = tid t"
  by (drule find_tontine_tid [of t ts])
     (auto simp: view_mount_def tontine_details_def split: option.splits)

lemma dashboard_mount_Json:
  "ls_user br = Some u \<Longrightarrow> userId u \<noteq> [] \<Longrightarrow> tontines_file st = Json ts \<Longrightarrow>
   d_tontines (snd (dashboard_mount br d st L nb True)) = map summarize (filter (\<lambda>t. userId u \<in> set (members t)) ts) \<and>
   d_mounted (snd (dashboard_mount br d st L nb True))"
  by (simp add: dashboard_mount_def shown_tontines_def tontines_list_def)

text \<open>A tontine made by create-tontine stores \<open>name\<close>, not \<open>tontineName\<close>, and neither a
  status nor a scheduled time: its dashboard card has an empty title, an empty status and the
  date \<open>Invalid Date\<close>.\<close>

lemma created_tontine_card:
  assumes "create_tontine st now rnd fn fc fp fcr = (Inr t, st')"
  shows "tontine_card dp loc (summarize t) = Card (tid t) [Txt [], Txt ''Status: '', Txt ''Scheduled: Invalid Date'']"
  using assms
  by (auto simp: create_tontine_def new_tontine_def summarize_def tontine_card_def status_text_def date_text_def
      Let_def split: if_splits sum.splits)

text \<open>The unused card of \<open>components/TontineCard.js\<close> reads the fields create-tontine
  stores: for a tontine made by create-tontine it shows the name and the parsed cycle size.\<close>

lemma created_tontine_bci_card:
  assumes "create_tontine st now rnd (Some n) (Some c) fp fcr = (Inr t, st')"
  shows "bci_tontine_card (name t) (cycleSize t) =
           Item [Txt n, Txt ((case js_parse_int c of None \<Rightarrow> [] | Some k \<Rightarrow> int_str k) @ '' days'')]"
  using assms
  by (auto simp: create_tontine_def new_tontine_def bci_tontine_card_def Let_def split: if_splits sum.splits)

text \<open>C26: The tontine page of a tontine made by create-tontine cannot be displayed: the
  details arrive and are stored in the page's state, and rendering them reads
  \<open>tontineDetails?.wallet.address\<close> on a record whose wallet is absent, which throws.\<close>

theorem created_tontine_page_crashes:
  assumes "create_tontine st now rnd fn fc fp fcr = (Inr t, st')" "find_tontine (stored st) (tid t) = None"
  shows "render_view (view_mount vp st' L (Some (tid t)) True nb) = None"
  using Pages.create_tontine_details [OF assms] by (simp add: view_mount_def render_view_def)

text \<open>C29: What the tontine page shows depends on its state only through the tontine's name,
  its wallet address, the balances, the trust line message and the loading flag: the wallet's
  secret, the password, the members, the error message and the recipient never reach the
  screen.\<close>

theorem view_observes:
  assumes "map_option tontineName (vp_details vp) = map_option tontineName (vp_details vp')"
    and "map_option (\<lambda>t. map_option address (wallet t)) (vp_details vp) =
         map_option (\<lambda>t. map_option address (wallet t)) (vp_details vp')"
    and "vp_balance vp = vp_balance vp'" "vp_tl_msg vp = vp_tl_msg vp'" "vp_loading_tl vp = vp_loading_tl vp'"
  shows "render_view vp = render_view vp'"
  using assms
  by (cases "vp_details vp"; cases "vp_details vp'")
     (auto simp: render_view_def split: option.splits)

text \<open>C27: Every failure of the tontine page's details request (no id, a request that does not
  reach the server, an error answer) is recorded in \<open>error\<close>, and the page renders exactly
  as before the request: the JSX never shows \<open>error\<close>.\<close>

theorem view_errors_hidden:
  assumes "\<not> truthy fid \<or> \<not> nd \<or> isl (tontine_details st fid)"
  shows "vp_error (view_mount view_init st L fid nd nb) \<noteq> NoViewMsg \<and>
         render_view (view_mount view_init st L fid nd nb) = render_view view_init"
  using assms by (auto simp: view_mount_def view_init_def render_view_def split: sum.splits)

text \<open>C28: After the dashboard mounts for a user, it shows one card per stored tontine the
  user is a member of, in the file's order, and \<open>No tontines available\<close> exactly when there
  is none; clicking a card with an id opens the tontine page of that id, which finds a
  tontine with that id.\<close>

theorem dashboard_cards:
  assumes "ls_user br = Some u" "userId u \<noteq> []" "tontines_file st = Json ts"
  shows "let R = render_dashboard dp loc (snd (dashboard_mount br d st L nb True)) in
         cards R = map tid (filter (\<lambda>t. userId u \<in> set (members t)) ts) \<and>
         (Txt ''No tontines available'' \<in> set R \<longleftrightarrow> filter (\<lambda>t. userId u \<in> set (members t)) ts = []) \<and>
         (\<forall>i \<in> set (cards R). i \<noteq> [] \<longrightarrow> location (card_click br i) = ''/viewTontines?id='' @ i \<and>
            (\<exists>t. vp_details (view_mount vp st L' (Some i) True nb') = Some t \<and> tid t = i))"
proof -
  let ?M = "filter (\<lambda>t. userId u \<in> set (members t)) ts"
  have d: "d_tontines (snd (dashboard_mount br d st L nb True)) = map summarize ?M"
      "d_mounted (snd (dashboard_mount br d st L nb True))"
    using dashboard_mount_Json [OF assms] by auto
  have "cards (render_dashboard dp loc (snd (dashboard_mount br d st L nb True))) = map s_id (map summarize ?M)"
    using d by (simp add: render_dashboard_def del: map_map)
  then have c: "cards (render_dashboard dp loc (snd (dashboard_mount br d st L nb True))) = map tid ?M"
    by (simp add: summarize_def)
  have n: "Txt ''No tontines available'' \<in> set (render_dashboard dp loc (snd (dashboard_mount br d st L nb True)))
           \<longleftrightarrow> ?M = []"
    using d by (auto simp: render_dashboard_def tontine_card_def)
  have "\<forall>i \<in> set (map tid ?M). i \<noteq> [] \<longrightarrow>
          (\<exists>t. vp_details (view_mount vp st L' (Some i) True nb') = Some t \<and> tid t = i)"
    using view_mount_found [OF assms(3)] by auto
  with c n show ?thesis by (simp add: card_click_def Let_def)
qed

text \<open>C31: The join page's submit button tracks its pending request: in every state the page
  reaches from its initial state, the button is enabled and reads \<open>Join\<close> when no request is
  pending, and is disabled and reads \<open>Adding...\<close> while one is.\<close>

theorem join_button_tracks_pending:
  "render_join (fst (join_page_run (join_page_init, st, L) es)) ! 1 =
     (if jp_pending (fst (join_page_run (join_page_init, st, L) es)) = None then Btn ''Join'' False
      else Btn ''Adding...'' True)"
proof -
  have "join_page_ok (fst (join_page_run (join_page_init, st, L) es))"
    using join_page_run_ok [of "(join_page_init, st, L)" es] join_page_init_ok by simp
  then show ?thesis by (simp add: render_join_def join_page_ok_def)
qed

text \<open>C30: When the settlement route answers an error, the settlement page shows the error
  and, below it, \<open>No transfers made. All tontines are up to date.\<close>, although the pass did
  not run or was aborted.\<close>

theorem transfer_error_up_to_date:
  assumes "fst (trigger_transfer dp now st L) = Inl e"
  shows "render_transfer (fst (transfer_mount dp now st L True)) =
     [Txt ''Trigger Tontine Transfers'',
      Txt ''Page that executes transactions of expired tontines (In production this will be automated with a crontab)'',
      Err [] e, Txt ''No transfers made. All tontines are up to date.'', Btn ''Back to Dashboard'' False]"
  using assms
  by (cases "trigger_transfer dp now st L")
     (simp add: transfer_mount_def render_transfer_def transfer_text_def)

text \<open>C23: Create then see: after the create page's request succeeds and the browser
  follows its redirect, the tontine page renders the name that was typed, the new wallet's
  address and its balances as the balance route reports them, unless an earlier record has
  the same id (one created in the same millisecond).\<close>

theorem create_then_page_shows:
  assumes "handle_create_wallet cp st L now gen True = (cp', st', L')" "cp_msg cp' = CreatedRedirecting"
    and "find_tontine (stored st) (int_str now) = None"
  shows "\<exists>w::wallet. cp_redirect cp' = Some (''/viewTontines?id='' @ int_str now) \<and>
           render_view (view_mount view_init st' L' (Some (int_str now)) True nb) =
             Some [Txt (cp_name cp), Btn ''Back to Home'' False, Txt (''Wallet of the Tontine: '' @ address w),
                   Txt (''XRP Balance: '' @ fst (view_balance L' (address w) nb)),
                   Txt (''RLUSD Balance: '' @ snd (view_balance L' (address w) nb)),
                   Txt ''Create an additional Trustline for an external user'', Btn ''Create Trustline'' False]"
proof -
  from Pages.create_page_record [OF assms] obtain w where
    r: "cp_redirect cp' = Some (''/viewTontines?id='' @ int_str now)" and
    d: "tontine_details st' (Some (int_str now)) =
          Inr (wallet_record now w (cp_name cp) (cp_destination cp) (cp_scheduled cp) (cp_user cp))"
    by blast
  have "view_mount view_init st' L' (Some (int_str now)) True nb =
          view_init\<lparr>vp_details := Some (wallet_record now w (cp_name cp) (cp_destination cp) (cp_scheduled cp) (cp_user cp)),
                    vp_balance := view_balance L' (address w) nb\<rparr>"
    using d by (simp add: view_mount_def wallet_record_def)
  with r show ?thesis
    by (intro exI [of _ w]) (simp add: view_init_def render_view_def wallet_record_def trustline_text_def)
qed

subsection \<open>Witnesses\<close>

theorem created_tontine_page_crashes_witness:
  "render_view (view_mount view_init \<lparr>tontines_file = Json [new_tontine ''r'' ''G'' ''30'' ''pw'' ''u1'' 5], users_file = Missing\<rparr>
      club_ledger (Some (tid (new_tontine ''r'' ''G'' ''30'' ''pw'' ''u1'' 5))) True True) = None"
proof -
  have c: "create_tontine \<lparr>tontines_file = Missing, users_file = Missing\<rparr> 5 ''r'' (Some ''G'') (Some ''30'') (Some ''pw'') (Some ''u1'') =
      (Inr (new_tontine ''r'' ''G'' ''30'' ''pw'' ''u1'' 5),
       \<lparr>tontines_file = Json [new_tontine ''r'' ''G'' ''30'' ''pw'' ''u1'' 5], users_file = Missing\<rparr>)"
    by (simp add: create_tontine_def Let_def)
  have f: "find_tontine (stored \<lparr>tontines_file = Missing, users_file = Missing\<rparr>) (tid (new_tontine ''r'' ''G'' ''30'' ''pw'' ''u1'' 5)) = None"
    by (simp add: stored_def find_tontine_def)
  from created_tontine_page_crashes [OF c f] show ?thesis .
qed

theorem view_observes_witness:
  "render_view (view_init\<lparr>vp_details := Some club_record\<rparr>) =
   render_view (view_init\<lparr>vp_details := Some (club_record\<lparr>wallet := Some \<lparr>address = ''rW'', secret = ''sX''\<rparr>,
                  password := Some ''pw'', members := [''u1'', ''u2'']\<rparr>), vp_error := IdMissing\<rparr>)"
  by (rule view_observes) (simp_all add: club_record_def wallet_record_def club_wallet_def)

theorem view_errors_hidden_witness:
  "vp_error (view_mount view_init club_store club_ledger None True True) \<noteq> NoViewMsg \<and>
   render_view (view_mount view_init club_store club_ledger None True True) = render_view view_init"
  by (rule view_errors_hidden) simp

theorem dashboard_cards_witness:
  "let R = render_dashboard (\<lambda>_. Some 0) (\<lambda>_. ''1/1/2025'')
             (snd (dashboard_mount \<lparr>ls_user = Some \<lparr>userId = ''u1'', walletAddress = ''rU'', sessionToken = ''k''\<rparr>, location = ''/''\<rparr>
                dashboard_init club_store club_ledger True True)) in
   cards R = map tid (filter (\<lambda>t. ''u1'' \<in> set (members t)) [club_record]) \<and>
   (Txt ''No tontines available'' \<in> set R \<longleftrightarrow> filter (\<lambda>t. ''u1'' \<in> set (members t)) [club_record] = []) \<and>
   (\<forall>i \<in> set (cards R). i \<noteq> [] \<longrightarrow>
      location (card_click \<lparr>ls_user = Some \<lparr>userId = ''u1'', walletAddress = ''rU'', sessionToken = ''k''\<rparr>, location = ''/''\<rparr> i) =
        ''/viewTontines?id='' @ i \<and>
      (\<exists>t. vp_details (view_mount view_init club_store club_ledger (Some i) True True) = Some t \<and> tid t = i))"
  using dashboard_cards [of "\<lparr>ls_user = Some \<lparr>userId = ''u1'', walletAddress = ''rU'', sessionToken = ''k''\<rparr>, location = ''/''\<rparr>"
      "\<lparr>userId = ''u1'', walletAddress = ''rU'', sessionToken = ''k''\<rparr>" club_store "[club_record]"]
  by (simp add: club_store_def)

theorem transfer_error_up_to_date_witness:
  "render_transfer (fst (transfer_mount (\<lambda>_. Some 0) 10 \<lparr>tontines_file = Garbage, users_file = Missing\<rparr> demo_ledger True)) =
     [Txt ''Trigger Tontine Transfers'',
      Txt ''Page that executes transactions of expired tontines (In production this will be automated with a crontab)'',
      Err [] (Internal ParseError), Txt ''No transfers made. All tontines are up to date.'', Btn ''Back to Dashboard'' False]"
  by (rule transfer_error_up_to_date) (simp add: trigger_transfer_def)


theorem create_then_page_shows_witness:
  "\<exists>w::wallet. render_view (view_mount view_init (club_store\<lparr>tontines_file := Json [club_record,
       wallet_record 2000 \<lparr>address = ''rN'', secret = ''sN''\<rparr> ''G2'' ''rDest'' ''2025-02-01T10:00'' ''u2'']\<rparr>)
       (add_trust_line ''rN'' (fund_account ''rN'' club_ledger)) (Some (int_str 2000)) True True) =
     Some [Txt ''G2'', Btn ''Back to Home'' False, Txt (''Wallet of the Tontine: '' @ address w),
           Txt (''XRP Balance: '' @ fst (view_balance (add_trust_line ''rN'' (fund_account ''rN'' club_ledger)) (address w) True)),
           Txt (''RLUSD Balance: '' @ snd (view_balance (add_trust_line ''rN'' (fund_account ''rN'' club_ledger)) (address w) True)),
           Txt ''Create an additional Trustline for an external user'', Btn ''Create Trustline'' False]"
  using create_then_page_shows [OF club_create_page _ club_create_fresh, of True] by auto

end
