(* ===== verification/Spec2Isabelle.thy ===== *)
theory Spec2Isabelle
  imports Settlement Membership Auth Queries Wallets PaymentClient Cycles Escrow Render
begin

text \<open>
  \<^bold>\<open>Tontine coordination engine: a verification development.\<close>

  The repository is a Next.js application in two source trees, \<open>src/BCI/src\<close> and
  \<open>src/src\<close>. Its engine is a set of API route handlers that read and write two JSON
  files (\<open>data/tontines.json\<close>, \<open>data/users.json\<close>, the Durable Store) and call the XRP
  Ledger testnet through the \<open>xrpl\<close> library (the Ledger Gateway). The handlers share no
  memory except the files, the ledger, and the module-level client of
  \<open>lib/xrpClient.js\<close>. Every handler is modelled as a function from the store and the
  ledger (and the request fields, \<open>Date.now()\<close> and random values as parameters) to the
  response and the new store and ledger; a thrown exception is an \<open>Inl\<close> value.

  \<^bold>\<open>Theories.\<close>
  \<^item> \<open>Prelude\<close>: JavaScript semantics the handlers rely on (truthiness of request fields,
    \<open>Array.find\<close> then in-place mutation as \<open>upd_first\<close>, ASCII \<open>toUpperCase\<close>,
    \<open>parseInt\<close>, \<open>String(n)\<close>), the four states of a data file, the exceptions and the API
    errors with their HTTP status codes.
  \<^item> \<open>Currency\<close>: \<open>toHexCurrency\<close> of \<open>utils/xrplService.js\<close> and its copies in the
    trust-line and balance routes; lemmas: its output is 40 upper-case hex digits, it is
    idempotent, a code decodes back from its encoding, and trailing NULs collide.
  \<^item> \<open>Ledger\<close>: the ledger state (trust lines per account, network failures, the
    seed-to-address map, engine results) and the services \<open>getRLUSDBalance\<close>,
    \<open>transferFunds\<close>, \<open>createTemporaryWallet\<close> and the \<open>trustline/add\<close> route.
  \<^item> \<open>Store\<close>: the tontine and user records with every field a handler reads or writes,
    and the lookup by id.
  \<^item> \<open>Settlement\<close>: the \<open>triggerTransfer\<close> GET handler (the settlement pass) and the pass
    the specification describes; lemmas: refinement of the specified pass when the handler
    returns normally, monotone status, gating by the scheduled time; in any file, an unfunded
    group (one whose wallet no tontine pays into) is left as it was, never makes the pass
    fail and stays due for the next pass (the ledger lemmas \<open>adjust_same\<close> and
    \<open>transfer_funds_balance\<close> show that a pass never raises the balance of an account it
    does not pay into); and any failure aborts the whole pass with no write although funds
    may have moved, where the specified pass completes and writes the groups it paid.
  \<^item> \<open>Membership\<close>: \<open>create-tontine\<close>, \<open>createWallet\<close>, \<open>join-tontine\<close> and \<open>join\<close>;
    lemmas: join refines an update at the id, joining twice is rejected, trust-line
    failure writes nothing, names stay distinct under create-tontine, createWallet has no
    duplicate-name check.
  \<^item> \<open>Auth\<close>: \<open>POST /api/auth\<close>; login is idempotent and keeps addresses distinct; user
    ids collide within a millisecond.
  \<^item> \<open>Queries\<close>: the read-only tontine routes; the details route exposes the wallet secret.
  \<^item> \<open>Wallets\<close>: the four balance routes; the inline lookup of \<open>wallet\<close> equals the
    service; the routes disagree on a line written \<open>RLUSD\<close>; issuers are compared
    case-insensitively.
  \<^item> \<open>PaymentClient\<close>: \<open>lib/xrpClient.js\<close> and the \<open>send-rlsud\<close>, \<open>record-payment\<close> and
    \<open>create-trustline\<close> routes. Each call is three awaited steps on the one shared client
    (connect, submit, disconnect in \<open>finally\<close>); the inductive \<open>xstep\<close> interleaves any
    number of calls. Lemmas: a connection is always released once all calls end (rule
    induction over the interleavings), two concurrent calls can disconnect the client under
    each other, and the routes never reach the ledger because \<open>RLUSD\<close> is not an encodable
    currency code.
  \<^item> \<open>Cycles\<close>: the classes \<open>Tontine\<close>, \<open>TontineMaster\<close>, \<open>TontineUser\<close> and the
    \<open>add-member\<close> route, with JavaScript objects as association lists (\<open>HOL-Library.AList\<close>)
    and the inherited properties of \<open>Object.prototype\<close>. Lemmas: member keys stay distinct
    under any sequence of calls, add then remove is the identity, validatePayments resets a
    fully paid cycle, an empty tontine completes cycles, ids in the same millisecond
    overwrite, prototype names are rejected.
  \<^item> \<open>Escrow\<close>: the unused helpers of \<open>lib/xrplHelpers.js\<close> with an XRP ledger of balances,
    sequences and escrows; the escrow is to self and returns its amount, clients leak on
    every throw, and \<open>FinishAfter\<close> given as a UNIX time delays release by 30 years.
  \<^item> \<open>Pages\<close>: the client side. Each page of \<open>src/src/app\<close> and \<open>src/BCI/src/app\<close>
    (login, dashboard, create, join, settlement, tontine page), the root layout's guard and
    \<open>checkAuth\<close>, as handlers over the browser state (\<open>localStorage\<close> user and router
    target) and the page's own state, calling the route models above; the join page is an
    event machine (typing, submit, response) with its pending request. Lemmas: every pending
    join request is answered (liveness), login leads to the dashboard of the typed address,
    a created tontine is shown by the page the create page redirects to, the tontine page
    misreports a wallet-less record as a network error and never touches the recipient it
    asks for, and the settlement page lists completed tontines only.
  \<^item> \<open>Render\<close>: what the pages show. The JSX of each page (and of the dashboard's \<open>TontineCard\<close>) is a
    function from the page's state to the list of elements it renders, with their text
    (the messages of the source byte for byte, as UTF-8), the label and \<open>disabled\<close> flag of
    each button, and the cards and result items; a render that throws is None. Lemmas: the
    page of a tontine made by create-tontine throws when it renders, the tontine page shows
    neither the wallet secret nor its own error messages, the dashboard shows one card per
    membership and each card opens a page of its id, the join button follows the pending
    request, a failed settlement pass is shown together with \<open>No transfers made\<close>, and
    after the create page the browser lands on a page showing the typed name, the new
    wallet and its balances. The login page renders nothing until its first effect has set
    \<open>isClient\<close>. The two components of \<open>components/\<close>, which no page imports, and the root
    layout's markup are modelled too; the unused \<open>TontineCard\<close> is the one that reads the
    fields create-tontine stores.
  \<^item> this theory: \<open>sys_step\<close>, one step of the whole server (any of the six handlers that
    write the store, on any request), with three invariants of all reachable states proved by
    rule induction (statuses only go from active to completed; member lists stay free of
    repetitions; an active record keeps its wallet and destination, so that a settlement pass
    on a reachable store never fails for a missing field); the race of two joins that read
    the file before either writes it (spec section 5: the first member is lost); two
    properties across components (a joined or created tontine is listed for its user); and
    \<open>app_step\<close>, one step of the whole application as one browser sees it (a request of
    any client, or one handler of a page of \<open>Pages\<close> on any state of that page): every
    page step changes the store only as a server request does, and the user the browser
    keeps in \<open>localStorage\<close> is always the user the auth route returns for its wallet
    address.

  \<^bold>\<open>Parameters and oracles.\<close> The ledger's answers (which accounts exist, which requests
  fail at the network, the engine result of each Payment or TrustSet, the XRP balance) are
  fields of the ledger record, chosen freely; the protocol effects of validated transactions
  are written out (debit and credit of the issued lines, a new trust line, the faucet).
  \<open>Date.now()\<close>, \<open>Math.random()\<close> and \<open>Wallet.generate()\<close> are arguments. The
  \<open>scheduledTime\<close> string is read by a date parser given as a parameter. No loop of the code
  runs unboundedly: the settlement pass recurses over the stored list, the client calls take
  three straight-line steps (run with fuel 3, after which \<open>call_result_eq\<close> gives the
  result in closed form). A page's \<open>fetch\<close> either
  reaches the server (the route model runs) or rejects before it (a boolean parameter).

  \<^bold>\<open>Not modelled.\<close> The pages' styles (\<open><style jsx>\<close> blocks, class names, animation
  props) and input placeholders, which decide how elements look and not which elements or
  text a page shows; the XRPL library and network beyond the answers above (fees, reserves,
  ledger closes), file system failures other than a missing, blank or malformed file, and the
  interleaving of
  handlers other than the joins and the payment client.
\<close>

section \<open>The system: every request that changes the store\<close>

text \<open>One step of the server: one of the handlers that write the tontine file or the users
  file runs to its end, on any request. \<open>joinTontine\<close> and \<open>join\<close> are the two join
  routes, \<open>settle\<close> is a settlement pass.\<close>

inductive sys_step :: "store \<times> ledger \<Rightarrow> store \<times> ledger \<Rightarrow> bool" where
  createTontine: "create_tontine st now rnd fn fc fp fcr = (r, st') \<Longrightarrow> sys_step (st, L) (st', L)"
| createWallet: "create_wallet st L now gen fn fd fs fu = (q, st', L') \<Longrightarrow> sys_step (st, L) (st', L')"
| joinTontine: "join_tontine st fi fu = (r, st') \<Longrightarrow> sys_step (st, L) (st', L)"
| join: "join_trustline st L fi fu = (r, st', L') \<Longrightarrow> sys_step (st, L) (st', L')"
| settle: "trigger_transfer dp now st L = (s, st', L') \<Longrightarrow> sys_step (st, L) (st', L')"
| auth: "login st now rnd fwa = (a, st') \<Longrightarrow> sys_step (st, L) (st', L)"

inductive_cases sys_stepE: "sys_step x y"

text \<open>How the stored tontines of one state relate to those of a later one: the earlier
  ones keep their places, and each one's status is the same or went from active to
  completed.\<close>

definition status_step :: "tontine \<Rightarrow> tontine \<Rightarrow> bool" where
  "status_step t t' = (status t' = status t \<or> (status t = Some Active \<and> status t' = Some Completed))"

definition evolves :: "tontine list \<Rightarrow> tontine list \<Rightarrow> bool" where
  "evolves ts ts' = (length ts \<le> length ts' \<and> list_all2 status_step ts (take (length ts) ts'))"

definition members_distinct :: "store \<Rightarrow> bool" where
  "members_distinct st = list_all (\<lambda>t. distinct (members t)) (stored st)"

text \<open>The three ways a step changes the stored tontines when it changes them: a record
  appended by a creation, a member appended to the record a join found, the records a
  settlement pass completed.\<close>

text \<open>The shape of a stored record the settlement pass relies on: an active record has the
  wallet it pays from and the destination it pays to (\<open>tontine.wallet\<close> and
  \<open>tontine.destination\<close> in \<open>triggerTransfer\<close>).\<close>

definition wf_tontine :: "tontine \<Rightarrow> bool" where
  "wf_tontine t = (status t = Some Active \<longrightarrow> wallet t \<noteq> None \<and> destination t \<noteq> None)"

definition wf_store :: "store \<Rightarrow> bool" where
  "wf_store st = list_all wf_tontine (stored st)"

definition appended :: "tontine list \<Rightarrow> tontine list \<Rightarrow> bool" where
  "appended ts ts' = (\<exists>t c. ts' = ts @ [t] \<and> members t = [c] \<and> status t \<noteq> Some Completed \<and> wf_tontine t)"

definition joined_at :: "tontine list \<Rightarrow> tontine list \<Rightarrow> bool" where
  "joined_at ts ts' = (\<exists>i u t. find_tontine ts i = Some t \<and> u \<notin> set (members t) \<and> ts' = joined i u ts)"

definition settled :: "tontine list \<Rightarrow> tontine list \<Rightarrow> bool" where
  "settled ts ts' = (\<exists>dp now. list_all2 (\<lambda>t t'. t' = t \<or> (due dp now t \<and> (\<exists>r. t' = complete now r t))) ts ts')"

section \<open>Concurrent joins\<close>

text \<open>The write \<open>join-tontine\<close> makes, computed from the file as it read it.\<close>

definition join_write :: "store \<Rightarrow> field \<Rightarrow> field \<Rightarrow> tontine list jfile option" where
  "join_write st fid fuser =
     (case join_lookup st fid fuser of Inl e \<Rightarrow> None | Inr (ts, t) \<Rightarrow> Some (Json (joined (the fid) (the fuser) ts)))"

definition apply_writes :: "store \<Rightarrow> tontine list jfile option list \<Rightarrow> store" where
  "apply_writes st ws = foldl (\<lambda>s w. case w of None \<Rightarrow> s | Some f \<Rightarrow> s\<lparr>tontines_file := f\<rparr>) st ws"

text \<open>Requests that all read the file before any of them writes it, then write in order.\<close>

definition concurrent_joins :: "store \<Rightarrow> (field \<times> field) list \<Rightarrow> store" where
  "concurrent_joins st reqs = apply_writes st (map (\<lambda>(fid, fu). join_write st fid fu) reqs)"

definition sequential_joins :: "store \<Rightarrow> (field \<times> field) list \<Rightarrow> store" where
  "sequential_joins st reqs = foldl (\<lambda>s (fid, fu). snd (join_tontine s fid fu)) st reqs"

section \<open>The application: one browser and the server\<close>

text \<open>One step of the whole application, seen from one browser: a request of any client
  reaches the server (\<open>sys_step\<close>), or the browser runs one handler of a page (from
  \<open>Pages\<close>), on any state of that page. The page handlers call the route models
  themselves, so a step of a page can change the store and the ledger. \<open>session_ok\<close>
  says that the user the browser keeps in \<open>localStorage\<close> is the user the server finds
  for that user's wallet address.\<close>

type_synonym app = "browser \<times> store \<times> ledger"

inductive app_step :: "app \<Rightarrow> app \<Rightarrow> bool" where
  server: "sys_step (st, L) (st', L') \<Longrightarrow> app_step (br, st, L) (br, st', L')"
| layout: "app_step (br, st, L) (layout_guard path br, st, L)"
| checkAuth: "app_step (br, st, L) (snd (check_auth br), st, L)"
| loginMount: "app_step (br, st, L) (login_mount br, st, L)"
| loginSubmit: "handle_login br lp st now rnd net = (br', lp', st') \<Longrightarrow> app_step (br, st, L) (br', st', L)"
| dashboardMount: "dashboard_mount br d st L nb nt = (br', d') \<Longrightarrow> app_step (br, st, L) (br', st, L)"
| logout: "app_step (br, st, L) (handle_logout br, st, L)"
| cardClick: "app_step (br, st, L) (card_click br i, st, L)"
| createSubmit: "handle_create_wallet cp st L now gen net = (cp', st', L') \<Longrightarrow>
    app_step (br, st, L) (create_redirect cp' br, st', L')"
| joinEvent: "join_page_step (p, st, L) e = (p', st', L') \<Longrightarrow> app_step (br, st, L) (br, st', L')"
| transferMount: "transfer_mount dp now st L net = (tp, st', L') \<Longrightarrow> app_step (br, st, L) (br, st', L')"
| addTrustline: "handle_add_trustline vp L net = (vp', L') \<Longrightarrow> app_step (br, st, L) (br, st, L')"

definition session_ok :: "app \<Rightarrow> bool" where
  \<comment> \<open>the logged-in user is the stored user of its address\<close>
  "session_ok s = (case ls_user (fst s) of None \<Rightarrow> True
     | Some u \<Rightarrow> walletAddress u \<noteq> [] \<and>
         List.find (\<lambda>v. walletAddress v = walletAddress u) (users (fst (snd s))) = Some u)"

section \<open>Lemmas\<close>

lemma join_tontine_write:
  "snd (join_tontine st fid fuser) = (case join_write st fid fuser of None \<Rightarrow> st | Some f \<Rightarrow> st\<lparr>tontines_file := f\<rparr>)"
  by (simp add: join_tontine_def join_write_def split: sum.splits prod.splits)

lemma list_all2_status_trans:
  "list_all2 status_step xs ys \<Longrightarrow> list_all2 status_step ys zs \<Longrightarrow> list_all2 status_step xs zs"
  by (induction xs arbitrary: ys zs) (auto simp: list_all2_Cons1 status_step_def)

lemma evolves_refl [simp]: "evolves ts ts"
  by (simp add: evolves_def list_all2_refl status_step_def)

lemma evolves_trans:
  assumes "evolves xs ys" "evolves ys zs"
  shows "evolves xs zs"
proof -
  from assms(1) have a: "list_all2 status_step xs (take (length xs) ys)" "length xs \<le> length ys"
    by (auto simp: evolves_def)
  from assms(2) have "list_all2 status_step ys (take (length ys) zs)" by (simp add: evolves_def)
  then have "list_all2 status_step (take (length xs) ys) (take (length xs) (take (length ys) zs))"
    by (rule list_all2_takeI)
  with a(2) have "list_all2 status_step (take (length xs) ys) (take (length xs) zs)"
    by (simp add: min_def)
  with a(1) have "list_all2 status_step xs (take (length xs) zs)"
    by (rule list_all2_status_trans)
  with a(2) assms(2) show ?thesis by (auto simp: evolves_def)
qed

lemma create_tontine_stored:
  "create_tontine st now rnd fn fc fp fcr = (r, st') \<Longrightarrow> stored st' = stored st \<or> appended (stored st) (stored st')"
  by (cases "tontines_file st")
     (auto simp: create_tontine_def stored_def new_tontine_def appended_def wf_tontine_def Let_def split: if_splits)

lemma create_wallet_stored:
  "create_wallet st L now gen fn fd fs fu = (q, st', L') \<Longrightarrow> stored st' = stored st \<or> appended (stored st) (stored st')"
  by (auto simp: create_wallet_def stored_def wallet_record_def appended_def wf_tontine_def Let_def
      split: if_splits prod.splits sum.splits)

lemma join_tontine_stored:
  "join_tontine st fi fu = (r, st') \<Longrightarrow> stored st' = stored st \<or> joined_at (stored st) (stored st')"
  by (force simp: join_tontine_def join_lookup_Inr joined_at_def stored_def split: sum.splits prod.splits)

lemma join_trustline_stored:
  "join_trustline st L fi fu = (r, st', L') \<Longrightarrow> stored st' = stored st \<or> joined_at (stored st) (stored st')"
  by (force simp: join_trustline_def join_lookup_Inr joined_at_def stored_def
      split: sum.splits prod.splits option.splits)

lemma trigger_transfer_settled:
  assumes "trigger_transfer dp now st L = (s, st', L')"
  shows "stored st' = stored st \<or> settled (stored st) (stored st')"
proof (cases "read_trimmed (tontines_file st)")
  case (Inl e)
  then show ?thesis using assms by (simp add: trigger_transfer_def)
next
  case (Inr ts)
  then have "stored st = ts" by (simp add: stored_def)
  with trigger_transfer_pointwise [OF assms Inr] show ?thesis by (auto simp: settled_def)
qed

lemma login_stored: "login st now rnd fwa = (a, st') \<Longrightarrow> stored st' = stored st"
  by (auto simp: login_def stored_def Let_def split: if_splits sum.splits option.splits)

lemma sys_step_stored:
  "sys_step x y \<Longrightarrow> stored (fst y) = stored (fst x) \<or> appended (stored (fst x)) (stored (fst y)) \<or>
     joined_at (stored (fst x)) (stored (fst y)) \<or> settled (stored (fst x)) (stored (fst y))"
  by (induction rule: sys_step.induct)
     (auto dest: create_tontine_stored create_wallet_stored join_tontine_stored join_trustline_stored
        trigger_transfer_settled login_stored)

lemma evolves_same_status:
  "length ts' = length ts \<Longrightarrow> map status ts' = map status ts \<Longrightarrow> evolves ts ts'"
proof -
  assume l: "length ts' = length ts" and m: "map status ts' = map status ts"
  have "status (ts' ! i) = status (ts ! i)" if "i < length ts" for i
    using arg_cong [OF m, of "\<lambda>xs. xs ! i"] that l by simp
  with l show ?thesis by (simp add: evolves_def list_all2_conv_all_nth status_step_def)
qed

lemma appended_evolves: "appended ts ts' \<Longrightarrow> evolves ts ts'"
  by (auto simp: appended_def evolves_def list_all2_refl status_step_def)

lemma joined_evolves: "joined_at ts ts' \<Longrightarrow> evolves ts ts'"
  by (auto simp: joined_at_def joined_def add_member_def map_upd_first intro!: evolves_same_status)

lemma list_all2_map_eq: "list_all2 (\<lambda>x y. f y = f x) xs ys \<Longrightarrow> map f ys = map f xs"
  by (induction rule: list_all2_induct) auto

lemma settled_evolves:
  assumes "settled ts ts'"
  shows "evolves ts ts'"
proof -
  from assms obtain dp now where p: "list_all2 (\<lambda>t t'. t' = t \<or> (due dp now t \<and> (\<exists>r. t' = complete now r t))) ts ts'"
    by (auto simp: settled_def)
  then have "list_all2 status_step ts ts'"
    by (rule list_all2_mono) (auto simp: due_def complete_def status_step_def)
  with list_all2_lengthD [OF p] show ?thesis by (simp add: evolves_def)
qed

lemma sys_step_evolves: "sys_step x y \<Longrightarrow> evolves (stored (fst x)) (stored (fst y))"
  by (auto dest!: sys_step_stored intro: appended_evolves joined_evolves settled_evolves)

lemma list_all_update_in: "list_all P xs \<Longrightarrow> P y \<Longrightarrow> list_all P (xs[i := y])"
  by (auto simp: list_all_iff dest: set_update_subset_insert [THEN subsetD])

lemma joined_distinct:
  "joined_at ts ts' \<Longrightarrow> list_all (\<lambda>t. distinct (members t)) ts \<Longrightarrow> list_all (\<lambda>t. distinct (members t)) ts'"
proof -
  assume j: "joined_at ts ts'" and d: "list_all (\<lambda>t. distinct (members t)) ts"
  then obtain i u t where f: "find_tontine ts i = Some t" "u \<notin> set (members t)" "ts' = joined i u ts"
    by (auto simp: joined_at_def)
  then obtain k where "ts' = ts[k := add_member u t]"
    using upd_first_nth [of "\<lambda>x. tid x = i" ts t "add_member u"] by (auto simp: find_tontine_def joined_def)
  moreover have "distinct (members (add_member u t))"
    using f d find_tontine_Some [OF f(1)] by (auto simp: add_member_def list_all_iff)
  ultimately show ?thesis using d by (simp add: list_all_update_in)
qed

lemma settled_distinct:
  assumes "settled ts ts'" "list_all (\<lambda>t. distinct (members t)) ts"
  shows "list_all (\<lambda>t. distinct (members t)) ts'"
proof -
  from assms(1) obtain dp now where p: "list_all2 (\<lambda>t t'. t' = t \<or> (due dp now t \<and> (\<exists>r. t' = complete now r t))) ts ts'"
    by (auto simp: settled_def)
  then have "list_all2 (\<lambda>t t'. members t' = members t) ts ts'"
    by (rule list_all2_mono) (auto simp: complete_def)
  then have "map members ts' = map members ts" by (rule list_all2_map_eq)
  show ?thesis unfolding list_all_iff
  proof
    fix t' assume "t' \<in> set ts'"
    then have "members t' \<in> set (map members ts')" by simp
    with \<open>map members ts' = map members ts\<close> obtain t where "t \<in> set ts" "members t' = members t" by auto
    with assms(2) show "distinct (members t')" by (simp add: list_all_iff)
  qed
qed

lemma sys_step_distinct: "sys_step x y \<Longrightarrow> members_distinct (fst x) \<Longrightarrow> members_distinct (fst y)"
  unfolding members_distinct_def
  by (auto dest!: sys_step_stored simp: appended_def intro: joined_distinct settled_distinct)

lemma join_write_Some:
  "tontines_file st = Json ts \<Longrightarrow> find_tontine ts i = Some t \<Longrightarrow> u \<notin> set (members t) \<Longrightarrow> i \<noteq> [] \<Longrightarrow> u \<noteq> [] \<Longrightarrow>
   join_lookup st (Some i) (Some u) = Inr (ts, t) \<and> join_write st (Some i) (Some u) = Some (Json (joined i u ts))"
proof -
  assume "tontines_file st = Json ts" "find_tontine ts i = Some t" "u \<notin> set (members t)" "i \<noteq> []" "u \<noteq> []"
  then have "join_lookup st (Some i) (Some u) = Inr (ts, t)" by (simp add: join_lookup_Inr)
  then show ?thesis by (simp add: join_write_def)
qed

lemma joined_wf: "joined_at ts ts' \<Longrightarrow> list_all wf_tontine ts \<Longrightarrow> list_all wf_tontine ts'"
proof -
  assume "joined_at ts ts'" "list_all wf_tontine ts"
  then obtain i u t where f: "find_tontine ts i = Some t" "ts' = joined i u ts"
    by (auto simp: joined_at_def)
  then have "set ts' \<subseteq> insert (add_member u t) (set ts)"
    by (simp add: joined_def find_tontine_def set_upd_first)
  moreover have "wf_tontine (add_member u t)" "wf_tontine t"
    using find_tontine_Some [OF f(1)] \<open>list_all wf_tontine ts\<close>
    by (auto simp: wf_tontine_def add_member_def list_all_iff)
  ultimately show ?thesis using \<open>list_all wf_tontine ts\<close> by (auto simp: list_all_iff)
qed

lemma settled_wf:
  assumes "settled ts ts'" "list_all wf_tontine ts"
  shows "list_all wf_tontine ts'"
proof -
  from assms(1) obtain dp now where p: "list_all2 (\<lambda>t t'. t' = t \<or> (due dp now t \<and> (\<exists>r. t' = complete now r t))) ts ts'"
    by (auto simp: settled_def)
  then have "list_all2 (\<lambda>t t'. wf_tontine t \<longrightarrow> wf_tontine t') ts ts'"
    by (rule list_all2_mono) (auto simp: complete_def wf_tontine_def)
  then show ?thesis using assms(2)
    by (induction rule: list_all2_induct) auto
qed

lemma sys_step_wf: "sys_step x y \<Longrightarrow> wf_store (fst x) \<Longrightarrow> wf_store (fst y)"
  unfolding wf_store_def
  by (auto dest!: sys_step_stored simp: appended_def intro: joined_wf settled_wf)

lemma transfer_funds_wf_error:
  "transfer_funds L w (Some d) = (Inl e, L') \<Longrightarrow> e \<noteq> TypeError \<and> e \<noteq> InvalidTx"
  by (auto simp: transfer_funds_def get_rlusd_balance_def split: sum.splits option.splits if_splits)

lemma settle_loop_wf_error:
  "list_all wf_tontine ts \<Longrightarrow> settle_loop dp now L ts = (Inl e, L') \<Longrightarrow> e \<noteq> TypeError \<and> e \<noteq> InvalidTx"
proof (induction dp now L ts arbitrary: L' rule: settle_loop.induct)
  case (1 dp now L)
  then show ?case by simp
next
  case (2 dp now L t ts)
  then have wf: "wf_tontine t" "list_all wf_tontine ts" by simp_all
  show ?case
  proof (cases "due dp now t")
    case False
    with 2 show ?thesis by (simp add: pass_Inl)
  next
    case True
    with wf(1) obtain w d where "wallet t = Some w" "destination t = Some d"
      by (auto simp: wf_tontine_def due_def)
    with True 2 show ?thesis
      by (auto simp: pass_Inl split: sum.splits prod.splits if_splits
          dest: transfer_funds_wf_error get_rlusd_balance_error)
  qed
qed

lemma sys_steps_wf: "sys_step\<^sup>*\<^sup>* x y \<Longrightarrow> wf_store (fst x) \<Longrightarrow> wf_store (fst y)"
  by (induction rule: rtranclp_induct) (auto dest: sys_step_wf)

lemma trigger_transfer_wf_error:
  assumes "wf_store st" "trigger_transfer dp now st L = (Inl (Internal e), st', L')"
  shows "e \<noteq> TypeError \<and> e \<noteq> InvalidTx"
proof (cases "read_trimmed (tontines_file st)")
  case (Inl x)
  then show ?thesis using assms(2) by (cases "tontines_file st") (auto simp: trigger_transfer_def)
next
  case (Inr ts)
  with assms(1) have "list_all wf_tontine ts" by (simp add: wf_store_def stored_def)
  with Inr assms(2) show ?thesis
    by (auto simp: trigger_transfer_def split: sum.splits prod.splits dest: settle_loop_wf_error)
qed

lemma app_step_server:
  assumes "app_step (br, st, L) (br', st', L')"
  shows "st' = st \<or> sys_step (st, L) (st', L')"
  using assms
proof cases
  case (loginSubmit lp now rnd net lp')
  then show ?thesis
    by (auto simp: handle_login_def intro: sys_step.auth split: if_splits sum.splits prod.splits)
next
  case (createSubmit cp now gen net cp')
  then show ?thesis
    by (auto simp: handle_create_wallet_def intro: sys_step.createWallet split: if_splits sum.splits prod.splits)
next
  case (joinEvent p e p')
  then show ?thesis
    by (cases e) (auto intro: sys_step.join split: if_splits sum.splits prod.splits option.splits)
next
  case (transferMount dp now net tp)
  then show ?thesis
    by (auto simp: transfer_mount_def intro: sys_step.settle split: if_splits sum.splits prod.splits)
qed auto

lemma users_append_find:
  "List.find P us = Some u \<Longrightarrow> List.find P (us @ vs) = Some u"
  by (induction us) auto

lemma login_users:
  "login st now rnd fwa = (a, st') \<Longrightarrow> \<exists>vs. users st' = users st @ vs"
  by (auto simp: login_def users_def Let_def split: if_splits sum.splits option.splits)

lemma sys_step_users:
  assumes "sys_step (st, L) (st', L')"
  shows "\<exists>vs. users st' = users st @ vs"
  using assms
proof cases
  case (auth now rnd fwa a)
  then show ?thesis by (auto dest: login_users)
qed (auto simp: users_def create_tontine_def create_wallet_def join_tontine_def join_trustline_def
      trigger_transfer_def Let_def split: if_splits sum.splits prod.splits option.splits)

lemma app_step_users:
  "app_step (br, st, L) (br', st', L') \<Longrightarrow> \<exists>vs. users st' = users st @ vs"
  by (metis app_step_server append_Nil2 sys_step_users)

lemma session_keep:
  "session_ok (br, st, L) \<Longrightarrow> ls_user br' = ls_user br \<Longrightarrow> users st' = users st @ vs \<Longrightarrow>
   session_ok (br', st', L')"
  by (auto simp: session_ok_def users_append_find split: option.splits)

lemma login_session:
  assumes "login st now rnd (Some a) = (Inr u, st')"
  shows "walletAddress u \<noteq> [] \<and> List.find (\<lambda>v. walletAddress v = walletAddress u) (users st') = Some u"
proof -
  from login_Inr [OF assms] obtain us where "a \<noteq> []" "read_users (users_file st) = Inr us"
    "(List.find (\<lambda>u. walletAddress u = a) us = Some u \<and> st' = st) \<or>
     (List.find (\<lambda>u. walletAddress u = a) us = None \<and> u = new_user now rnd a \<and>
      st' = st\<lparr>users_file := Json (us @ [u])\<rparr>)" by auto
  moreover have "walletAddress u = a" using assms by (rule login_address)
  ultimately show ?thesis
    by (auto simp: users_def find_wallet_snoc dest: find_Some_iff [THEN iffD1])
qed

lemma app_step_keep:
  "app_step (br, st, L) (br', st', L') \<Longrightarrow> session_ok (br, st, L) \<Longrightarrow> ls_user br' = ls_user br \<Longrightarrow>
   session_ok (br', st', L')"
  by (blast dest: app_step_users intro: session_keep)

lemma app_step_ls_user:
  assumes "app_step (br, st, L) (br', st', L')"
  shows "ls_user br' = ls_user br \<or> ls_user br' = None \<or>
         (\<exists>now rnd a u. login st now rnd (Some a) = (Inr u, st') \<and> ls_user br' = Some u)"
  using assms
proof cases
  case (loginSubmit lp now rnd net lp')
  then show ?thesis by (auto simp: handle_login_def split: if_splits sum.splits prod.splits)
qed (auto simp: layout_guard_def check_auth_def login_mount_def card_click_def create_redirect_def
       dashboard_mount_def handle_logout_def split: option.splits)

lemma app_step_session:
  assumes "app_step (br, st, L) (br', st', L')" "session_ok (br, st, L)"
  shows "session_ok (br', st', L')"
  using app_step_ls_user [OF assms(1)]
proof (elim disjE exE conjE)
  assume "ls_user br' = ls_user br"
  then show ?thesis by (rule app_step_keep [OF assms])
next
  assume "ls_user br' = None"
  then show ?thesis by (simp add: session_ok_def)
next
  fix now rnd a u
  assume "login st now rnd (Some a) = (Inr u, st')" "ls_user br' = Some u"
  then show ?thesis by (simp add: session_ok_def login_session)
qed

lemma session_login:
  "session_ok (br, st, L) \<Longrightarrow> ls_user br = Some u \<Longrightarrow> login st now rnd (Some (walletAddress u)) = (Inr u, st)"
  by (auto simp: session_ok_def users_def login_def split: sum.splits)

lemma app_steps_session:
  "app_step\<^sup>*\<^sup>* s s' \<Longrightarrow> session_ok s \<Longrightarrow> session_ok s'"
  by (induction rule: rtranclp_induct) (auto intro: app_step_session)

section \<open>Properties of the system\<close>

text \<open>C2: Settlement monotonicity over the whole system: along any sequence of requests
  (creations, joins, logins, settlement passes), the stored tontines keep their places and
  each one's status stays the same or goes from active to completed, never back.\<close>

theorem status_never_reverts:
  "sys_step\<^sup>*\<^sup>* (st, L) (st', L') \<Longrightarrow> evolves (stored st) (stored st')"
proof -
  have "sys_step\<^sup>*\<^sup>* x y \<Longrightarrow> evolves (stored (fst x)) (stored (fst y))" for x y
    by (induction rule: rtranclp_induct) (auto intro: evolves_trans sys_step_evolves)
  then show "sys_step\<^sup>*\<^sup>* (st, L) (st', L') \<Longrightarrow> evolves (stored st) (stored st')" by fastforce
qed

text \<open>C8: Members are distinct: along any sequence of requests, if the member list of every
  stored tontine has no repeated user, it never gets one.\<close>

theorem members_distinct_reachable:
  "sys_step\<^sup>*\<^sup>* (st, L) (st', L') \<Longrightarrow> members_distinct st \<Longrightarrow> members_distinct st'"
proof -
  have "sys_step\<^sup>*\<^sup>* x y \<Longrightarrow> members_distinct (fst x) \<Longrightarrow> members_distinct (fst y)" for x y
    by (induction rule: rtranclp_induct) (auto dest: sys_step_distinct)
  then show "sys_step\<^sup>*\<^sup>* (st, L) (st', L') \<Longrightarrow> members_distinct st \<Longrightarrow> members_distinct st'" by fastforce
qed

text \<open>C7: Concurrent joins lose members (spec section 5): when two users join the same
  tontine and both requests read the file before either writes it, the second write
  replaces the first and the tontine ends with only the second user added; run one after
  the other, both are added.\<close>

theorem join_race_loses_member:
  assumes "tontines_file st = Json ts" "find_tontine ts i = Some t" "u \<notin> set (members t)" "v \<notin> set (members t)"
    and "u \<noteq> v" "i \<noteq> []" "u \<noteq> []" "v \<noteq> []"
  shows "map_option members (find_tontine (stored (concurrent_joins st [(Some i, Some u), (Some i, Some v)])) i) =
           Some (members t @ [v]) \<and>
         map_option members (find_tontine (stored (sequential_joins st [(Some i, Some u), (Some i, Some v)])) i) =
           Some (members t @ [u, v])"
proof -
  note wu = join_write_Some [OF assms(1,2,3,6,7)] and wv = join_write_Some [OF assms(1,2,4,6,8)]
  let ?st1 = "st\<lparr>tontines_file := Json (joined i u ts)\<rparr>"
  have j1: "snd (join_tontine st (Some i) (Some u)) = ?st1" using wu by (simp add: join_tontine_write)
  have f1: "find_tontine (joined i u ts) i = Some (add_member u t)" using assms(2) by (simp add: find_joined)
  have "u \<noteq> v" by (rule assms(5))
  then have "v \<notin> set (members (add_member u t))" using assms(4) by (simp add: add_member_def)
  from join_write_Some [of ?st1, OF _ f1 this assms(6,8)]
  have "snd (join_tontine ?st1 (Some i) (Some v)) = ?st1\<lparr>tontines_file := Json (joined i v (joined i u ts))\<rparr>"
    by (simp add: join_tontine_write)
  with j1 f1 have "find_tontine (stored (sequential_joins st [(Some i, Some u), (Some i, Some v)])) i =
      Some (add_member v (add_member u t))"
    by (simp add: sequential_joins_def find_joined assms(2))
  moreover have "find_tontine (stored (concurrent_joins st [(Some i, Some u), (Some i, Some v)])) i = Some (add_member v t)"
    using wu wv assms(2) by (simp add: concurrent_joins_def apply_writes_def find_joined)
  ultimately show ?thesis by (simp add: add_member_def)
qed

text \<open>C18: A user who joined a tontine finds it in the list of their tontines: after a successful
  join-tontine, tontines/list for that user answers the summary of the updated record.\<close>

theorem join_then_listed:
  assumes "join_tontine st (Some i) (Some u) = (Inr t', st')"
  shows "\<exists>ss. tontines_list st' (Some u) = Inr ss \<and> summarize t' \<in> set ss"
proof -
  from assms obtain ts t where l: "join_lookup st (Some i) (Some u) = Inr (ts, t)"
    and r: "t' = add_member u t" "st' = st\<lparr>tontines_file := Json (joined i u ts)\<rparr>"
    by (auto simp: join_tontine_def split: sum.splits)
  with join_lookup_Inr have u: "u \<noteq> []" and f: "find_tontine ts i = Some t" by auto
  then have "find_tontine (joined i u ts) i = Some t'" using r by (simp add: find_joined)
  then have "t' \<in> set (joined i u ts)" by (simp add: find_tontine_Some)
  moreover have "u \<in> set (members t')" using r by (simp add: add_member_def)
  ultimately show ?thesis using u r by (auto simp: tontines_list_Json)
qed

text \<open>C19: The creator of a tontine finds it in the list of their tontines: after a successful
  createWallet, tontines/list for the creator answers an active tontine with the returned id.\<close>

theorem create_wallet_then_listed:
  assumes "create_wallet st L now gen fn fd fs (Some u) = (Inr (i, a), st', L')"
  shows "\<exists>ss. tontines_list st' (Some u) = Inr ss \<and> list_ex (\<lambda>s. s_id s = i \<and> s_status s = Some Active) ss"
  using assms
  by (auto simp: create_wallet_def tontines_list_Json wallet_record_def summarize_def list_ex_iff Let_def
      split: if_splits prod.splits sum.splits)

text \<open>C9: Well-formedness of the stored records: along any sequence of requests, if every
  active record has its wallet and its destination, every active record still has them.\<close>

theorem wf_reachable: "sys_step\<^sup>*\<^sup>* (st, L) (st', L') \<Longrightarrow> wf_store st \<Longrightarrow> wf_store st'"
  using sys_steps_wf [of "(st, L)" "(st', L')"] by simp

text \<open>C10: On a store reached from a well-formed one, a settlement pass never fails for a
  missing wallet (the TypeError of \<open>tontine.wallet.address\<close>) or a missing destination
  (the InvalidTx of an undefined \<open>Destination\<close>): only the gateway, the seed or the file
  can make it fail.\<close>

theorem settle_no_type_error:
  assumes "sys_step\<^sup>*\<^sup>* (st, L) (st', L')" "wf_store st"
    and "trigger_transfer dp now st' Ls = (Inl (Internal e), st'', Ls')"
  shows "e \<noteq> TypeError \<and> e \<noteq> InvalidTx"
  using sys_steps_wf [of "(st, L)" "(st', L')"] assms by (auto dest: trigger_transfer_wf_error)

text \<open>C11: The browser's session stays consistent with the server: in every state the
  application reaches from a browser with nobody logged in, whatever pages ran and whatever
  requests other clients sent, if the browser keeps a user in \<open>localStorage\<close>, logging in
  again with that user's wallet address returns exactly that user and writes nothing.\<close>

theorem session_relogin:
  assumes "app_step\<^sup>*\<^sup>* (br0, st0, L0) (br, st, L)" "ls_user br0 = None" "ls_user br = Some u"
  shows "login st now rnd (Some (walletAddress u)) = (Inr u, st)"
proof -
  have "session_ok (br0, st0, L0)" using assms(2) by (simp add: session_ok_def)
  with assms(1) have "session_ok (br, st, L)" by (rule app_steps_session)
  from session_login [OF this assms(3)] show ?thesis .
qed

lemma club_step:
  "sys_step (club_store, club_ledger) (club_store\<lparr>tontines_file := Json [add_member ''u2'' club_record]\<rparr>, club_ledger)"
  using sys_step.joinTontine [OF club_join] .

theorem status_never_reverts_witness:
  "sys_step\<^sup>*\<^sup>* (club_store, club_ledger) (club_store\<lparr>tontines_file := Json [add_member ''u2'' club_record]\<rparr>, club_ledger) \<and>
   evolves [club_record] [add_member ''u2'' club_record]"
proof -
  have r: "sys_step\<^sup>*\<^sup>* (club_store, club_ledger) (club_store\<lparr>tontines_file := Json [add_member ''u2'' club_record]\<rparr>, club_ledger)"
    using club_step by (rule r_into_rtranclp)
  from status_never_reverts [OF r] r show ?thesis by (simp add: club_store_def stored_def)
qed

theorem members_distinct_reachable_witness:
  "members_distinct club_store \<and> members_distinct (club_store\<lparr>tontines_file := Json [add_member ''u2'' club_record]\<rparr>)"
proof -
  have r: "sys_step\<^sup>*\<^sup>* (club_store, club_ledger) (club_store\<lparr>tontines_file := Json [add_member ''u2'' club_record]\<rparr>, club_ledger)"
    using club_step by (rule r_into_rtranclp)
  have d: "members_distinct club_store"
    by (simp add: members_distinct_def club_store_def club_record_def wallet_record_def stored_def)
  from members_distinct_reachable [OF r d] d show ?thesis by simp
qed

theorem join_race_loses_member_witness:
  "map_option members (find_tontine (stored (concurrent_joins club_store
      [(Some (int_str 1000), Some ''u2''), (Some (int_str 1000), Some ''u3'')])) (int_str 1000)) = Some [''u1'', ''u3''] \<and>
   map_option members (find_tontine (stored (sequential_joins club_store
      [(Some (int_str 1000), Some ''u2''), (Some (int_str 1000), Some ''u3'')])) (int_str 1000)) = Some [''u1'', ''u2'', ''u3'']"
proof -
  have f: "find_tontine [club_record] (int_str 1000) = Some club_record"
    by (simp add: find_tontine_def club_record_def wallet_record_def)
  have m: "members club_record = [''u1'']" by (simp add: club_record_def wallet_record_def)
  have "tontines_file club_store = Json [club_record]" by (simp add: club_store_def)
  from join_race_loses_member [OF this f] m show ?thesis by simp
qed

theorem wf_reachable_witness:
  "wf_store club_store \<and> wf_store (club_store\<lparr>tontines_file := Json [add_member ''u2'' club_record]\<rparr>)"
proof -
  have r: "sys_step\<^sup>*\<^sup>* (club_store, club_ledger) (club_store\<lparr>tontines_file := Json [add_member ''u2'' club_record]\<rparr>, club_ledger)"
    using club_step by (rule r_into_rtranclp)
  have w: "wf_store club_store"
    by (simp add: wf_store_def wf_tontine_def club_store_def club_record_def wallet_record_def stored_def)
  from wf_reachable [OF r w] w show ?thesis by simp
qed

theorem settle_no_type_error_witness:
  "trigger_transfer (\<lambda>s. Some 0) 5 (club_store\<lparr>tontines_file := Json [add_member ''u2'' club_record]\<rparr>)
     (club_ledger\<lparr>down := \<lambda>a. True\<rparr>) =
     (Inl (Internal NetworkError), club_store\<lparr>tontines_file := Json [add_member ''u2'' club_record]\<rparr>,
      club_ledger\<lparr>down := \<lambda>a. True\<rparr>) \<and>
   NetworkError \<noteq> TypeError \<and> NetworkError \<noteq> InvalidTx"
proof -
  have r: "sys_step\<^sup>*\<^sup>* (club_store, club_ledger) (club_store\<lparr>tontines_file := Json [add_member ''u2'' club_record]\<rparr>, club_ledger)"
    using club_step by (rule r_into_rtranclp)
  have w: "wf_store club_store"
    by (simp add: wf_store_def wf_tontine_def club_store_def club_record_def wallet_record_def stored_def)
  have t: "trigger_transfer (\<lambda>s. Some 0) 5 (club_store\<lparr>tontines_file := Json [add_member ''u2'' club_record]\<rparr>)
     (club_ledger\<lparr>down := \<lambda>a. True\<rparr>) =
     (Inl (Internal NetworkError), club_store\<lparr>tontines_file := Json [add_member ''u2'' club_record]\<rparr>,
      club_ledger\<lparr>down := \<lambda>a. True\<rparr>)"
    by (simp add: trigger_transfer_def due_def add_member_def club_record_def wallet_record_def club_wallet_def
        get_rlusd_balance_def)
  from settle_no_type_error [OF r w t] t show ?thesis by simp
qed

theorem join_then_listed_witness:
  "\<exists>ss. tontines_list (club_store\<lparr>tontines_file := Json [add_member ''u2'' club_record]\<rparr>) (Some ''u2'') = Inr ss \<and>
     summarize (add_member ''u2'' club_record) \<in> set ss"
  using join_then_listed [OF club_join] .

theorem create_wallet_then_listed_witness:
  "\<exists>ss. tontines_list (club_store\<lparr>tontines_file := Json [club_record,
     wallet_record 2000 \<lparr>address = ''rN'', secret = ''sN''\<rparr> ''G2'' ''rDest'' ''2025-02-01T10:00'' ''u2'']\<rparr>) (Some ''u2'') = Inr ss \<and>
     list_ex (\<lambda>s. s_id s = int_str 2000 \<and> s_status s = Some Active) ss"
proof -
  have run: "create_wallet club_store club_ledger 2000 \<lparr>address = ''rN'', secret = ''sN''\<rparr>
      (Some ''G2'') (Some ''rDest'') (Some ''2025-02-01T10:00'') (Some ''u2'') =
    (Inr (int_str 2000, ''rN''), club_store\<lparr>tontines_file := Json [club_record,
       wallet_record 2000 \<lparr>address = ''rN'', secret = ''sN''\<rparr> ''G2'' ''rDest'' ''2025-02-01T10:00'' ''u2'']\<rparr>,
     add_trust_line ''rN'' (fund_account ''rN'' club_ledger))"
    by (simp add: create_wallet_def club_fresh_wallet club_store_def wallet_record_def)
  from create_wallet_then_listed [OF run] show ?thesis .
qed


theorem session_relogin_witness:
  "login \<lparr>tontines_file = Missing, users_file = Json [new_user 7 ''k'' ''rU'']\<rparr> 9 ''z'' (Some ''rU'') =
     (Inr (new_user 7 ''k'' ''rU''), \<lparr>tontines_file = Missing, users_file = Json [new_user 7 ''k'' ''rU'']\<rparr>)"
proof -
  have "app_step (\<lparr>ls_user = None, location = []\<rparr>, \<lparr>tontines_file = Missing, users_file = Missing\<rparr>, club_ledger)
     (\<lparr>ls_user = Some (new_user 7 ''k'' ''rU''), location = ''/''\<rparr>,
      \<lparr>tontines_file = Missing, users_file = Json [new_user 7 ''k'' ''rU'']\<rparr>, club_ledger)"
    by (rule app_step.loginSubmit [where lp = "\<lparr>lp_address = ''rU'', lp_error = NoLoginMsg\<rparr>" and now = 7 and rnd = "''k''"
          and net = True and lp' = "\<lparr>lp_address = ''rU'', lp_error = NoLoginMsg\<rparr>"])
       (simp add: handle_login_def login_def read_users_def Let_def)
  from session_relogin [OF r_into_rtranclp [of app_step, OF this], of "new_user 7 ''k'' ''rU''" 9 "''z''"]
  show ?thesis by (simp add: new_user_def)
qed

end
